(* ===== verification/Prelude.thy ===== *)
theory Prelude
  imports Main "HOL-Library.Word"
begin

text \<open>
  Shared vocabulary of the development: the machine types the Go code uses
  (bytes, nanosecond timestamps), Go's map iteration (a \<open>for _, v := range m\<close>
  loop that returns the first value satisfying a test, over an iteration order
  that the Go runtime chooses and the program must not depend on), and the
  collections of lemmas that the component theories extend.
\<close>

named_theorems model_simps \<open>equations that evaluate the model on concrete inputs\<close>
named_theorems inv_simps \<open>facts that discharge the well-formedness invariants\<close>

type_synonym byte = "8 word"
type_synonym time = int \<comment> \<open>a \<open>time.Time\<close>, in nanoseconds\<close>
type_synonym duration = int \<comment> \<open>a \<open>time.Duration\<close>, in nanoseconds\<close>

definition minute :: duration where
  "minute = 60 * 1000000000"

subsection \<open>Iterating over a Go map\<close>

text \<open>
  \<open>ks\<close> is an iteration order of the map \<open>m\<close> when it lists each key of
  \<open>m\<close> exactly once. Go randomises this order on every \<open>range\<close>.
\<close>

definition iteration_order :: "('k \<rightharpoonup> 'v) \<Rightarrow> 'k list \<Rightarrow> bool" where
  "iteration_order m ks \<longleftrightarrow> distinct ks \<and> set ks = dom m"

text \<open>
  \<open>for _, v := range m { if P(v) { return v } }\<close> along the order \<open>ks\<close>.
\<close>

fun find_first_key :: "('k \<rightharpoonup> 'v) \<Rightarrow> ('v \<Rightarrow> bool) \<Rightarrow> 'k list \<Rightarrow> 'v option" where
  "find_first_key m P [] = None"
| "find_first_key m P (k # ks) =
     (case m k of
        None \<Rightarrow> find_first_key m P ks
      | Some v \<Rightarrow> (if P v then Some v else find_first_key m P ks))"

lemma find_first_key_SomeD:
  "find_first_key m P ks = Some v \<Longrightarrow> P v \<and> (\<exists>k \<in> set ks. m k = Some v)"
  by (induction ks) (auto split: option.splits if_splits)

lemma find_first_key_None_iff:
  "find_first_key m P ks = None \<longleftrightarrow> (\<forall>k \<in> set ks. \<forall>v. m k = Some v \<longrightarrow> \<not> P v)"
  by (induction ks) (auto split: option.splits)

lemma find_first_key_hit:
  assumes "k \<in> set ks" "m k = Some v" "P v"
    and u: "\<And>k' v'. m k' = Some v' \<Longrightarrow> P v' \<Longrightarrow> k' = k"
  shows "find_first_key m P ks = Some v"
  using assms(1)
proof (induction ks)
  case Nil
  then show ?case by simp
next
  case (Cons k1 ks)
  show ?case
  proof (cases "k1 = k")
    case True
    with assms(2,3) show ?thesis by simp
  next
    case False
    with Cons.prems have "k \<in> set ks" by simp
    then have r: "find_first_key m P ks = Some v" by (rule Cons.IH)
    show ?thesis
    proof (cases "m k1")
      case None
      with r show ?thesis by simp
    next
      case (Some v1)
      with False u have "\<not> P v1" by blast
      with Some r show ?thesis by simp
    qed
  qed
qed

text \<open>
  When at most one key has a value satisfying the test, the loop's result does
  not depend on the iteration order.
\<close>

lemma find_first_key_order_independent:
  assumes ks: "iteration_order m ks" and ks': "iteration_order m ks'"
    and uniq: "\<And>k1 k2 v1 v2. m k1 = Some v1 \<Longrightarrow> m k2 = Some v2 \<Longrightarrow> P v1 \<Longrightarrow> P v2 \<Longrightarrow> k1 = k2"
  shows "find_first_key m P ks = find_first_key m P ks'"
proof (cases "\<exists>k v. m k = Some v \<and> P v")
  case True
  then obtain k v where kv: "m k = Some v" "P v" by blast
  then have u: "\<And>k' v'. m k' = Some v' \<Longrightarrow> P v' \<Longrightarrow> k' = k" using uniq by blast
  from kv(1) have "k \<in> dom m" by (rule domI)
  with ks ks' have in_ks: "k \<in> set ks" and in_ks': "k \<in> set ks'"
    by (simp_all add: iteration_order_def)
  have "find_first_key m P ks = Some v"
    using in_ks kv u by (rule find_first_key_hit)
  moreover have "find_first_key m P ks' = Some v"
    using in_ks' kv u by (rule find_first_key_hit)
  ultimately show ?thesis by simp
next
  case False
  then have "find_first_key m P xs = None" for xs
    by (simp add: find_first_key_None_iff)
  then show ?thesis by simp
qed

lemma iteration_order_finite:
  assumes "iteration_order m ks"
  shows "finite (dom m)"
proof -
  from assms have "dom m = set ks" by (simp add: iteration_order_def)
  then show ?thesis by simp
qed

subsection \<open>Maps\<close>

lemma ran_upd_subset [inv_simps]:
  "ran (m(k \<mapsto> v)) \<subseteq> insert v (ran m)"
  by (auto simp: ran_def)

lemma ran_restrict_subset [inv_simps]:
  "ran (m(k := None)) \<subseteq> ran m"
  by (auto simp: ran_def)

text \<open>The first index from \<open>k\<close> on at which a retry loop stops.\<close>

lemma first_from:
  assumes "\<exists>j\<ge>(k::nat). P j"
  obtains j where "k \<le> j" "P j" "\<forall>i. k \<le> i \<longrightarrow> i < j \<longrightarrow> \<not> P i"
proof -
  from assms have "\<exists>j. k \<le> j \<and> P j" by blast
  then obtain j where "k \<le> j \<and> P j" "\<forall>m<j. \<not> (k \<le> m \<and> P m)"
    unfolding exists_least_iff [of "\<lambda>j. k \<le> j \<and> P j"] by blast
  then show ?thesis using that by blast
qed

text \<open>Counting the residues below a bound, and the 256 values of a byte.\<close>

lemma lt_div_iff: "(0::nat) < m \<Longrightarrow> q < a div m \<longleftrightarrow> Suc q * m \<le> a"
  by (simp add: Suc_le_eq [symmetric] less_eq_div_iff_mult_less_eq)

lemma mod_slot_bound:
  assumes "(i::nat) < m"
  shows "q * m + i < N \<longleftrightarrow> q < (N + m - Suc i) div m"
  using assms by (simp add: lt_div_iff) arith

lemma card_byte_unat: "card {b :: 8 word. P (unat b)} = card {n. n < 256 \<and> P n}"
proof -
  have inj: "inj_on unat {b :: 8 word. P (unat b)}" by (simp add: inj_on_def word_unat_eq_iff)
  have "unat ` {b :: 8 word. P (unat b)} = {n. n < 256 \<and> P n}"
  proof (intro set_eqI iffI)
    fix n assume "n \<in> unat ` {b :: 8 word. P (unat b)}"
    then obtain b :: "8 word" where "n = unat b" "P (unat b)" by blast
    moreover have "unat b < 2 ^ LENGTH(8)" by (rule unsigned_less)
    ultimately show "n \<in> {n. n < 256 \<and> P n}" by simp
  next
    fix n assume n: "n \<in> {n. n < 256 \<and> P n}"
    then have "unat (word_of_nat n :: 8 word) = n" by (simp add: unat_of_nat)
    with n show "n \<in> unat ` {b :: 8 word. P (unat b)}" by (metis (mono_tags, lifting) image_eqI mem_Collect_eq)
  qed
  with inj show ?thesis by (metis card_image)
qed

lemma count_mod:
  assumes "(i::nat) < m"
  shows "card {n. n < N \<and> n mod m = i} = (N + m - Suc i) div m"
proof -
  have eq: "{n. n < N \<and> n mod m = i} = (\<lambda>q. q * m + i) ` {..< (N + m - Suc i) div m}"
  proof (intro set_eqI iffI)
    fix n assume n: "n \<in> {n. n < N \<and> n mod m = i}"
    then have d: "n div m * m + i = n" using div_mult_mod_eq [of n m] by simp
    then have "n div m * m + i < N" using n by simp
    then have "n div m < (N + m - Suc i) div m" using mod_slot_bound [OF assms] by blast
    with d [symmetric] show "n \<in> (\<lambda>q. q * m + i) ` {..< (N + m - Suc i) div m}" by blast
  next
    fix n assume "n \<in> (\<lambda>q. q * m + i) ` {..< (N + m - Suc i) div m}"
    then obtain q where q: "q < (N + m - Suc i) div m" "n = q * m + i" by blast
    then show "n \<in> {n. n < N \<and> n mod m = i}"
      using assms mod_slot_bound [OF assms, of q N] by simp
  qed
  have "inj_on (\<lambda>q. q * m + i) {..< (N + m - Suc i) div m}" by (auto simp: inj_on_def)
  then show ?thesis by (simp add: eq card_image)
qed

end
