(* ===== verification/Errors.thy ===== *)
theory Errors
  imports Prelude
begin

text \<open>
  The error model (\<open>src/server/errors.go\<close>, \<open>src/utils/errors.go\<close>).
  \<open>ApplicationError\<close> is the only error meant for users; every other Go
  \<open>error\<close> (a database error, a failed read of the random source, a
  \<open>strconv\<close> error, a runtime error such as a slice out of range) is opaque.
  A Go call either returns a value, returns an error, or panics: the three
  constructors of \<open>outcome\<close>. \<open>GetNumberFirstDigits\<close> reads the HTTP status
  out of an error code through \<open>strconv.Itoa\<close> and \<open>strconv.Atoi\<close>, which are
  modelled from the Go documentation.
\<close>

record application_error =
  ErrorCode :: int
  Message :: string

definition NewApplicationError :: "int \<Rightarrow> string \<Rightarrow> application_error" where
  "NewApplicationError errorCode message = \<lparr>ErrorCode = errorCode, Message = message\<rparr>"

datatype go_error =
    AppError application_error
  | OtherError string \<comment> \<open>any error that is not an \<open>ApplicationError\<close>\<close>

datatype panic_value =
    PanicErr go_error \<comment> \<open>\<open>panic(err)\<close> with an \<open>error\<close> value, runtime errors included\<close>
  | PanicNonError string \<comment> \<open>\<open>panic(v)\<close> with a value that is not an \<open>error\<close>\<close>

datatype 'a outcome = Ok 'a | Err go_error | Panic panic_value

text \<open>\<open>func (err ApplicationError) Error() string\<close>, and \<open>Error()\<close> of the others.\<close>

fun error_string :: "go_error \<Rightarrow> string" where
  "error_string (AppError e) = Message e"
| "error_string (OtherError s) = s"

text \<open>\<open>utils.ErrorPanic\<close>: \<open>None\<close> is the \<open>nil\<close> error.\<close>

definition ErrorPanic :: "go_error option \<Rightarrow> unit outcome" where
  "ErrorPanic err = (case err of None \<Rightarrow> Ok () | Some e \<Rightarrow> Panic (PanicErr e))"

subsection \<open>Decimal strings: \<open>strconv.Itoa\<close> and \<open>strconv.Atoi\<close>\<close>

definition digit_char :: "nat \<Rightarrow> char" where
  "digit_char d = char_of (48 + d)"

fun dec_string :: "nat \<Rightarrow> string" where
  "dec_string n = (if n < 10 then [digit_char n] else dec_string (n div 10) @ [digit_char (n mod 10)])"

declare dec_string.simps [simp del]

definition Itoa :: "int \<Rightarrow> string" where
  "Itoa i = (if i < 0 then CHR ''-'' # dec_string (nat (- i)) else dec_string (nat i))"

definition is_digit :: "char \<Rightarrow> bool" where
  "is_digit c \<longleftrightarrow> (48::nat) \<le> of_char c \<and> of_char c \<le> (57::nat)"

definition digits_value :: "string \<Rightarrow> nat" where
  "digits_value s = foldl (\<lambda>n c. 10 * n + (of_char c - 48)) 0 s"

definition parse_unsigned :: "string \<Rightarrow> nat option" where
  "parse_unsigned s = (if s \<noteq> [] \<and> list_all is_digit s then Some (digits_value s) else None)"

text \<open>
  \<open>strconv.Atoi(s)\<close> is \<open>ParseInt(s, 10, 0)\<close>: an optional sign, then at least
  one decimal digit; a syntax error otherwise, a range error outside the
  64-bit \<open>int\<close>.
\<close>

definition int_min :: int where "int_min = - (2 ^ 63)"
definition int_max :: int where "int_max = 2 ^ 63 - 1"

definition split_sign :: "string \<Rightarrow> bool \<times> string" where
  "split_sign s = (case s of
       c # r \<Rightarrow> (if c = CHR ''-'' then (True, r) else if c = CHR ''+'' then (False, r) else (False, s))
     | [] \<Rightarrow> (False, []))"

definition Atoi :: "string \<Rightarrow> go_error + int" where
  "Atoi s = (case split_sign s of (neg, body) \<Rightarrow>
     (case parse_unsigned body of
        None \<Rightarrow> Inl (OtherError (''strconv.Atoi: parsing '' @ s @ '': invalid syntax''))
      | Some n \<Rightarrow>
          (let v = (if neg then - int n else int n) in
           if v < int_min \<or> int_max < v
           then Inl (OtherError (''strconv.Atoi: parsing '' @ s @ '': value out of range''))
           else Inr v)))"

text \<open>
  \<open>utils.GetNumberFirstDigits(number, digitsAmount)\<close>:
  \<open>strconv.Atoi(strconv.Itoa(number)[:digitsAmount])\<close>; slicing beyond the
  string is a runtime panic, a failed \<open>Atoi\<close> goes through \<open>ErrorPanic\<close>.
\<close>

definition GetNumberFirstDigits :: "int \<Rightarrow> int \<Rightarrow> int outcome" where
  "GetNumberFirstDigits number digitsAmount =
     (let s = Itoa number in
      if digitsAmount < 0 \<or> int (length s) < digitsAmount
      then Panic (PanicErr (OtherError ''runtime error: slice bounds out of range''))
      else (case Atoi (take (nat digitsAmount) s) of
              Inl e \<Rightarrow> Panic (PanicErr e)
            | Inr v \<Rightarrow> Ok v))"

text \<open>
  A reference for \<open>GetNumberFirstDigits\<close> by arithmetic alone: the number of
  decimal digits, and the first \<open>k\<close> of them (with the sign, which takes one
  of the \<open>k\<close> characters) as a number; \<open>None\<close> where the Go function panics.
\<close>

fun num_digits :: "nat \<Rightarrow> nat" where
  "num_digits n = (if n < 10 then 1 else Suc (num_digits (n div 10)))"

declare num_digits.simps [simp del]

definition ok_value :: "'a outcome \<Rightarrow> 'a option" where
  "ok_value r = (case r of Ok v \<Rightarrow> Some v | _ \<Rightarrow> None)"

definition first_digits_ref :: "int \<Rightarrow> int \<Rightarrow> int option" where
  "first_digits_ref n k =
     (if 0 \<le> n then
        (if 0 < k \<and> nat k \<le> num_digits (nat n)
         then Some (n div 10 ^ (num_digits (nat n) - nat k)) else None)
      else
        (if 1 < k \<and> nat k \<le> Suc (num_digits (nat (- n)))
         then Some (- int (nat (- n) div 10 ^ (Suc (num_digits (nat (- n))) - nat k))) else None))"

subsection \<open>Decimal strings\<close>

lemma of_char_digit_char [simp]: "d < 10 \<Longrightarrow> of_char (digit_char d) = 48 + d"
  by (simp add: digit_char_def)

lemma is_digit_digit_char [simp]: "d < 10 \<Longrightarrow> is_digit (digit_char d)"
  by (simp add: is_digit_def)

lemma dec_string_unfold:
  "dec_string n = (if n < 10 then [digit_char n] else dec_string (n div 10) @ [digit_char (n mod 10)])"
  by (rule dec_string.simps)

lemma dec_string_small [simp]: "n < 10 \<Longrightarrow> dec_string n = [digit_char n]"
  by (simp add: dec_string_unfold)

lemma dec_string_big: "\<not> n < 10 \<Longrightarrow> dec_string n = dec_string (n div 10) @ [digit_char (n mod 10)]"
  by (subst dec_string_unfold) simp

lemma dec_string_not_Nil [simp]: "dec_string n \<noteq> []"
  by (cases "n < 10") (simp_all add: dec_string_big)

lemma dec_string_all_digits: "list_all is_digit (dec_string n)"
proof (induction n rule: dec_string.induct)
  case (1 n)
  then show ?case by (cases "n < 10") (simp_all add: dec_string_big)
qed

lemma digits_value_snoc: "digits_value (xs @ [c]) = 10 * digits_value xs + (of_char c - 48)"
  by (simp add: digits_value_def)

lemma digits_value_dec_string: "digits_value (dec_string n) = n"
proof (induction n rule: dec_string.induct)
  case (1 n)
  show ?case
  proof (cases "n < 10")
    case True
    then show ?thesis by (simp add: digits_value_def)
  next
    case False
    with "1.IH" show ?thesis by (simp add: dec_string_big digits_value_snoc)
  qed
qed

lemma parse_unsigned_dec_string: "parse_unsigned (dec_string n) = Some n"
  by (simp add: parse_unsigned_def dec_string_all_digits digits_value_dec_string)

lemma hd_dec_string_digit: "is_digit (hd (dec_string n))"
  using dec_string_all_digits [of n] dec_string_not_Nil [of n]
  by (cases "dec_string n") auto

lemma split_sign_digit: "s \<noteq> [] \<Longrightarrow> is_digit (hd s) \<Longrightarrow> split_sign s = (False, s)"
  by (cases s) (auto simp: split_sign_def is_digit_def)

lemma split_sign_dec_string: "split_sign (dec_string n) = (False, dec_string n)"
  by (rule split_sign_digit) (simp_all add: hd_dec_string_digit)

lemma Atoi_dec_string: "int (n::nat) \<le> int_max \<Longrightarrow> Atoi (dec_string n) = Inr (int n)"
  by (simp add: Atoi_def split_sign_dec_string parse_unsigned_dec_string int_min_def)

text \<open>
  \<open>strconv.Atoi\<close> reads back what \<open>strconv.Itoa\<close> prints, for every
  64-bit \<open>int\<close>.
\<close>

theorem Atoi_Itoa:
  assumes "int_min \<le> i" "i \<le> int_max"
  shows "Atoi (Itoa i) = Inr i"
proof (cases "i < 0")
  case True
  then show ?thesis
    using assms by (simp add: Atoi_def Itoa_def split_sign_def parse_unsigned_dec_string)
next
  case False
  then show ?thesis using assms by (simp add: Itoa_def Atoi_dec_string)
qed

lemma length_dec_string: "10 ^ d \<le> n \<Longrightarrow> n < 10 ^ Suc d \<Longrightarrow> length (dec_string n) = Suc d"
proof (induction d arbitrary: n)
  case 0
  then show ?case by simp
next
  case (Suc d)
  have "(10::nat) * 1 \<le> 10 * 10 ^ d" by (intro mult_le_mono2) simp
  with Suc.prems(1) have "\<not> n < 10" unfolding power_Suc by linarith
  moreover have "10 ^ d \<le> n div 10" using Suc.prems(1) by (simp add: less_eq_div_iff_mult_less_eq mult.commute)
  moreover have "n div 10 < 10 ^ Suc d" using Suc.prems(2) by (simp add: div_less_iff_less_mult mult.commute)
  ultimately show ?case using Suc.IH by (simp add: dec_string_big)
qed

lemma take_dec_string:
  "0 < k \<Longrightarrow> k \<le> length (dec_string n) \<Longrightarrow>
   take k (dec_string n) = dec_string (n div 10 ^ (length (dec_string n) - k))"
proof (induction n rule: dec_string.induct)
  case (1 n)
  show ?case
  proof (cases "n < 10")
    case True
    with "1.prems" show ?thesis by simp
  next
    case False
    let ?p = "dec_string (n div 10)"
    have len: "length (dec_string n) = Suc (length ?p)" using False by (simp add: dec_string_big)
    show ?thesis
    proof (cases "k \<le> length ?p")
      case True
      with "1.IH" False "1.prems"(1) have "take k ?p = dec_string (n div 10 div 10 ^ (length ?p - k))"
        by blast
      moreover have "n div 10 div 10 ^ (length ?p - k) = n div 10 ^ (length (dec_string n) - k)"
        using True len by (simp add: div_mult2_eq Suc_diff_le)
      ultimately show ?thesis using True False by (simp add: dec_string_big)
    next
      case False
      with "1.prems"(2) len have "k = length (dec_string n)" by simp
      then show ?thesis by simp
    qed
  qed
qed

lemma GetNumberFirstDigits_nonneg:
  assumes "0 \<le> number" "number \<le> int_max" "0 < k" "k \<le> int (length (Itoa number))"
  shows "GetNumberFirstDigits number k = Ok (number div 10 ^ (length (Itoa number) - nat k))"
proof -
  let ?n = "nat number" and ?e = "length (Itoa number) - nat k"
  have s: "Itoa number = dec_string ?n" using assms(1) by (simp add: Itoa_def)
  have tk: "take (nat k) (Itoa number) = dec_string (?n div 10 ^ ?e)"
    using assms s by (simp add: take_dec_string)
  have "int (?n div 10 ^ ?e) \<le> int_max"
    using assms(1,2) div_le_dividend [of ?n "10 ^ ?e"] by linarith
  then have "Atoi (take (nat k) (Itoa number)) = Inr (int (?n div 10 ^ ?e))"
    by (simp add: tk Atoi_dec_string)
  moreover have "int (?n div 10 ^ ?e) = number div 10 ^ ?e"
    using assms(1) by (simp add: zdiv_int)
  ultimately show ?thesis
    using assms(3,4) by (simp add: GetNumberFirstDigits_def Let_def)
qed

lemma length_Itoa_five_digits: "10000 \<le> c \<Longrightarrow> c < 100000 \<Longrightarrow> length (Itoa c) = 5"
proof -
  assume "10000 \<le> c" "c < 100000"
  then have "10 ^ 4 \<le> nat c" "nat c < 10 ^ Suc 4" by auto
  then have "length (dec_string (nat c)) = 5" by (subst length_dec_string) simp_all
  with \<open>10000 \<le> c\<close> show ?thesis by (simp add: Itoa_def)
qed

lemma GetNumberFirstDigits_five_digits:
  "10000 \<le> c \<Longrightarrow> c < 100000 \<Longrightarrow> GetNumberFirstDigits c 3 = Ok (c div 100)"
  by (simp add: GetNumberFirstDigits_nonneg length_Itoa_five_digits int_max_def)

text \<open>
  An error code with fewer than three digits makes
  \<open>GetNumberFirstDigits(code, 3)\<close> panic (the slice \<open>[:3]\<close> is out of range).
\<close>

theorem short_code_panics:
  "0 \<le> c \<Longrightarrow> c < 100 \<Longrightarrow> \<exists>msg. GetNumberFirstDigits c 3 = Panic (PanicErr (OtherError msg))"
proof -
  assume "0 \<le> c" "c < 100"
  then have "length (Itoa c) \<le> 2"
    by (cases "c < 10") (auto simp: Itoa_def dec_string_big intro: le_SucI)
  then show ?thesis by (simp add: GetNumberFirstDigits_def)
qed

subsection \<open>\<open>GetNumberFirstDigits\<close> against its arithmetic reference\<close>

lemma length_dec_string_num_digits: "length (dec_string n) = num_digits n"
proof (induction n rule: dec_string.induct)
  case (1 n)
  then show ?case
    by (cases "n < 10") (simp_all add: dec_string_big num_digits.simps)
qed

lemma Atoi_neg_dec_string: "int m \<le> 2 ^ 63 \<Longrightarrow> Atoi (CHR ''-'' # dec_string m) = Inr (- int m)"
  by (simp add: Atoi_def split_sign_def parse_unsigned_dec_string int_min_def int_max_def)

lemma Atoi_no_digits: "Atoi [] = Inl (OtherError ''strconv.Atoi: parsing : invalid syntax'')"
  "Atoi ''-'' = Inl (OtherError ''strconv.Atoi: parsing -: invalid syntax'')"
  by (simp_all add: Atoi_def split_sign_def parse_unsigned_def)

lemma GetNumberFirstDigits_out_of_range:
  "k < 0 \<or> int (length (Itoa n)) < k \<Longrightarrow> ok_value (GetNumberFirstDigits n k) = None"
  by (auto simp: GetNumberFirstDigits_def ok_value_def Let_def)

lemma GetNumberFirstDigits_no_digits:
  "Atoi (take (nat k) (Itoa n)) = Inl e \<Longrightarrow> ok_value (GetNumberFirstDigits n k) = None"
  by (simp add: GetNumberFirstDigits_def ok_value_def Let_def)

lemma GetNumberFirstDigits_neg:
  assumes "n < 0" "int_min \<le> n" "1 < k" "nat k \<le> Suc (num_digits (nat (- n)))"
  shows "GetNumberFirstDigits n k =
           Ok (- int (nat (- n) div 10 ^ (Suc (num_digits (nat (- n))) - nat k)))"
proof -
  let ?m = "nat (- n)" and ?e = "Suc (num_digits (nat (- n))) - nat k"
  have s: "Itoa n = CHR ''-'' # dec_string ?m" using assms(1) by (simp add: Itoa_def)
  have "take (nat k - 1) (dec_string ?m) = dec_string (?m div 10 ^ (length (dec_string ?m) - (nat k - 1)))"
    using assms(3,4) by (intro take_dec_string) (simp_all add: length_dec_string_num_digits)
  moreover have "length (dec_string ?m) - (nat k - 1) = ?e"
    using assms(3) by (simp add: length_dec_string_num_digits)
  moreover have "take (nat k) (Itoa n) = CHR ''-'' # take (nat k - 1) (dec_string ?m)"
    using assms(3) s by (cases "nat k") simp_all
  ultimately have tk: "take (nat k) (Itoa n) = CHR ''-'' # dec_string (?m div 10 ^ ?e)" by simp
  have "?m \<le> 2 ^ 63" using assms(2) by (simp add: int_min_def nat_le_iff)
  then have "?m div 10 ^ ?e \<le> 2 ^ 63" using div_le_dividend order_trans by blast
  then have "int (?m div 10 ^ ?e) \<le> 2 ^ 63" by (metis of_nat_le_iff of_nat_numeral of_nat_power)
  then have "Atoi (take (nat k) (Itoa n)) = Inr (- int (?m div 10 ^ ?e))"
    by (simp add: tk Atoi_neg_dec_string)
  moreover have "int (length (Itoa n)) \<ge> k"
    using assms(3,4) s by (simp add: length_dec_string_num_digits)
  ultimately show ?thesis using assms(3) by (simp add: GetNumberFirstDigits_def Let_def)
qed


lemma GetNumberFirstDigits_equiv_nonneg:
  assumes "0 \<le> n" "n \<le> int_max"
  shows "ok_value (GetNumberFirstDigits n k) = first_digits_ref n k"
proof -
  have len: "length (Itoa n) = num_digits (nat n)" using assms(1) by (simp add: Itoa_def length_dec_string_num_digits)
  show ?thesis
  proof (cases "0 < k \<and> nat k \<le> num_digits (nat n)")
    case True
    then have "0 < k" "k \<le> int (length (Itoa n))" using len by auto
    from GetNumberFirstDigits_nonneg [OF assms(1) assms(2) this] True assms(1) len show ?thesis
      by (simp add: first_digits_ref_def ok_value_def)
  next
    case False
    then consider "k < 0 \<or> int (length (Itoa n)) < k" | "k = 0" using len by linarith
    then show ?thesis
    proof cases
      case 1
      with False assms(1) show ?thesis by (simp add: GetNumberFirstDigits_out_of_range first_digits_ref_def)
    next
      case 2
      then show ?thesis using assms(1) Atoi_no_digits(1)
        by (simp add: GetNumberFirstDigits_no_digits first_digits_ref_def)
    qed
  qed
qed

lemma GetNumberFirstDigits_equiv_neg:
  assumes neg: "n < 0" and lo: "int_min \<le> n"
  shows "ok_value (GetNumberFirstDigits n k) = first_digits_ref n k"
proof -
  let ?m = "nat (- n)"
  have s: "Itoa n = CHR ''-'' # dec_string ?m" using neg by (simp add: Itoa_def)
  have len: "length (Itoa n) = Suc (num_digits ?m)" by (simp add: s length_dec_string_num_digits)
  show ?thesis
  proof (cases "1 < k \<and> nat k \<le> Suc (num_digits ?m)")
    case True
    with neg lo show ?thesis
      by (simp add: GetNumberFirstDigits_neg first_digits_ref_def ok_value_def)
  next
    case no: False
    then consider "k < 0 \<or> int (length (Itoa n)) < k" | "k = 0" | "k = 1" using len by linarith
    then show ?thesis
    proof cases
      case 1
      with no neg show ?thesis by (simp add: GetNumberFirstDigits_out_of_range first_digits_ref_def)
    next
      case 2
      then show ?thesis using neg Atoi_no_digits(1)
        by (simp add: GetNumberFirstDigits_no_digits first_digits_ref_def)
    next
      case 3
      then have "take (nat k) (Itoa n) = ''-''" by (simp add: s)
      then show ?thesis using neg 3 Atoi_no_digits(2)
        by (simp add: GetNumberFirstDigits_no_digits first_digits_ref_def)
    qed
  qed
qed

text \<open>
  C13: On every 64-bit \<open>int\<close>, \<open>GetNumberFirstDigits(n, k)\<close>, which prints the
  number and parses a prefix of the text back, agrees with the arithmetic
  reference \<open>first_digits_ref\<close>: it returns the first \<open>k\<close> characters' value
  exactly when the reference is defined, and panics otherwise.
\<close>

theorem GetNumberFirstDigits_equiv:
  assumes "int_min \<le> n" "n \<le> int_max"
  shows "ok_value (GetNumberFirstDigits n k) = first_digits_ref n k"
  using assms GetNumberFirstDigits_equiv_nonneg GetNumberFirstDigits_equiv_neg by (cases "0 \<le> n") auto

lemma GetNumberFirstDigits_equiv_witness:
  "int_min \<le> (-40400::int) \<and> (-40400::int) \<le> int_max \<and>
   ok_value (GetNumberFirstDigits (-40400) 3) = Some (-40)"
proof -
  have "num_digits 40400 = 5" by (simp add: num_digits.simps)
  then have "first_digits_ref (-40400) 3 = Some (-40)" by (simp add: first_digits_ref_def)
  then show ?thesis using GetNumberFirstDigits_equiv [of "-40400" 3] by (simp add: int_min_def int_max_def)
qed

end
