(* ===== verification/Codes.thy ===== *)
theory Codes
  imports Errors
begin

text \<open>
  The code store (\<open>src/server/codes.go\<close>): a Go map from a one-time code to
  its \<open>CodeInformation\<close>, the lookups \<open>GetInformation\<close> and \<open>GetForXuid\<close>,
  \<open>Issue\<close> and \<open>Revoke\<close>, and the generation of a fresh code from the random
  source.
  The environment of a call is explicit: the iteration order the Go runtime
  picks for \<open>range s.codes\<close> (a list of the map's keys), the results of the
  successive \<open>rand.Read\<close> calls (a \<open>rand_source\<close>: \<open>None\<close> for a failed read),
  and the two readings of \<open>time.Now()\<close>.
  \<open>findFreeCode\<close> retries for ever while it draws codes already in use, so it
  is a \<open>partial_function (option)\<close>: \<open>None\<close> is the run that never returns.
\<close>

record code_information =
  Code :: string
  XUID :: string
  Issued :: time
  Expires :: time

record default_code_store =
  codes :: "string \<rightharpoonup> code_information"

type_synonym rand_source = "nat \<Rightarrow> byte list option"

definition newDefaultCodeStore :: default_code_store where
  "newDefaultCodeStore = \<lparr>codes = Map.empty\<rparr>"

definition code_not_found :: go_error where
  "code_not_found = AppError (NewApplicationError 40400 ''Code doesn't exist'')"

definition GetInformation :: "default_code_store \<Rightarrow> string \<Rightarrow> code_information outcome" where
  "GetInformation s code = (case codes s code of
       None \<Rightarrow> Err code_not_found
     | Some info \<Rightarrow> Ok info)"

definition GetForXuid :: "string list \<Rightarrow> default_code_store \<Rightarrow> string \<Rightarrow> code_information outcome" where
  "GetForXuid order s xuid =
     (case find_first_key (codes s) (\<lambda>info. code_information.XUID info = xuid) order of
        Some info \<Rightarrow> Ok info
      | None \<Rightarrow> Err (AppError (NewApplicationError 40400 ''There is no code for this XUID'')))"

text \<open>
  \<open>generateCode(length)\<close>: a zeroed buffer of \<open>length\<close> bytes is filled by
  \<open>rand.Read\<close> (the argument: the bytes it wrote, or \<open>None\<close> for its error),
  then each byte \<open>b\<close> is replaced by \<open>randomChars[int(b) % len(randomChars)]\<close>.
\<close>

definition randomChars :: string where
  "randomChars = ''0123456789ABCDEFGHIKLMNOPQRSTVXYZ''"

definition rand_fill :: "nat \<Rightarrow> byte list \<Rightarrow> byte list" where
  "rand_fill n bs = take n bs @ replicate (n - length bs) 0"

definition encode_buffer :: "byte list \<Rightarrow> string" where
  "encode_buffer buffer = map (\<lambda>b. randomChars ! (unat b mod length randomChars)) buffer"

definition generateCode :: "nat \<Rightarrow> byte list option \<Rightarrow> string outcome" where
  "generateCode len read = (case read of
       None \<Rightarrow> Err (OtherError ''crypto/rand: read failed'')
     | Some bs \<Rightarrow> Ok (encode_buffer (rand_fill len bs)))"

text \<open>
  \<open>findFreeCode\<close>: the \<open>k\<close>-th iteration uses the \<open>k\<close>-th read of the random
  source; a failed read panics; a code that \<open>GetInformation\<close> finds is drawn again.
\<close>

partial_function (option) findFreeCode :: "default_code_store \<Rightarrow> rand_source \<Rightarrow> nat \<Rightarrow> string outcome option" where
  "findFreeCode s rs k =
     (case generateCode 6 (rs k) of
        Ok generated \<Rightarrow>
          (case GetInformation s generated of
             Ok _ \<Rightarrow> findFreeCode s rs (Suc k)
           | _ \<Rightarrow> Some (Ok generated))
      | Err e \<Rightarrow> Some (Panic (PanicErr e))
      | Panic p \<Rightarrow> Some (Panic p))"

declare findFreeCode.simps [code]

definition code_validity :: duration where
  "code_validity = 15 * minute"

text \<open>
  \<open>Issue(xuid)\<close>. Its result is \<open>s.codes[xuid]\<close>, the map looked up with the
  XUID as key, as the source has it (line 62).
\<close>

definition Issue ::
  "string list \<Rightarrow> rand_source \<Rightarrow> time \<Rightarrow> time \<Rightarrow> default_code_store \<Rightarrow> string
   \<Rightarrow> (default_code_store \<times> code_information option outcome) option" where
  "Issue order rs now1 now2 s xuid =
     (case GetForXuid order s xuid of
        Ok existing \<Rightarrow>
          Some (s, Err (AppError (NewApplicationError 40000 (''Code '' @ Code existing @ '' is already issued''))))
      | _ \<Rightarrow>
          (case findFreeCode s rs 0 of
             None \<Rightarrow> None
           | Some (Ok generatedCode) \<Rightarrow>
               (let s' = s\<lparr>codes := (codes s)(generatedCode \<mapsto>
                          \<lparr>Code = generatedCode, XUID = xuid, Issued = now1,
                           Expires = now2 + code_validity\<rparr>)\<rparr>
                in Some (s', Ok (codes s' xuid)))
           | Some (Err e) \<Rightarrow> Some (s, Err e)
           | Some (Panic p) \<Rightarrow> Some (s, Panic p)))"

definition Revoke :: "default_code_store \<Rightarrow> string \<Rightarrow> default_code_store \<times> unit outcome" where
  "Revoke s code = (case GetInformation s code of
       Ok _ \<Rightarrow> (s\<lparr>codes := (codes s)(code := None)\<rparr>, Ok ())
     | _ \<Rightarrow> (s, Err code_not_found))"

text \<open>
  The calls of the \<open>CodeStore\<close> interface and the store each leaves behind;
  \<open>None\<close> is an \<open>Issue\<close> that never returns.
\<close>

datatype code_call =
    CallGetInformation string
  | CallGetForXuid string
  | CallIssue string
  | CallRevoke string

fun run_codes ::
  "string list \<Rightarrow> rand_source \<Rightarrow> time \<Rightarrow> time \<Rightarrow> default_code_store \<Rightarrow> code_call \<Rightarrow> default_code_store option" where
  "run_codes ks rs t1 t2 s (CallGetInformation c) = Some s"
| "run_codes ks rs t1 t2 s (CallGetForXuid x) = Some s"
| "run_codes ks rs t1 t2 s (CallIssue x) = map_option fst (Issue ks rs t1 t2 s x)"
| "run_codes ks rs t1 t2 s (CallRevoke c) = Some (fst (Revoke s c))"

subsection \<open>Invariant and the stopping condition of the retry loop\<close>

text \<open>
  The store is well formed when it is finite, every entry is stored under its
  own code, every code is six characters of \<open>randomChars\<close>, and no two codes
  belong to the same XUID (the spec's "at most one active code per subject").
\<close>

definition entry_ok :: "string \<Rightarrow> code_information \<Rightarrow> bool" where
  "entry_ok c info \<longleftrightarrow> Code info = c \<and> length c = 6 \<and> set c \<subseteq> set randomChars"

definition xuid_unique :: "default_code_store \<Rightarrow> bool" where
  "xuid_unique s \<longleftrightarrow> (\<forall>c1 c2 i1 i2. codes s c1 = Some i1 \<longrightarrow> codes s c2 = Some i2 \<longrightarrow>
       code_information.XUID i1 = code_information.XUID i2 \<longrightarrow> c1 = c2)"

definition code_store_inv :: "default_code_store \<Rightarrow> bool" where
  "code_store_inv s \<longleftrightarrow> finite (dom (codes s)) \<and>
     (\<forall>c info. codes s c = Some info \<longrightarrow> entry_ok c info) \<and> xuid_unique s"

text \<open>The \<open>k\<close>-th iteration of \<open>findFreeCode\<close> returns (or panics) rather than retrying.\<close>

definition draw_stops :: "default_code_store \<Rightarrow> rand_source \<Rightarrow> nat \<Rightarrow> bool" where
  "draw_stops s rs k \<longleftrightarrow> (case generateCode 6 (rs k) of Ok g \<Rightarrow> codes s g = None | _ \<Rightarrow> True)"

text \<open>What \<open>findFreeCode\<close> returns when it stops at its \<open>k\<close>-th iteration.\<close>

definition draw_exit :: "rand_source \<Rightarrow> nat \<Rightarrow> string outcome" where
  "draw_exit rs k = (case generateCode 6 (rs k) of
       Ok g \<Rightarrow> Ok g
     | Err e \<Rightarrow> Panic (PanicErr e)
     | Panic p \<Rightarrow> Panic p)"

declare draw_stops_def [model_simps] draw_exit_def [model_simps] generateCode_def [model_simps]
  encode_buffer_def [model_simps] rand_fill_def [model_simps] randomChars_def [model_simps]
  newDefaultCodeStore_def [model_simps]

subsection \<open>The retry loop\<close>

lemma length_randomChars [simp]: "length randomChars = 33"
  by (simp add: randomChars_def)

lemma length_rand_fill [simp]: "length (rand_fill n bs) = n"
  by (simp add: rand_fill_def)

lemma encode_buffer_shape:
  "length (encode_buffer buf) = length buf \<and> set (encode_buffer buf) \<subseteq> set randomChars"
  by (auto simp: encode_buffer_def)

lemma generateCode_Ok_iff:
  "generateCode n r = Ok g \<longleftrightarrow> (\<exists>bs. r = Some bs \<and> g = encode_buffer (rand_fill n bs))"
  by (auto simp: generateCode_def split: option.splits)

lemma generateCode_shape:
  "generateCode n r = Ok g \<Longrightarrow> length g = n \<and> set g \<subseteq> set randomChars"
  using encode_buffer_shape by (auto simp: generateCode_Ok_iff)

lemma findFreeCode_unfold:
  "findFreeCode s rs k =
     (if draw_stops s rs k then Some (draw_exit rs k) else findFreeCode s rs (Suc k))"
  by (subst findFreeCode.simps)
     (auto simp: draw_stops_def draw_exit_def GetInformation_def split: outcome.splits option.splits)

lemma findFreeCode_stops: "draw_stops s rs k \<Longrightarrow> findFreeCode s rs k = Some (draw_exit rs k)"
  by (subst findFreeCode_unfold) simp

lemma findFreeCode_retry: "\<not> draw_stops s rs k \<Longrightarrow> findFreeCode s rs k = findFreeCode s rs (Suc k)"
  by (subst findFreeCode_unfold) simp

lemma findFreeCode_first_stop:
  "k \<le> j \<Longrightarrow> draw_stops s rs j \<Longrightarrow> (\<forall>i. k \<le> i \<longrightarrow> i < j \<longrightarrow> \<not> draw_stops s rs i) \<Longrightarrow>
   findFreeCode s rs k = Some (draw_exit rs j)"
proof (induction "j - k" arbitrary: k)
  case 0
  then show ?case by (simp add: findFreeCode_stops)
next
  case (Suc d)
  then have "k < j" "\<not> draw_stops s rs k" by auto
  moreover have "findFreeCode s rs (Suc k) = Some (draw_exit rs j)"
    using Suc.hyps(2) Suc.prems \<open>k < j\<close> by (intro Suc.hyps(1)) auto
  ultimately show ?case by (simp add: findFreeCode_retry)
qed

lemma findFreeCode_Some_stops:
  assumes ret: "findFreeCode s rs k = Some r"
  shows "\<exists>j\<ge>k. draw_stops s rs j"
proof (rule findFreeCode.raw_induct [where P = "\<lambda>s rs k r. \<exists>j\<ge>k. draw_stops s rs j", OF _ ret])
  fix f :: "default_code_store \<Rightarrow> rand_source \<Rightarrow> nat \<Rightarrow> string outcome option"
    and s rs k r
  assume IH: "\<And>s rs k r. f s rs k = Some r \<Longrightarrow> \<exists>j\<ge>k. draw_stops s rs j"
    and eq: "(case generateCode 6 (rs k) of
        Ok generated \<Rightarrow>
          (case GetInformation s generated of Ok x \<Rightarrow> f s rs (Suc k) | _ \<Rightarrow> Some (Ok generated))
      | Err e \<Rightarrow> Some (Panic (PanicErr e)) | Panic p \<Rightarrow> Some (Panic p)) = Some r"
  show "\<exists>j\<ge>k. draw_stops s rs j"
  proof (cases "draw_stops s rs k")
    case True
    then show ?thesis by blast
  next
    case False
    then obtain g i where "generateCode 6 (rs k) = Ok g" "codes s g = Some i"
      by (auto simp: draw_stops_def split: outcome.splits)
    with eq have "f s rs (Suc k) = Some r" by (simp add: GetInformation_def)
    then have "\<exists>j\<ge>Suc k. draw_stops s rs j" by (rule IH)
    then show ?thesis by (auto intro: Suc_leD)
  qed
qed

lemma first_draw_stop:
  assumes "\<exists>j\<ge>k. draw_stops s rs j"
  obtains j where "k \<le> j" "draw_stops s rs j" "\<forall>i. k \<le> i \<longrightarrow> i < j \<longrightarrow> \<not> draw_stops s rs i"
  using assms by (rule first_from)

text \<open>
  C6: \<open>findFreeCode\<close> returns (a code or a panic) exactly when some
  draw of the random source, from the current one on, either fails or yields a
  code that is not in use; otherwise it retries for ever.
\<close>

theorem findFreeCode_terminates_iff:
  "(\<exists>r. findFreeCode s rs k = Some r) \<longleftrightarrow> (\<exists>j\<ge>k. draw_stops s rs j)"
proof
  assume "\<exists>r. findFreeCode s rs k = Some r"
  then show "\<exists>j\<ge>k. draw_stops s rs j" using findFreeCode_Some_stops by blast
next
  assume "\<exists>j\<ge>k. draw_stops s rs j"
  then obtain j where "k \<le> j" "draw_stops s rs j" "\<forall>i. k \<le> i \<longrightarrow> i < j \<longrightarrow> \<not> draw_stops s rs i"
    by (rule first_draw_stop)
  then show "\<exists>r. findFreeCode s rs k = Some r" by (blast dest: findFreeCode_first_stop)
qed

lemma findFreeCode_SomeE:
  assumes "findFreeCode s rs k = Some r"
  obtains j where "k \<le> j" "draw_stops s rs j" "\<forall>i. k \<le> i \<longrightarrow> i < j \<longrightarrow> \<not> draw_stops s rs i"
    "r = draw_exit rs j"
proof -
  from assms have "\<exists>j\<ge>k. draw_stops s rs j" by (rule findFreeCode_Some_stops)
  then obtain j where j: "k \<le> j" "draw_stops s rs j" "\<forall>i. k \<le> i \<longrightarrow> i < j \<longrightarrow> \<not> draw_stops s rs i"
    by (rule first_draw_stop)
  then have "findFreeCode s rs k = Some (draw_exit rs j)" by (rule findFreeCode_first_stop)
  with assms j that show ?thesis by simp
qed

lemma findFreeCode_Ok:
  assumes "findFreeCode s rs k = Some (Ok g)"
  shows "codes s g = None \<and> length g = 6 \<and> set g \<subseteq> set randomChars"
proof -
  from assms obtain j where "draw_stops s rs j" "Ok g = draw_exit rs j"
    by (rule findFreeCode_SomeE)
  then have "generateCode 6 (rs j) = Ok g" "codes s g = None"
    by (auto simp: draw_exit_def draw_stops_def split: outcome.splits)
  then show ?thesis using generateCode_shape by blast
qed

lemma findFreeCode_not_Err: "findFreeCode s rs k \<noteq> Some (Err e)"
proof
  assume "findFreeCode s rs k = Some (Err e)"
  then obtain j where "Err e = draw_exit rs j" by (rule findFreeCode_SomeE)
  then show False by (simp add: draw_exit_def split: outcome.splits)
qed

lemma GetForXuid_Ok:
  "GetForXuid ks s x = Ok i \<Longrightarrow> code_information.XUID i = x \<and> (\<exists>c\<in>set ks. codes s c = Some i)"
  by (auto simp: GetForXuid_def dest: find_first_key_SomeD split: option.splits)

lemma GetForXuid_no_Ok:
  assumes "iteration_order (codes s) ks"
  shows "(\<forall>i. GetForXuid ks s x \<noteq> Ok i) \<longleftrightarrow> (\<forall>c i. codes s c = Some i \<longrightarrow> code_information.XUID i \<noteq> x)"
proof
  assume "\<forall>i. GetForXuid ks s x \<noteq> Ok i"
  then have "find_first_key (codes s) (\<lambda>info. code_information.XUID info = x) ks = None"
    by (auto simp: GetForXuid_def split: option.splits)
  with assms show "\<forall>c i. codes s c = Some i \<longrightarrow> code_information.XUID i \<noteq> x"
    by (auto simp: find_first_key_None_iff iteration_order_def)
next
  assume none: "\<forall>c i. codes s c = Some i \<longrightarrow> code_information.XUID i \<noteq> x"
  show "\<forall>i. GetForXuid ks s x \<noteq> Ok i"
  proof (intro allI notI)
    fix i
    assume "GetForXuid ks s x = Ok i"
    with none show False by (blast dest: GetForXuid_Ok)
  qed
qed

lemma Issue_SomeE:
  assumes "Issue ks rs t1 t2 s x = Some (s', r)"
  obtains (conflict) i where "GetForXuid ks s x = Ok i" "s' = s"
      "r = Err (AppError (NewApplicationError 40000 (''Code '' @ Code i @ '' is already issued'')))"
  | (fresh) g where "\<forall>i. GetForXuid ks s x \<noteq> Ok i" "findFreeCode s rs 0 = Some (Ok g)"
      "s' = s\<lparr>codes := (codes s)(g \<mapsto> \<lparr>Code = g, XUID = x, Issued = t1, Expires = t2 + code_validity\<rparr>)\<rparr>"
      "r = Ok (codes s' x)"
  | (panic) p where "\<forall>i. GetForXuid ks s x \<noteq> Ok i" "findFreeCode s rs 0 = Some (Panic p)" "s' = s" "r = Panic p"
  using assms findFreeCode_not_Err [of s rs 0]
  by (cases "GetForXuid ks s x"; cases "findFreeCode s rs 0")
     (auto simp: Issue_def Let_def split: outcome.splits)

lemma code_store_inv_new: "code_store_inv newDefaultCodeStore"
  by (simp add: code_store_inv_def newDefaultCodeStore_def xuid_unique_def)

lemma code_store_inv_insert:
  assumes inv: "code_store_inv s" and g: "codes s g = None" "length g = 6" "set g \<subseteq> set randomChars"
    and nox: "\<forall>c i. codes s c = Some i \<longrightarrow> code_information.XUID i \<noteq> x"
  shows "code_store_inv (s\<lparr>codes := (codes s)(g \<mapsto> \<lparr>Code = g, XUID = x, Issued = t1, Expires = t2\<rparr>)\<rparr>)"
proof -
  let ?m = "(codes s)(g \<mapsto> \<lparr>Code = g, XUID = x, Issued = t1, Expires = t2\<rparr>)"
  have "finite (dom ?m)" using inv by (simp add: code_store_inv_def)
  moreover have "\<forall>c info. ?m c = Some info \<longrightarrow> entry_ok c info"
    using inv g by (auto simp: code_store_inv_def entry_ok_def)
  moreover have "xuid_unique (s\<lparr>codes := ?m\<rparr>)"
    using inv nox unfolding code_store_inv_def xuid_unique_def by (auto split: if_splits)
  ultimately show ?thesis by (simp add: code_store_inv_def)
qed

lemma code_store_inv_delete:
  assumes "code_store_inv s"
  shows "code_store_inv (s\<lparr>codes := (codes s)(c := None)\<rparr>)"
  using assms unfolding code_store_inv_def xuid_unique_def by (auto split: if_splits)

lemma GetForXuid_hit:
  assumes inv: "code_store_inv s" and ord: "iteration_order (codes s) ks"
    and c: "codes s c = Some i" "code_information.XUID i = x"
  shows "GetForXuid ks s x = Ok i"
proof -
  have u: "\<And>c' i'. codes s c' = Some i' \<Longrightarrow> code_information.XUID i' = x \<Longrightarrow> c' = c"
    using inv c unfolding code_store_inv_def xuid_unique_def by blast
  from c(1) ord have "c \<in> set ks" by (auto simp: iteration_order_def)
  then have "find_first_key (codes s) (\<lambda>info. code_information.XUID info = x) ks = Some i"
    using c u by (rule find_first_key_hit)
  then show ?thesis by (simp add: GetForXuid_def)
qed

lemma Issue_inv:
  assumes inv: "code_store_inv s" and ord: "iteration_order (codes s) ks"
    and iss: "Issue ks rs t1 t2 s x = Some (s', r)"
  shows "code_store_inv s'"
  using iss
proof (cases rule: Issue_SomeE)
  case conflict
  then show ?thesis using inv by simp
next
  case (fresh g)
  from fresh(2) have "codes s g = None" "length g = 6" "set g \<subseteq> set randomChars"
    by (auto dest: findFreeCode_Ok)
  moreover from fresh(1) ord have "\<forall>c i. codes s c = Some i \<longrightarrow> code_information.XUID i \<noteq> x"
    by (simp add: GetForXuid_no_Ok)
  ultimately show ?thesis using inv fresh(3) by (simp add: code_store_inv_insert)
next
  case panic
  then show ?thesis using inv by simp
qed

text \<open>
  C3: \<open>Issue\<close>, run with a true iteration order of the map, keeps the
  store well formed: entries under their own six-character codes over the
  alphabet, and at most one code per XUID.
\<close>

theorem Issue_preserves_inv:
  assumes inv: "code_store_inv s" and ord: "iteration_order (codes s) ks"
    and iss: "Issue ks rs t1 t2 s x = Some (s', r)"
  shows "code_store_inv s'"
  using assms by (rule Issue_inv)

text \<open>
  C2: A successful \<open>Issue\<close> stores a fresh code for the XUID but returns
  \<open>s.codes[xuid]\<close>, which is \<open>nil\<close> for every XUID that is not itself a
  six-character code: the caller never receives the code it asked for.
\<close>

theorem Issue_returns_nil:
  assumes inv: "code_store_inv s" and iss: "Issue ks rs t1 t2 s x = Some (s', Ok r)"
    and len: "length x \<noteq> 6"
  shows "r = None \<and> (\<exists>g. codes s g = None \<and>
           codes s' g = Some \<lparr>Code = g, XUID = x, Issued = t1, Expires = t2 + code_validity\<rparr>)"
  using iss
proof (cases rule: Issue_SomeE)
  case (fresh g)
  from fresh(2) have g: "codes s g = None" "length g = 6" by (auto dest: findFreeCode_Ok)
  have "codes s x = None"
  proof (rule ccontr)
    assume "codes s x \<noteq> None"
    then obtain i where "codes s x = Some i" by blast
    with inv have "length x = 6" by (auto simp: code_store_inv_def entry_ok_def)
    with len show False by simp
  qed
  moreover from g len have "x \<noteq> g" by auto
  ultimately have "r = None" using fresh by simp
  moreover have "codes s' g = Some \<lparr>Code = g, XUID = x, Issued = t1, Expires = t2 + code_validity\<rparr>"
    using fresh(3) by simp
  ultimately show ?thesis using g(1) by blast
qed simp_all

text \<open>
  C21: After a successful \<open>Issue\<close> for a XUID, a second \<open>Issue\<close> for the
  same XUID, at any clock readings \<open>t1'\<close>, \<open>t2'\<close> (also past the first code's
  \<open>Expires\<close>), fails with error 40000 naming the first code, leaves the store
  as it is, and \<open>GetForXuid\<close> still returns the first code: expiry is never
  checked.
\<close>

theorem Issue_twice_conflict:
  assumes inv: "code_store_inv s" and ord: "iteration_order (codes s) ks"
    and iss: "Issue ks rs t1 t2 s x = Some (s', Ok r)"
    and ord': "iteration_order (codes s') ks'"
  shows "\<exists>i. GetForXuid ks' s' x = Ok i \<and> codes s' (Code i) = Some i \<and>
           Issue ks' rs' t1' t2' s' x =
             Some (s', Err (AppError (NewApplicationError 40000 (''Code '' @ Code i @ '' is already issued''))))"
  using iss
proof (cases rule: Issue_SomeE)
  case (fresh g)
  let ?i = "\<lparr>Code = g, XUID = x, Issued = t1, Expires = t2 + code_validity\<rparr>"
  have inv': "code_store_inv s'" using inv ord iss by (rule Issue_inv)
  have "codes s' g = Some ?i" using fresh(3) by simp
  then have "GetForXuid ks' s' x = Ok ?i" using inv' ord' by (intro GetForXuid_hit) simp_all
  moreover have "codes s' (Code ?i) = Some ?i" using fresh(3) by simp
  ultimately show ?thesis by (simp add: Issue_def)
qed simp_all

text \<open>
  C29: On a well-formed store, \<open>GetForXuid\<close> gives the same answer for every
  iteration order the Go runtime may choose for the map.
\<close>

theorem GetForXuid_order_independent:
  assumes inv: "code_store_inv s"
    and ord: "iteration_order (codes s) ks" and ord': "iteration_order (codes s) ks'"
  shows "GetForXuid ks s x = GetForXuid ks' s x"
proof -
  have "find_first_key (codes s) (\<lambda>info. code_information.XUID info = x) ks =
        find_first_key (codes s) (\<lambda>info. code_information.XUID info = x) ks'"
    using ord ord' by (rule find_first_key_order_independent)
      (use inv in \<open>auto simp: code_store_inv_def xuid_unique_def\<close>)
  then show ?thesis by (simp add: GetForXuid_def)
qed

lemma Revoke_preserves_inv: "code_store_inv s \<Longrightarrow> code_store_inv (fst (Revoke s c))"
  by (simp add: Revoke_def code_store_inv_delete split: outcome.splits)

lemma run_codes_inv:
  assumes "code_store_inv s" "iteration_order (codes s) ks" "run_codes ks rs t1 t2 s call = Some s'"
  shows "code_store_inv s'"
  using assms
proof (cases call)
  case (CallIssue x)
  with assms(3) obtain r where "Issue ks rs t1 t2 s x = Some (s', r)" by auto
  with assms(1,2) show ?thesis by (rule Issue_inv)
qed (auto simp: Revoke_preserves_inv)

text \<open>
  A successful \<open>Revoke\<close> removes exactly the revoked code: a later
  \<open>GetInformation\<close> for it fails with 40400, every other entry is unchanged.
\<close>

theorem Revoke_then_not_found:
  assumes "Revoke s c = (s', Ok ())"
  shows "GetInformation s' c = Err code_not_found \<and> (\<forall>c'. c' \<noteq> c \<longrightarrow> codes s' c' = codes s c')"
  using assms by (auto simp: Revoke_def GetInformation_def split: outcome.splits option.splits)




subsection \<open>Modulo bias of the alphabet\<close>

lemma distinct_randomChars: "distinct randomChars"
  by (simp add: randomChars_def)

lemma encode_byte_iff:
  assumes "i < length randomChars"
  shows "encode_buffer [b] = [randomChars ! i] \<longleftrightarrow> unat b mod 33 = i"
proof -
  have lt: "unat b mod 33 < length randomChars" by simp
  have "encode_buffer [b] = [randomChars ! (unat b mod 33)]" by (simp add: encode_buffer_def)
  moreover have "randomChars ! (unat b mod 33) = randomChars ! i \<longleftrightarrow> unat b mod 33 = i"
    by (rule nth_eq_iff_index_eq [OF distinct_randomChars lt assms])
  ultimately show ?thesis by simp
qed

text \<open>
  C14: The code alphabet is drawn with modulo bias: \<open>generateCode\<close> maps a
  random byte \<open>b\<close> to \<open>randomChars[b % 33]\<close>, so each of the first 25
  characters comes from 8 of the 256 byte values and each of the other 8 from
  only 7, while the spec requires an unbiased draw.
\<close>

theorem encode_bias:
  assumes "i < length randomChars"
  shows "card {b :: byte. encode_buffer [b] = [randomChars ! i]} = (if i < 25 then 8 else 7)"
proof -
  have "card {b :: byte. encode_buffer [b] = [randomChars ! i]} = card {b :: 8 word. unat b mod 33 = i}"
    using encode_byte_iff [OF assms] by simp
  also have "\<dots> = card {n. n < 256 \<and> n mod 33 = i}" by (rule card_byte_unat)
  also have "\<dots> = (256 + 33 - Suc i) div 33" using assms by (simp add: count_mod)
  also have "\<dots> = (if i < 25 then 8 else 7)"
  proof (cases "i < 25")
    case True
    then show ?thesis by (simp add: div_nat_eqI)
  next
    case False
    then show ?thesis using assms by (simp add: div_nat_eqI)
  qed
  finally show ?thesis .
qed

subsection \<open>Witnesses\<close>

lemma Issue_example:
  "Issue [] (\<lambda>_. Some [0, 1, 2, 33, 34, 255]) 5 7 newDefaultCodeStore ''2535412345678901'' =
   Some (\<lparr>codes = [''01201P'' \<mapsto> \<lparr>Code = ''01201P'', XUID = ''2535412345678901'', Issued = 5,
                                   Expires = 7 + code_validity\<rparr>]\<rparr>, Ok None)"
  by (simp add: Issue_def GetForXuid_def findFreeCode_stops model_simps)

lemma findFreeCode_terminates_iff_witness:
  "(\<exists>r. findFreeCode newDefaultCodeStore (\<lambda>_. Some [0, 1, 2, 33, 34, 255]) 0 = Some r) \<and>
   (\<exists>j\<ge>0. draw_stops newDefaultCodeStore (\<lambda>_. Some [0, 1, 2, 33, 34, 255]) j)"
proof -
  have "draw_stops newDefaultCodeStore (\<lambda>_. Some [0, 1, 2, 33, 34, 255]) 0"
    by (simp add: model_simps)
  then show ?thesis using findFreeCode_terminates_iff by blast
qed

lemma Issue_preserves_inv_witness:
  "code_store_inv newDefaultCodeStore \<and> iteration_order (codes newDefaultCodeStore) [] \<and>
   Issue [] (\<lambda>_. Some [0, 1, 2, 33, 34, 255]) 5 7 newDefaultCodeStore ''2535412345678901'' =
     Some (\<lparr>codes = [''01201P'' \<mapsto> \<lparr>Code = ''01201P'', XUID = ''2535412345678901'', Issued = 5,
                                   Expires = 7 + code_validity\<rparr>]\<rparr>, Ok None) \<and>
   code_store_inv \<lparr>codes = [''01201P'' \<mapsto> \<lparr>Code = ''01201P'', XUID = ''2535412345678901'', Issued = 5,
                                   Expires = 7 + code_validity\<rparr>]\<rparr>"
proof -
  have h1: "code_store_inv newDefaultCodeStore" by (rule code_store_inv_new)
  have h2: "iteration_order (codes newDefaultCodeStore) []"
    by (simp add: iteration_order_def newDefaultCodeStore_def)
  show ?thesis using Issue_preserves_inv [OF h1 h2 Issue_example] h1 h2 Issue_example by simp
qed

lemma Issue_returns_nil_witness:
  "code_store_inv newDefaultCodeStore \<and>
   Issue [] (\<lambda>_. Some [0, 1, 2, 33, 34, 255]) 5 7 newDefaultCodeStore ''2535412345678901'' =
     Some (\<lparr>codes = [''01201P'' \<mapsto> \<lparr>Code = ''01201P'', XUID = ''2535412345678901'', Issued = 5,
                                   Expires = 7 + code_validity\<rparr>]\<rparr>, Ok None) \<and>
   length ''2535412345678901'' \<noteq> 6 \<and>
   (\<exists>g. codes newDefaultCodeStore g = None \<and>
        codes \<lparr>codes = [''01201P'' \<mapsto> \<lparr>Code = ''01201P'', XUID = ''2535412345678901'', Issued = 5,
                                   Expires = 7 + code_validity\<rparr>]\<rparr> g =
        Some \<lparr>Code = g, XUID = ''2535412345678901'', Issued = 5, Expires = 7 + code_validity\<rparr>)"
  using Issue_returns_nil [OF code_store_inv_new Issue_example] code_store_inv_new Issue_example by simp

lemma Issue_twice_conflict_witness:
  "\<exists>i. GetForXuid [''01201P'']
         \<lparr>codes = [''01201P'' \<mapsto> \<lparr>Code = ''01201P'', XUID = ''2535412345678901'', Issued = 5,
                                   Expires = 7 + code_validity\<rparr>]\<rparr> ''2535412345678901'' = Ok i \<and>
       Code i = ''01201P'' \<and>
       Issue [''01201P''] (\<lambda>_. None) 8 9
         \<lparr>codes = [''01201P'' \<mapsto> \<lparr>Code = ''01201P'', XUID = ''2535412345678901'', Issued = 5,
                                   Expires = 7 + code_validity\<rparr>]\<rparr> ''2535412345678901'' =
       Some (\<lparr>codes = [''01201P'' \<mapsto> \<lparr>Code = ''01201P'', XUID = ''2535412345678901'', Issued = 5,
                                   Expires = 7 + code_validity\<rparr>]\<rparr>,
             Err (AppError (NewApplicationError 40000 (''Code '' @ Code i @ '' is already issued''))))"
proof -
  have h2: "iteration_order (codes newDefaultCodeStore) []"
    by (simp add: iteration_order_def newDefaultCodeStore_def)
  have h4: "iteration_order (codes \<lparr>codes = [''01201P'' \<mapsto> \<lparr>Code = ''01201P'', XUID = ''2535412345678901'',
              Issued = 5, Expires = 7 + code_validity\<rparr>]\<rparr>) [''01201P'']"
    by (simp add: iteration_order_def)
  show ?thesis
    using Issue_twice_conflict [OF code_store_inv_new h2 Issue_example h4, of "\<lambda>_. None" 8 9]
    by (auto simp: fun_upd_apply split: if_splits)
qed

lemma GetForXuid_order_independent_witness:
  "code_store_inv \<lparr>codes = [''01201P'' \<mapsto> \<lparr>Code = ''01201P'', XUID = ''a'', Issued = 0, Expires = 0\<rparr>,
                            ''ZZZZZZ'' \<mapsto> \<lparr>Code = ''ZZZZZZ'', XUID = ''b'', Issued = 0, Expires = 0\<rparr>]\<rparr> \<and>
   GetForXuid [''01201P'', ''ZZZZZZ'']
     \<lparr>codes = [''01201P'' \<mapsto> \<lparr>Code = ''01201P'', XUID = ''a'', Issued = 0, Expires = 0\<rparr>,
              ''ZZZZZZ'' \<mapsto> \<lparr>Code = ''ZZZZZZ'', XUID = ''b'', Issued = 0, Expires = 0\<rparr>]\<rparr> ''b'' =
   GetForXuid [''ZZZZZZ'', ''01201P'']
     \<lparr>codes = [''01201P'' \<mapsto> \<lparr>Code = ''01201P'', XUID = ''a'', Issued = 0, Expires = 0\<rparr>,
              ''ZZZZZZ'' \<mapsto> \<lparr>Code = ''ZZZZZZ'', XUID = ''b'', Issued = 0, Expires = 0\<rparr>]\<rparr> ''b''"
proof -
  let ?s = "\<lparr>codes = [''01201P'' \<mapsto> \<lparr>Code = ''01201P'', XUID = ''a'', Issued = 0, Expires = 0\<rparr>,
              ''ZZZZZZ'' \<mapsto> \<lparr>Code = ''ZZZZZZ'', XUID = ''b'', Issued = 0, Expires = 0\<rparr>]\<rparr>"
  have inv: "code_store_inv ?s"
    by (auto simp: code_store_inv_def entry_ok_def xuid_unique_def randomChars_def split: if_splits)
  have o1: "iteration_order (codes ?s) [''01201P'', ''ZZZZZZ'']" by (auto simp: iteration_order_def)
  have o2: "iteration_order (codes ?s) [''ZZZZZZ'', ''01201P'']" by (auto simp: iteration_order_def)
  show ?thesis using GetForXuid_order_independent [OF inv o1 o2] inv by simp
qed

lemma encode_bias_witness:
  "0 < length randomChars \<and> card {b :: byte. encode_buffer [b] = [randomChars ! 0]} = 8 \<and>
   32 < length randomChars \<and> card {b :: byte. encode_buffer [b] = [randomChars ! 32]} = 7"
  using encode_bias [of 0] encode_bias [of 32] by simp

end
