(* ===== verification/Repository.thy ===== *)
theory Repository
  imports Errors
begin

text \<open>
  The user repository (\<open>src/server/repository.go\<close>): a GORM table of
  \<open>UserData\<close> rows in SQLite. \<open>UserData\<close> embeds \<open>gorm.Model\<close>, so rows carry
  an auto-incremented \<open>ID\<close> and a soft-delete mark: \<open>db.Delete\<close> marks the
  matching rows deleted and every later query skips them. The table is the
  list of its rows in primary-key order, so \<open>db.First(&user, cond)\<close>
  (\<open>ORDER BY id LIMIT 1\<close>) is the first live row of the list that satisfies
  the condition. \<open>UserData\<close> extends \<open>User\<close> with the GORM columns, and
  \<open>ToUser\<close> forgets them. Failures of the database itself (I/O errors) are
  not modelled: every query either finds a row or reports
  \<open>gorm.ErrRecordNotFound\<close>.
\<close>

record User =
  Discord :: string
  XUID :: string

record UserData = User +
  ID :: nat
  Deleted :: bool

definition ToUser :: "UserData \<Rightarrow> User" where
  "ToUser u = User.truncate u"

record user_db =
  rows :: "UserData list"
  next_id :: nat

definition NewDefaultRepository :: user_db where
  "NewDefaultRepository = \<lparr>rows = [], next_id = 1\<rparr>"

definition live_rows :: "user_db \<Rightarrow> UserData list" where
  "live_rows db = filter (\<lambda>r. \<not> Deleted r) (rows db)"

text \<open>\<open>db.First(&user, cond)\<close>: \<open>None\<close> is \<open>gorm.ErrRecordNotFound\<close>.\<close>

definition db_first :: "user_db \<Rightarrow> (UserData \<Rightarrow> bool) \<Rightarrow> UserData option" where
  "db_first db cond = find cond (live_rows db)"

text \<open>\<open>db.Create(&user)\<close>: the row gets the next primary key.\<close>

definition db_create :: "user_db \<Rightarrow> string \<Rightarrow> string \<Rightarrow> user_db \<times> UserData" where
  "db_create db discordId xuid =
     (let row = \<lparr>Discord = discordId, XUID = xuid, ID = next_id db, Deleted = False\<rparr>
      in (db\<lparr>rows := rows db @ [row], next_id := Suc (next_id db)\<rparr>, row))"

text \<open>\<open>db.Delete(&UserData{}, cond)\<close>: soft delete of every live row that matches.\<close>

definition db_delete :: "user_db \<Rightarrow> (UserData \<Rightarrow> bool) \<Rightarrow> user_db" where
  "db_delete db cond =
     db\<lparr>rows := map (\<lambda>r. if \<not> Deleted r \<and> cond r then r\<lparr>Deleted := True\<rparr> else r) (rows db)\<rparr>"

definition gorm_ErrRecordNotFound :: go_error where
  "gorm_ErrRecordNotFound = OtherError ''record not found''"

definition user_not_found :: go_error where
  "user_not_found = AppError (NewApplicationError 40400 ''User not found'')"

definition GetUserByDiscord :: "user_db \<Rightarrow> string \<Rightarrow> User outcome" where
  "GetUserByDiscord db discordId =
     (case db_first db (\<lambda>r. User.Discord r = discordId) of
        None \<Rightarrow> Err user_not_found
      | Some user \<Rightarrow> Ok (ToUser user))"

definition GetUserByXUID :: "user_db \<Rightarrow> string \<Rightarrow> User outcome" where
  "GetUserByXUID db xuid =
     (case db_first db (\<lambda>r. User.XUID r = xuid) of
        None \<Rightarrow> Err user_not_found
      | Some user \<Rightarrow> Ok (ToUser user))"

definition already_bound :: go_error where
  "already_bound = AppError (NewApplicationError 40000 ''Either discord or XUID are already bound'')"

definition CreateUser :: "user_db \<Rightarrow> string \<Rightarrow> string \<Rightarrow> user_db \<times> User outcome" where
  "CreateUser db discordId xuid =
     (case db_first db (\<lambda>r. User.Discord r = discordId \<or> User.XUID r = xuid) of
        Some _ \<Rightarrow> (db, Err already_bound)
      | None \<Rightarrow> (case db_create db discordId xuid of (db', user) \<Rightarrow> (db', Ok (ToUser user))))"

text \<open>
  \<open>DeleteUserByDiscord\<close> and \<open>DeleteUserByXUID\<close> look the user up first; the
  test for \<open>gorm.ErrRecordNotFound\<close> on the lookup's error is kept as written
  (the lookup has already turned that error into an \<open>ApplicationError\<close>).
\<close>

definition DeleteUserByDiscord :: "user_db \<Rightarrow> string \<Rightarrow> user_db \<times> unit outcome" where
  "DeleteUserByDiscord db discordId =
     (case GetUserByDiscord db discordId of
        Err e \<Rightarrow> (db, Err (if e = gorm_ErrRecordNotFound then user_not_found else e))
      | Panic p \<Rightarrow> (db, Panic p)
      | Ok user \<Rightarrow> (db_delete db (\<lambda>r. User.Discord r = User.Discord user), Ok ()))"

definition DeleteUserByXUID :: "user_db \<Rightarrow> string \<Rightarrow> user_db \<times> unit outcome" where
  "DeleteUserByXUID db xuid =
     (case GetUserByXUID db xuid of
        Err e \<Rightarrow> (db, Err (if e = gorm_ErrRecordNotFound then user_not_found else e))
      | Panic p \<Rightarrow> (db, Panic p)
      | Ok user \<Rightarrow> (db_delete db (\<lambda>r. User.XUID r = User.XUID user), Ok ()))"

text \<open>
  The calls of the \<open>Repository\<close> interface, and the state each leaves behind:
  the interface the binding service drives.
\<close>

datatype repo_call =
    CallGetUserByDiscord string
  | CallGetUserByXUID string
  | CallCreateUser string string
  | CallDeleteUserByDiscord string
  | CallDeleteUserByXUID string

fun run_repo :: "user_db \<Rightarrow> repo_call \<Rightarrow> user_db" where
  "run_repo db (CallGetUserByDiscord d) = db"
| "run_repo db (CallGetUserByXUID x) = db"
| "run_repo db (CallCreateUser d x) = fst (CreateUser db d x)"
| "run_repo db (CallDeleteUserByDiscord d) = fst (DeleteUserByDiscord db d)"
| "run_repo db (CallDeleteUserByXUID x) = fst (DeleteUserByXUID db x)"

subsection \<open>Invariant and abstraction\<close>

text \<open>
  The table is well formed when the primary keys increase along the list and
  stay below the next key, and no two live rows share a Discord ID or a XUID
  (the spec's two-way uniqueness of bindings). The bindings it represents are
  the pairs (chat ID, game ID) of its live rows.
\<close>

definition repo_inv :: "user_db \<Rightarrow> bool" where
  "repo_inv db \<longleftrightarrow> sorted_wrt (<) (map ID (rows db)) \<and> (\<forall>r \<in> set (rows db). ID r < next_id db) \<and>
     distinct (map User.Discord (live_rows db)) \<and> distinct (map User.XUID (live_rows db))"

definition bindings :: "user_db \<Rightarrow> (string \<times> string) set" where
  "bindings db = set (map (\<lambda>r. (User.Discord r, User.XUID r)) (live_rows db))"

text \<open>
  The repository's contract (spec section 4.2) over the set of bindings:
  creation fails when either ID is already bound, deletion fails when no
  binding has the ID. A successful operation gives the new set of bindings.
\<close>

definition abs_create :: "(string \<times> string) set \<Rightarrow> string \<Rightarrow> string \<Rightarrow> (string \<times> string) set option" where
  "abs_create B d x = (if d \<in> fst ` B \<or> x \<in> snd ` B then None else Some (insert (d, x) B))"

definition abs_delete_chat :: "(string \<times> string) set \<Rightarrow> string \<Rightarrow> (string \<times> string) set option" where
  "abs_delete_chat B d = (if d \<in> fst ` B then Some {p \<in> B. fst p \<noteq> d} else None)"

definition abs_delete_game :: "(string \<times> string) set \<Rightarrow> string \<Rightarrow> (string \<times> string) set option" where
  "abs_delete_game B x = (if x \<in> snd ` B then Some {p \<in> B. snd p \<noteq> x} else None)"

subsection \<open>Lemmas\<close>

lemma live_rows_create:
  "live_rows (fst (db_create db d x)) = live_rows db @ [\<lparr>Discord = d, XUID = x, ID = next_id db, Deleted = False\<rparr>]"
  by (simp add: live_rows_def db_create_def Let_def)

lemma filter_live_mark:
  "filter (\<lambda>r. \<not> Deleted r) (map (\<lambda>r. if \<not> Deleted r \<and> P r then r\<lparr>Deleted := True\<rparr> else r) xs) =
   filter (\<lambda>r. \<not> Deleted r \<and> \<not> P r) xs"
  by (induction xs) auto

lemma live_rows_delete: "live_rows (db_delete db P) = filter (\<lambda>r. \<not> P r) (live_rows db)"
  by (simp add: live_rows_def db_delete_def filter_live_mark)

lemma ID_rows_delete: "map ID (rows (db_delete db P)) = map ID (rows db)"
  by (simp add: db_delete_def comp_def)

lemma set_rows_delete_ID: "r \<in> set (rows (db_delete db P)) \<Longrightarrow> \<exists>r0 \<in> set (rows db). ID r = ID r0"
  by (auto simp: db_delete_def)

lemma next_id_delete [simp]: "next_id (db_delete db P) = next_id db"
  by (simp add: db_delete_def)

lemma db_first_None_iff: "db_first db P = None \<longleftrightarrow> (\<forall>r \<in> set (live_rows db). \<not> P r)"
  by (auto simp: db_first_def find_None_iff)

lemma db_first_Some: "db_first db P = Some r \<Longrightarrow> r \<in> set (live_rows db) \<and> P r"
  by (auto simp: db_first_def dest: find_Some_iff [THEN iffD1] simp: in_set_conv_nth)

lemma repo_inv_new: "repo_inv NewDefaultRepository"
  by (simp add: repo_inv_def NewDefaultRepository_def live_rows_def)

lemma repo_inv_create:
  assumes inv: "repo_inv db" and free: "db_first db (\<lambda>r. User.Discord r = d \<or> User.XUID r = x) = None"
  shows "repo_inv (fst (db_create db d x))"
proof -
  have ids: "sorted_wrt (<) (map ID (rows db))" "\<forall>r \<in> set (rows db). ID r < next_id db"
    using inv by (simp_all add: repo_inv_def)
  have d: "d \<notin> set (map User.Discord (live_rows db))" and x: "x \<notin> set (map User.XUID (live_rows db))"
    using free by (auto simp: db_first_None_iff)
  have "sorted_wrt (<) (map ID (rows db) @ [next_id db])"
    using ids by (auto simp: sorted_wrt_append)
  moreover have "\<forall>r \<in> set (rows db). ID r < Suc (next_id db)" using ids(2) by auto
  ultimately show ?thesis
    using inv d x by (simp add: repo_inv_def db_create_def live_rows_def Let_def)
qed

lemma repo_inv_delete [inv_simps]: "repo_inv db \<Longrightarrow> repo_inv (db_delete db P)"
  unfolding repo_inv_def
  by (auto simp: ID_rows_delete live_rows_delete distinct_map_filter dest!: set_rows_delete_ID)

lemma bindings_create:
  "bindings (fst (db_create db d x)) = insert (d, x) (bindings db)"
  by (auto simp: bindings_def live_rows_create)

lemma pairs_filter:
  "set (map (\<lambda>r. (User.Discord r, User.XUID r)) (filter (\<lambda>r. \<not> P (User.Discord r, User.XUID r)) xs)) =
   {p \<in> set (map (\<lambda>r. (User.Discord r, User.XUID r)) xs). \<not> P p}"
  by (induction xs) auto

lemma bindings_delete_discord:
  "bindings (db_delete db (\<lambda>r. User.Discord r = d)) = {p \<in> bindings db. fst p \<noteq> d}"
  using pairs_filter [of "\<lambda>p. fst p = d" "live_rows db"]
  by (simp add: bindings_def live_rows_delete)

lemma bindings_delete_xuid:
  "bindings (db_delete db (\<lambda>r. User.XUID r = x)) = {p \<in> bindings db. snd p \<noteq> x}"
  using pairs_filter [of "\<lambda>p. snd p = x" "live_rows db"]
  by (simp add: bindings_def live_rows_delete)

lemma db_first_discord_or_xuid:
  "db_first db (\<lambda>r. User.Discord r = d \<or> User.XUID r = x) = None \<longleftrightarrow> d \<notin> fst ` bindings db \<and> x \<notin> snd ` bindings db"
  by (auto simp: db_first_None_iff bindings_def image_iff)

lemma db_first_discord_None:
  "db_first db (\<lambda>r. User.Discord r = d) = None \<longleftrightarrow> d \<notin> fst ` bindings db"
  by (auto simp: db_first_None_iff bindings_def image_iff)

lemma db_first_xuid_None:
  "db_first db (\<lambda>r. User.XUID r = x) = None \<longleftrightarrow> x \<notin> snd ` bindings db"
  by (auto simp: db_first_None_iff bindings_def image_iff)

lemma ToUser_simps [simp]: "User.Discord (ToUser r) = User.Discord r" "User.XUID (ToUser r) = User.XUID r"
  by (simp_all add: ToUser_def User.defs)

lemma CreateUser_abs:
  assumes "CreateUser db d x = (db', r)"
  shows "(case abs_create (bindings db) d x of
            None \<Rightarrow> db' = db \<and> r = Err already_bound
          | Some B \<Rightarrow> bindings db' = B \<and> r = Ok \<lparr>Discord = d, XUID = x\<rparr>)"
proof (cases "db_first db (\<lambda>r. User.Discord r = d \<or> User.XUID r = x)")
  case None
  then have "abs_create (bindings db) d x = Some (insert (d, x) (bindings db))"
    by (simp add: abs_create_def db_first_discord_or_xuid)
  with None assms show ?thesis
    by (auto simp: CreateUser_def db_create_def Let_def ToUser_def User.defs bindings_create [unfolded db_create_def Let_def, simplified])
next
  case (Some row)
  then have "abs_create (bindings db) d x = None"
    using db_first_discord_or_xuid [of db d x] by (auto simp: abs_create_def)
  with Some assms show ?thesis by (simp add: CreateUser_def)
qed

text \<open>
  C17: \<open>CreateUser\<close> implements the contract's creation on the set of
  bindings: it fails with 40000 and changes nothing when either ID is already
  bound, and otherwise adds exactly the new pair and returns it.
\<close>

theorem CreateUser_refines:
  assumes "CreateUser db d x = (db', r)"
  shows "(case abs_create (bindings db) d x of
            None \<Rightarrow> db' = db \<and> r = Err already_bound
          | Some B \<Rightarrow> bindings db' = B \<and> r = Ok \<lparr>Discord = d, XUID = x\<rparr>)"
  using assms by (rule CreateUser_abs)

lemma user_not_found_not_gorm [simp]: "user_not_found \<noteq> gorm_ErrRecordNotFound"
  by (simp add: user_not_found_def gorm_ErrRecordNotFound_def)

lemma DeleteUserByDiscord_abs:
  assumes "DeleteUserByDiscord db d = (db', r)"
  shows "(case abs_delete_chat (bindings db) d of
            None \<Rightarrow> db' = db \<and> r = Err user_not_found
          | Some B \<Rightarrow> bindings db' = B \<and> r = Ok ())"
proof (cases "db_first db (\<lambda>r. User.Discord r = d)")
  case None
  then have "abs_delete_chat (bindings db) d = None"
    by (simp add: abs_delete_chat_def db_first_discord_None)
  with None assms show ?thesis by (simp add: DeleteUserByDiscord_def GetUserByDiscord_def)
next
  case (Some row)
  then have "User.Discord row = d" "d \<in> fst ` bindings db"
    using db_first_discord_None [of db d] by (auto dest: db_first_Some)
  with Some assms show ?thesis
    by (auto simp: DeleteUserByDiscord_def GetUserByDiscord_def abs_delete_chat_def bindings_delete_discord)
qed

text \<open>
  C27: \<open>DeleteUserByDiscord\<close> implements the contract's deletion by chat ID:
  40400 and no change when the ID is unbound, otherwise exactly the bindings of
  that chat ID are removed.
\<close>

theorem DeleteUserByDiscord_refines:
  assumes "DeleteUserByDiscord db d = (db', r)"
  shows "(case abs_delete_chat (bindings db) d of
            None \<Rightarrow> db' = db \<and> r = Err user_not_found
          | Some B \<Rightarrow> bindings db' = B \<and> r = Ok ())"
  using assms by (rule DeleteUserByDiscord_abs)

text \<open>
  C28: \<open>DeleteUserByXUID\<close> implements the contract's deletion by game ID:
  40400 and no change when the XUID is unbound, otherwise exactly the bindings
  of that XUID are removed.
\<close>

theorem DeleteUserByXUID_refines:
  assumes "DeleteUserByXUID db x = (db', r)"
  shows "(case abs_delete_game (bindings db) x of
            None \<Rightarrow> db' = db \<and> r = Err user_not_found
          | Some B \<Rightarrow> bindings db' = B \<and> r = Ok ())"
proof (cases "db_first db (\<lambda>r. User.XUID r = x)")
  case None
  then have "abs_delete_game (bindings db) x = None"
    by (simp add: abs_delete_game_def db_first_xuid_None)
  with None assms show ?thesis by (simp add: DeleteUserByXUID_def GetUserByXUID_def)
next
  case (Some row)
  then have "User.XUID row = x" "x \<in> snd ` bindings db"
    using db_first_xuid_None [of db x] by (auto dest: db_first_Some)
  with Some assms show ?thesis
    by (auto simp: DeleteUserByXUID_def GetUserByXUID_def abs_delete_game_def bindings_delete_xuid)
qed

lemma bindings_xuid_unique:
  assumes "repo_inv db" "(d1, x) \<in> bindings db" "(d2, x) \<in> bindings db"
  shows "d1 = d2"
proof -
  have "inj_on User.XUID (set (live_rows db))"
    using assms(1) by (simp add: repo_inv_def distinct_map)
  with assms(2,3) show ?thesis by (auto simp: bindings_def dest: inj_onD)
qed

lemma bindings_discord_unique:
  assumes "repo_inv db" "(d, x1) \<in> bindings db" "(d, x2) \<in> bindings db"
  shows "x1 = x2"
proof -
  have "inj_on User.Discord (set (live_rows db))"
    using assms(1) by (simp add: repo_inv_def distinct_map)
  with assms(2,3) show ?thesis by (auto simp: bindings_def dest: inj_onD)
qed

lemma GetUserByXUID_bound:
  assumes "repo_inv db" "(d, x) \<in> bindings db"
  shows "GetUserByXUID db x = Ok \<lparr>Discord = d, XUID = x\<rparr>"
proof -
  from assms(2) have "x \<in> snd ` bindings db" by force
  then have "db_first db (\<lambda>r. User.XUID r = x) \<noteq> None"
    by (simp add: db_first_xuid_None)
  then obtain row where row: "db_first db (\<lambda>r. User.XUID r = x) = Some row" by blast
  then have "(User.Discord row, x) \<in> bindings db"
    by (auto simp: bindings_def dest: db_first_Some)
  with assms have "User.Discord row = d" by (blast intro: bindings_xuid_unique)
  with row show ?thesis
    by (auto simp: GetUserByXUID_def ToUser_def User.defs dest: db_first_Some)
qed

lemma GetUserByXUID_unbound:
  "x \<notin> snd ` bindings db \<Longrightarrow> GetUserByXUID db x = Err user_not_found"
  by (simp add: GetUserByXUID_def db_first_xuid_None [symmetric])

lemma GetUserByDiscord_unbound:
  "d \<notin> fst ` bindings db \<Longrightarrow> GetUserByDiscord db d = Err user_not_found"
  by (simp add: GetUserByDiscord_def db_first_discord_None [symmetric])

text \<open>
  After \<open>CreateUser(chatId, gameId)\<close> succeeds, creating a binding with the
  same chat ID and another game ID, or with the same game ID and another chat
  ID, fails with 40000 and leaves the table unchanged.
\<close>

theorem CreateUser_conflicts:
  assumes "CreateUser db d x = (db', Ok u)"
  shows "CreateUser db' d x' = (db', Err already_bound) \<and> CreateUser db' d' x = (db', Err already_bound)"
proof -
  from CreateUser_abs [OF assms] have B: "bindings db' = insert (d, x) (bindings db)"
    by (auto simp: abs_create_def split: if_splits)
  have "abs_create (bindings db') d x' = None" "abs_create (bindings db') d' x = None"
    using B by (auto simp: abs_create_def)
  moreover obtain db1 r1 where c1: "CreateUser db' d x' = (db1, r1)" by (cases "CreateUser db' d x'")
  moreover obtain db2 r2 where c2: "CreateUser db' d' x = (db2, r2)" by (cases "CreateUser db' d' x")
  ultimately show ?thesis
    using CreateUser_abs [OF c1] CreateUser_abs [OF c2] by simp
qed

text \<open>
  C31: On a well-formed table, deleting the binding of a chat ID succeeds and
  afterwards both \<open>GetUserByXUID\<close> of its game ID and \<open>GetUserByDiscord\<close> of the
  chat ID fail with 40400.
\<close>

theorem unbind_then_not_found:
  assumes inv: "repo_inv db" and bound: "(d, x) \<in> bindings db"
    and del: "DeleteUserByDiscord db d = (db', r)"
  shows "r = Ok () \<and> GetUserByXUID db' x = Err user_not_found \<and> GetUserByDiscord db' d = Err user_not_found"
proof -
  from bound have "d \<in> fst ` bindings db" by force
  with DeleteUserByDiscord_abs [OF del]
  have r: "r = Ok ()" and B: "bindings db' = {p \<in> bindings db. fst p \<noteq> d}"
    by (simp_all add: abs_delete_chat_def)
  have "x \<notin> snd ` bindings db'"
  proof
    assume "x \<in> snd ` bindings db'"
    then obtain d' where "(d', x) \<in> bindings db" "d' \<noteq> d" using B by force
    with inv bound show False by (blast dest: bindings_xuid_unique)
  qed
  moreover have "d \<notin> fst ` bindings db'" using B by force
  ultimately show ?thesis
    using r by (simp add: GetUserByXUID_unbound GetUserByDiscord_unbound)
qed

lemma CreateUser_preserves_inv:
  assumes "repo_inv db"
  shows "repo_inv (fst (CreateUser db d x))"
proof (cases "db_first db (\<lambda>r. User.Discord r = d \<or> User.XUID r = x)")
  case None
  then have "fst (CreateUser db d x) = fst (db_create db d x)"
    by (simp add: CreateUser_def split: prod.split)
  with None assms show ?thesis by (simp add: repo_inv_create)
next
  case (Some row)
  with assms show ?thesis by (simp add: CreateUser_def)
qed

lemma DeleteUserByDiscord_preserves_inv: "repo_inv db \<Longrightarrow> repo_inv (fst (DeleteUserByDiscord db d))"
  by (simp add: DeleteUserByDiscord_def repo_inv_delete split: outcome.splits)

lemma DeleteUserByXUID_preserves_inv: "repo_inv db \<Longrightarrow> repo_inv (fst (DeleteUserByXUID db x))"
  by (simp add: DeleteUserByXUID_def repo_inv_delete split: outcome.splits)

lemma run_repo_inv: "repo_inv db \<Longrightarrow> repo_inv (run_repo db c)"
  by (cases c) (simp_all add: CreateUser_preserves_inv DeleteUserByDiscord_preserves_inv
      DeleteUserByXUID_preserves_inv)

text \<open>
  C20: Every call of the repository interface keeps the table well formed:
  increasing primary keys, and no chat ID or game ID bound twice among the live
  rows.
\<close>

theorem run_repo_preserves_inv: "repo_inv db \<Longrightarrow> repo_inv (run_repo db c)"
  by (rule run_repo_inv)

lemma run_repo_fold_inv: "repo_inv db \<Longrightarrow> repo_inv (fold (\<lambda>c db. run_repo db c) cs db)"
proof (induction cs arbitrary: db)
  case Nil
  then show ?case by simp
next
  case (Cons c cs)
  then show ?case using run_repo_inv by simp
qed

subsection \<open>Witnesses\<close>

lemma CreateUser_example:
  "CreateUser NewDefaultRepository ''disc-1'' ''XUID-1'' =
     (\<lparr>rows = [\<lparr>Discord = ''disc-1'', XUID = ''XUID-1'', ID = 1, Deleted = False\<rparr>], next_id = 2\<rparr>,
      Ok \<lparr>Discord = ''disc-1'', XUID = ''XUID-1''\<rparr>)"
  by (simp add: CreateUser_def NewDefaultRepository_def db_first_def live_rows_def db_create_def
      ToUser_def User.defs Let_def)

lemma repo_inv_example:
  "repo_inv \<lparr>rows = [\<lparr>Discord = ''disc-1'', XUID = ''XUID-1'', ID = 1, Deleted = False\<rparr>], next_id = 2\<rparr>"
  by (simp add: repo_inv_def live_rows_def)

lemma bindings_example:
  "bindings \<lparr>rows = [\<lparr>Discord = ''disc-1'', XUID = ''XUID-1'', ID = 1, Deleted = False\<rparr>], next_id = 2\<rparr> =
   {(''disc-1'', ''XUID-1'')}"
  by (simp add: bindings_def live_rows_def)

lemma CreateUser_refines_witness:
  "CreateUser NewDefaultRepository ''disc-1'' ''XUID-1'' =
     (\<lparr>rows = [\<lparr>Discord = ''disc-1'', XUID = ''XUID-1'', ID = 1, Deleted = False\<rparr>], next_id = 2\<rparr>,
      Ok \<lparr>Discord = ''disc-1'', XUID = ''XUID-1''\<rparr>) \<and>
   abs_create (bindings NewDefaultRepository) ''disc-1'' ''XUID-1'' = Some {(''disc-1'', ''XUID-1'')}"
proof -
  have "bindings NewDefaultRepository = {}"
    by (simp add: bindings_def live_rows_def NewDefaultRepository_def)
  then show ?thesis
    using CreateUser_refines [OF CreateUser_example] CreateUser_example bindings_example
    by (simp add: abs_create_def)
qed

lemma DeleteUserByDiscord_refines_witness:
  "DeleteUserByDiscord \<lparr>rows = [\<lparr>Discord = ''disc-1'', XUID = ''XUID-1'', ID = 1, Deleted = False\<rparr>], next_id = 2\<rparr> ''disc-1'' =
     (\<lparr>rows = [\<lparr>Discord = ''disc-1'', XUID = ''XUID-1'', ID = 1, Deleted = True\<rparr>], next_id = 2\<rparr>, Ok ()) \<and>
   bindings \<lparr>rows = [\<lparr>Discord = ''disc-1'', XUID = ''XUID-1'', ID = 1, Deleted = True\<rparr>], next_id = 2\<rparr> = {}"
proof -
  have d: "DeleteUserByDiscord \<lparr>rows = [\<lparr>Discord = ''disc-1'', XUID = ''XUID-1'', ID = 1, Deleted = False\<rparr>], next_id = 2\<rparr> ''disc-1'' =
     (\<lparr>rows = [\<lparr>Discord = ''disc-1'', XUID = ''XUID-1'', ID = 1, Deleted = True\<rparr>], next_id = 2\<rparr>, Ok ())"
    by (simp add: DeleteUserByDiscord_def GetUserByDiscord_def db_first_def live_rows_def db_delete_def)
  show ?thesis
    using DeleteUserByDiscord_refines [OF d] d bindings_example by (simp add: abs_delete_chat_def)
qed

lemma DeleteUserByXUID_refines_witness:
  "DeleteUserByXUID \<lparr>rows = [\<lparr>Discord = ''disc-1'', XUID = ''XUID-1'', ID = 1, Deleted = False\<rparr>], next_id = 2\<rparr> ''XUID-2'' =
     (\<lparr>rows = [\<lparr>Discord = ''disc-1'', XUID = ''XUID-1'', ID = 1, Deleted = False\<rparr>], next_id = 2\<rparr>, Err user_not_found)"
proof -
  obtain db' r where d: "DeleteUserByXUID \<lparr>rows = [\<lparr>Discord = ''disc-1'', XUID = ''XUID-1'', ID = 1, Deleted = False\<rparr>], next_id = 2\<rparr> ''XUID-2'' = (db', r)"
    by fastforce
  have "abs_delete_game {(''disc-1'', ''XUID-1'')} ''XUID-2'' = None"
    by (simp add: abs_delete_game_def)
  then show ?thesis using DeleteUserByXUID_refines [OF d] d bindings_example by simp
qed

lemma unbind_then_not_found_witness:
  "DeleteUserByDiscord \<lparr>rows = [\<lparr>Discord = ''disc-1'', XUID = ''XUID-1'', ID = 1, Deleted = False\<rparr>], next_id = 2\<rparr> ''disc-1'' =
     (\<lparr>rows = [\<lparr>Discord = ''disc-1'', XUID = ''XUID-1'', ID = 1, Deleted = True\<rparr>], next_id = 2\<rparr>, Ok ()) \<and>
   GetUserByXUID \<lparr>rows = [\<lparr>Discord = ''disc-1'', XUID = ''XUID-1'', ID = 1, Deleted = True\<rparr>], next_id = 2\<rparr> ''XUID-1'' = Err user_not_found"
proof -
  have d: "DeleteUserByDiscord \<lparr>rows = [\<lparr>Discord = ''disc-1'', XUID = ''XUID-1'', ID = 1, Deleted = False\<rparr>], next_id = 2\<rparr> ''disc-1'' =
     (\<lparr>rows = [\<lparr>Discord = ''disc-1'', XUID = ''XUID-1'', ID = 1, Deleted = True\<rparr>], next_id = 2\<rparr>, Ok ())"
    by (simp add: DeleteUserByDiscord_def GetUserByDiscord_def db_first_def live_rows_def db_delete_def)
  have b: "(''disc-1'', ''XUID-1'') \<in> bindings \<lparr>rows = [\<lparr>Discord = ''disc-1'', XUID = ''XUID-1'', ID = 1, Deleted = False\<rparr>], next_id = 2\<rparr>"
    by (simp add: bindings_def live_rows_def)
  show ?thesis using unbind_then_not_found [OF repo_inv_example b d] d by simp
qed

lemma run_repo_preserves_inv_witness:
  "repo_inv NewDefaultRepository \<and>
   repo_inv (run_repo NewDefaultRepository (CallCreateUser ''disc-1'' ''XUID-1''))"
  using run_repo_preserves_inv [OF repo_inv_new] repo_inv_new by blast

end
