(* ===== verification/Service.thy ===== *)
theory Service
  imports Codes Repository
begin

text \<open>
  The binding service (\<open>src/server/service.go\<close>): it owns neither store but
  holds the repository and the code store it was built with, and a list of
  \<open>NewUserHandler\<close> callbacks. A callback's effect is on the world outside
  the service, so a handler is a function on an abstract world \<open>'w\<close>, and
  \<open>Service.CreateUser\<close> threads that world through the handlers in the order
  they were added. The methods are named \<open>Service_\<dots>\<close> after their Go
  receiver, to keep them apart from the repository and code-store methods they
  call. \<open>IssueCode\<close> inherits the environment of \<open>Issue\<close> (iteration order,
  random reads, clock) and its possible non-termination.
\<close>

type_synonym 'w NewUserHandler = "User \<Rightarrow> 'w \<Rightarrow> 'w"

record 'w service =
  repo :: user_db
  codeStr :: default_code_store
  handlers :: "'w NewUserHandler list"

definition NewService :: "user_db \<Rightarrow> default_code_store \<Rightarrow> 'w service" where
  "NewService r c = \<lparr>repo = r, codeStr = c, handlers = []\<rparr>"

definition AddHandler :: "'w service \<Rightarrow> 'w NewUserHandler \<Rightarrow> 'w service" where
  "AddHandler s handler = s\<lparr>handlers := handlers s @ [handler]\<rparr>"

definition Service_IssueCode ::
  "string list \<Rightarrow> rand_source \<Rightarrow> time \<Rightarrow> time \<Rightarrow> 'w service \<Rightarrow> string
   \<Rightarrow> ('w service \<times> code_information option outcome) option" where
  "Service_IssueCode order rs now1 now2 s xuid =
     (case GetUserByXUID (repo s) xuid of
        Ok existing \<Rightarrow>
          Some (s, Err (AppError (NewApplicationError 40000
                  (''Minecraft account is already bound to ID '' @ User.Discord existing))))
      | _ \<Rightarrow> map_option (\<lambda>(c, r). (s\<lparr>codeStr := c\<rparr>, r)) (Issue order rs now1 now2 (codeStr s) xuid))"

definition Service_CheckCode :: "'w service \<Rightarrow> string \<Rightarrow> code_information outcome" where
  "Service_CheckCode s code = (case GetInformation (codeStr s) code of
       Err e \<Rightarrow> Err e
     | info \<Rightarrow> info)"

definition Service_RevokeCode :: "'w service \<Rightarrow> string \<Rightarrow> 'w service \<times> unit outcome" where
  "Service_RevokeCode s code = (case Revoke (codeStr s) code of (c, r) \<Rightarrow> (s\<lparr>codeStr := c\<rparr>, r))"

definition Service_GetUserByXUID :: "'w service \<Rightarrow> string \<Rightarrow> User outcome" where
  "Service_GetUserByXUID s xuid = GetUserByXUID (repo s) xuid"

definition Service_GetUserByDiscord :: "'w service \<Rightarrow> string \<Rightarrow> User outcome" where
  "Service_GetUserByDiscord s discord = GetUserByDiscord (repo s) discord"

definition run_handlers :: "'w NewUserHandler list \<Rightarrow> User \<Rightarrow> 'w \<Rightarrow> 'w" where
  "run_handlers hs user w = fold (\<lambda>handler. handler user) hs w"

definition Service_CreateUser :: "'w service \<Rightarrow> 'w \<Rightarrow> string \<Rightarrow> string \<Rightarrow> 'w service \<times> 'w \<times> User outcome" where
  "Service_CreateUser s w discord xuid =
     (case CreateUser (repo s) discord xuid of
        (r, Ok user) \<Rightarrow> (s\<lparr>repo := r\<rparr>, run_handlers (handlers s) user w, Ok user)
      | (r, Err e) \<Rightarrow> (s\<lparr>repo := r\<rparr>, w, Err e)
      | (r, Panic p) \<Rightarrow> (s\<lparr>repo := r\<rparr>, w, Panic p))"

definition Service_DeleteUserByDiscord :: "'w service \<Rightarrow> string \<Rightarrow> 'w service \<times> unit outcome" where
  "Service_DeleteUserByDiscord s discord =
     (case DeleteUserByDiscord (repo s) discord of (r, res) \<Rightarrow> (s\<lparr>repo := r\<rparr>, res))"

definition Service_DeleteUserByXUID :: "'w service \<Rightarrow> string \<Rightarrow> 'w service \<times> unit outcome" where
  "Service_DeleteUserByXUID s xuid =
     (case DeleteUserByXUID (repo s) xuid of (r, res) \<Rightarrow> (s\<lparr>repo := r\<rparr>, res))"

subsection \<open>Invariant\<close>

text \<open>
  The service is well formed when both stores are, and no XUID that holds an
  outstanding code is bound (a code is only ever issued to an unbound XUID,
  and the bind flow revokes it once the XUID is bound).
\<close>

definition codes_unbound :: "'w service \<Rightarrow> bool" where
  "codes_unbound s \<longleftrightarrow>
     (\<forall>c info. codes (codeStr s) c = Some info \<longrightarrow> code_information.XUID info \<notin> snd ` bindings (repo s))"

definition service_inv :: "'w service \<Rightarrow> bool" where
  "service_inv s \<longleftrightarrow> repo_inv (repo s) \<and> code_store_inv (codeStr s) \<and> codes_unbound s"

subsection \<open>Lemmas\<close>

lemma IssueCode_bound:
  assumes "repo_inv (repo s)" "(d, x) \<in> bindings (repo s)"
  shows "Service_IssueCode ks rs t1 t2 s x =
           Some (s, Err (AppError (NewApplicationError 40000 (''Minecraft account is already bound to ID '' @ d))))"
  using GetUserByXUID_bound [OF assms] by (simp add: Service_IssueCode_def)

text \<open>
  C22: \<open>IssueCode\<close> for a XUID that is already bound fails with 40000 naming the
  bound Discord ID, before it touches the code store: the service is unchanged
  and the call returns whatever the random source would do.
\<close>

theorem IssueCode_bound_conflict:
  assumes "repo_inv (repo s)" "(d, x) \<in> bindings (repo s)"
  shows "Service_IssueCode ks rs t1 t2 s x =
           Some (s, Err (AppError (NewApplicationError 40000 (''Minecraft account is already bound to ID '' @ d))))"
  using assms by (rule IssueCode_bound)

lemma IssueCode_unbound:
  assumes "x \<notin> snd ` bindings (repo s)"
  shows "Service_IssueCode ks rs t1 t2 s x =
           map_option (\<lambda>(c, r). (s\<lparr>codeStr := c\<rparr>, r)) (Issue ks rs t1 t2 (codeStr s) x)"
  using GetUserByXUID_unbound [OF assms] by (simp add: Service_IssueCode_def user_not_found_def)

text \<open>
  C23: \<open>Service.CreateUser\<close> changes only the repository; on success it calls
  every registered handler exactly once with the new user, in the order they
  were added, and on failure it calls none.
\<close>

theorem CreateUser_runs_handlers:
  assumes "Service_CreateUser s w d x = (s', w', r)"
  shows "repo s' = fst (CreateUser (repo s) d x) \<and> handlers s' = handlers s \<and> codeStr s' = codeStr s \<and>
         (case r of
            Ok u \<Rightarrow> u = \<lparr>Discord = d, XUID = x\<rparr> \<and> w' = fold (\<lambda>h. h u) (handlers s) w
          | _ \<Rightarrow> w' = w)"
proof -
  obtain db' res where c: "CreateUser (repo s) d x = (db', res)" by fastforce
  have res: "res = Ok \<lparr>Discord = d, XUID = x\<rparr> \<or> res = Err already_bound"
    using CreateUser_abs [OF c] by (auto split: option.splits)
  with c assms show ?thesis
    by (auto simp: Service_CreateUser_def run_handlers_def)
qed

lemma codes_unbound_issue:
  assumes "codes_unbound s" "x \<notin> snd ` bindings (repo s)"
    and "Issue ks rs t1 t2 (codeStr s) x = Some (c', r)"
  shows "codes_unbound (s\<lparr>codeStr := c'\<rparr>)"
  using assms(3)
proof (cases rule: Issue_SomeE)
  case (fresh g)
  with assms(1,2) show ?thesis by (auto simp: codes_unbound_def)
qed (use assms(1) in simp_all)

lemma IssueCode_preserves_inv:
  assumes inv: "service_inv s" and ord: "iteration_order (codes (codeStr s)) ks"
    and iss: "Service_IssueCode ks rs t1 t2 s x = Some (s', r)"
  shows "service_inv s'"
proof (cases "x \<in> snd ` bindings (repo s)")
  case True
  then obtain d where "(d, x) \<in> bindings (repo s)" by force
  with inv iss show ?thesis by (simp add: service_inv_def IssueCode_bound)
next
  case False
  with iss obtain c' where c': "Issue ks rs t1 t2 (codeStr s) x = Some (c', r)" "s' = s\<lparr>codeStr := c'\<rparr>"
    by (auto simp: IssueCode_unbound)
  have "code_store_inv c'" using inv ord c'(1) by (auto simp: service_inv_def intro: Issue_inv)
  moreover have "codes_unbound s'" using inv False c' by (auto simp: service_inv_def intro: codes_unbound_issue)
  ultimately show ?thesis using inv c'(2) by (simp add: service_inv_def)
qed

lemma RevokeCode_preserves_inv:
  assumes "service_inv s"
  shows "service_inv (fst (Service_RevokeCode s c))"
  using assms Revoke_preserves_inv [of "codeStr s" c]
  by (auto simp: service_inv_def codes_unbound_def Service_RevokeCode_def Revoke_def
      split: prod.splits outcome.splits)

lemma DeleteUserByDiscord_preserves_inv_svc:
  assumes "service_inv s"
  shows "service_inv (fst (Service_DeleteUserByDiscord s d))"
proof -
  obtain db' res where del: "DeleteUserByDiscord (repo s) d = (db', res)" by fastforce
  have "bindings db' \<subseteq> bindings (repo s)"
    using DeleteUserByDiscord_abs [OF del] by (auto simp: abs_delete_chat_def split: if_splits)
  moreover have "repo_inv db'"
    using DeleteUserByDiscord_preserves_inv [of "repo s" d] assms del by (simp add: service_inv_def)
  ultimately show ?thesis
    using assms del by (auto simp: service_inv_def codes_unbound_def Service_DeleteUserByDiscord_def)
qed


subsection \<open>Witnesses\<close>

lemma IssueCode_bound_conflict_witness:
  "Service_IssueCode [] (\<lambda>_. None) 0 0
     (NewService \<lparr>rows = [\<lparr>Discord = ''disc-1'', XUID = ''XUID-1'', ID = 1, Deleted = False\<rparr>], next_id = 2\<rparr>
        newDefaultCodeStore :: unit service) ''XUID-1'' =
   Some (NewService \<lparr>rows = [\<lparr>Discord = ''disc-1'', XUID = ''XUID-1'', ID = 1, Deleted = False\<rparr>], next_id = 2\<rparr>
           newDefaultCodeStore,
         Err (AppError (NewApplicationError 40000 (''Minecraft account is already bound to ID disc-1''))))"
proof -
  have b: "(''disc-1'', ''XUID-1'') \<in> bindings (repo (NewService \<lparr>rows = [\<lparr>Discord = ''disc-1'', XUID = ''XUID-1'', ID = 1, Deleted = False\<rparr>], next_id = 2\<rparr>
        newDefaultCodeStore :: unit service))"
    by (simp add: NewService_def bindings_def live_rows_def)
  have i: "repo_inv (repo (NewService \<lparr>rows = [\<lparr>Discord = ''disc-1'', XUID = ''XUID-1'', ID = 1, Deleted = False\<rparr>], next_id = 2\<rparr>
        newDefaultCodeStore :: unit service))"
    by (simp add: NewService_def repo_inv_def live_rows_def)
  show ?thesis using IssueCode_bound_conflict [OF i b] by simp
qed

lemma CreateUser_runs_handlers_witness:
  "Service_CreateUser (AddHandler (AddHandler (NewService NewDefaultRepository newDefaultCodeStore)
       (\<lambda>u w. w @ [(1::nat, u)])) (\<lambda>u w. w @ [(2, u)])) [] ''disc-1'' ''XUID-1'' =
     (AddHandler (AddHandler (NewService \<lparr>rows = [\<lparr>Discord = ''disc-1'', XUID = ''XUID-1'', ID = 1, Deleted = False\<rparr>], next_id = 2\<rparr>
        newDefaultCodeStore) (\<lambda>u w. w @ [(1::nat, u)])) (\<lambda>u w. w @ [(2, u)]),
      [(1, \<lparr>Discord = ''disc-1'', XUID = ''XUID-1''\<rparr>), (2, \<lparr>Discord = ''disc-1'', XUID = ''XUID-1''\<rparr>)],
      Ok \<lparr>Discord = ''disc-1'', XUID = ''XUID-1''\<rparr>)"
proof -
  let ?s = "AddHandler (AddHandler (NewService NewDefaultRepository newDefaultCodeStore)
       (\<lambda>u w. w @ [(1::nat, u)])) (\<lambda>u w. w @ [(2, u)])"
  have c: "Service_CreateUser ?s [] ''disc-1'' ''XUID-1'' =
     (?s\<lparr>repo := \<lparr>rows = [\<lparr>Discord = ''disc-1'', XUID = ''XUID-1'', ID = 1, Deleted = False\<rparr>], next_id = 2\<rparr>\<rparr>,
      run_handlers (handlers ?s) \<lparr>Discord = ''disc-1'', XUID = ''XUID-1''\<rparr> [],
      Ok \<lparr>Discord = ''disc-1'', XUID = ''XUID-1''\<rparr>)"
    by (simp add: Service_CreateUser_def AddHandler_def NewService_def CreateUser_example)
  have "fold (\<lambda>h. h \<lparr>Discord = ''disc-1'', XUID = ''XUID-1''\<rparr>) (handlers ?s) [] =
        [(1, \<lparr>Discord = ''disc-1'', XUID = ''XUID-1''\<rparr>), (2, \<lparr>Discord = ''disc-1'', XUID = ''XUID-1''\<rparr>)]"
    by (simp add: AddHandler_def NewService_def)
  then show ?thesis
    using CreateUser_runs_handlers [OF c] c by (simp add: AddHandler_def NewService_def)
qed

end
