(* ===== verification/Bot.thy ===== *)
theory Bot
  imports Service
begin

text \<open>
  The chat command layer (\<open>src/server/bot.go\<close>): the \<open>bind\<close> and \<open>unbind\<close>
  handlers registered in \<open>RegisterCommands\<close>, and the interaction callback that
  builds the option map and dispatches on the command name. An interaction is
  what the handlers read of a \<open>discordgo.InteractionCreate\<close>: the invoking
  member's user ID (\<open>None\<close> when \<open>i.Member\<close> is \<open>nil\<close>, as for a command sent
  in a direct message), the command name and its options. Reading a field
  through a \<open>nil\<close> pointer panics. \<open>NewBot\<close> and the registration of the
  commands are modelled over the Discord API as a parameter; the reply sent
  back is the handler's text.
\<close>

record interaction =
  MemberUserID :: "string option"
  CommandName :: string
  Options :: "(string \<times> string) list"

definition nil_dereference :: panic_value where
  "nil_dereference = PanicErr (OtherError ''runtime error: invalid memory address or nil pointer dereference'')"

text \<open>\<open>errors.As(err, &ApplicationError{})\<close>: its message, else a generic one.\<close>

definition reply_error :: "go_error \<Rightarrow> string" where
  "reply_error err = (case err of
       AppError e \<Rightarrow> error_string err
     | OtherError _ \<Rightarrow> ''Something went wrong'')"

definition bind_handler ::
  "'w service \<Rightarrow> 'w \<Rightarrow> interaction \<Rightarrow> (string \<rightharpoonup> string) \<Rightarrow> 'w service \<times> 'w \<times> string outcome" where
  "bind_handler s w i options =
     (case options ''code'' of
        None \<Rightarrow> (s, w, Panic nil_dereference)
      | Some code \<Rightarrow>
          (case Service_CheckCode s code of
             Err err \<Rightarrow> (s, w, Ok (reply_error err))
           | Panic p \<Rightarrow> (s, w, Panic p)
           | Ok codeInfo \<Rightarrow>
               (case MemberUserID i of
                  None \<Rightarrow> (s, w, Panic nil_dereference)
                | Some discordId \<Rightarrow>
                    (case Service_CreateUser s w discordId (code_information.XUID codeInfo) of
                       (s1, w1, Err err) \<Rightarrow> (s1, w1, Ok (reply_error err))
                     | (s1, w1, Panic p) \<Rightarrow> (s1, w1, Panic p)
                     | (s1, w1, Ok _) \<Rightarrow>
                         (fst (Service_RevokeCode s1 (Code codeInfo)), w1,
                          Ok ''Binding has been created successfully'')))))"

definition unbind_handler ::
  "'w service \<Rightarrow> 'w \<Rightarrow> interaction \<Rightarrow> (string \<rightharpoonup> string) \<Rightarrow> 'w service \<times> 'w \<times> string outcome" where
  "unbind_handler s w i options =
     (case MemberUserID i of
        None \<Rightarrow> (s, w, Panic nil_dereference)
      | Some discordId \<Rightarrow>
          (case Service_DeleteUserByDiscord s discordId of
             (s1, Err err) \<Rightarrow> (s1, w, Ok (reply_error err))
           | (s1, Panic p) \<Rightarrow> (s1, w, Panic p)
           | (s1, Ok _) \<Rightarrow> (s1, w, Ok ''Binding has been removed successfully'')))"

text \<open>\<open>optionMap[opt.Name] = opt\<close> over the options in order: the last one of a name wins.\<close>

definition option_map :: "(string \<times> string) list \<Rightarrow> string \<rightharpoonup> string" where
  "option_map opts = map_of (rev opts)"

definition on_interaction :: "'w service \<Rightarrow> 'w \<Rightarrow> interaction \<Rightarrow> ('w service \<times> 'w \<times> string outcome) option" where
  "on_interaction s w i =
     (if CommandName i = ''bind'' then Some (bind_handler s w i (option_map (Options i)))
      else if CommandName i = ''unbind'' then Some (unbind_handler s w i (option_map (Options i)))
      else None)"

subsection \<open>Sessions and command registration\<close>

text \<open>
  \<open>NewBot\<close> opens a discordgo session for the token (\<open>session_opens\<close> says
  whether the gateway accepts it) and \<open>RegisterCommands\<close> creates the two
  application commands through the Discord API (\<open>create\<close> returns the
  registered command, or \<open>None\<close> when the call fails, on which the loop
  panics); the guild ID is passed through to it, the empty one asking for
  global commands. Discord delivers an interaction only for a registered command,
  with every option the command declares as required.
\<close>

datatype ApplicationCommandOptionType = ApplicationCommandOptionString

record ApplicationCommandOption =
  OptionType :: ApplicationCommandOptionType
  OptionName :: string
  OptionDescription :: string
  Required :: bool

record ApplicationCommand =
  Name :: string
  Description :: string
  CommandOptions :: "ApplicationCommandOption list"

record Bot =
  session :: string
  cmds :: "ApplicationCommand list"

definition NewBot :: "(string \<Rightarrow> bool) \<Rightarrow> string \<Rightarrow> Bot outcome" where
  "NewBot session_opens discordToken =
     (if session_opens (''Bot '' @ discordToken)
      then Ok \<lparr>session = ''Bot '' @ discordToken, cmds = []\<rparr>
      else Err (OtherError ''discordgo: could not open the session''))"

definition bot_commands :: "ApplicationCommand list" where
  "bot_commands =
     [\<lparr>Name = ''bind'', Description = ''Bind your minecraft to your discord account'',
       CommandOptions = [\<lparr>OptionType = ApplicationCommandOptionString, OptionName = ''code'',
                           OptionDescription = ''in-game minecraft account code'', Required = True\<rparr>]\<rparr>,
      \<lparr>Name = ''unbind'', Description = ''Unbind your minecraft account from your discord account'',
       CommandOptions = []\<rparr>]"

definition RegisterCommands ::
  "(string \<Rightarrow> ApplicationCommand \<Rightarrow> ApplicationCommand option) \<Rightarrow> Bot \<Rightarrow> string \<Rightarrow> Bot outcome" where
  "RegisterCommands create b guildId =
     fold (\<lambda>cmd r. case r of
             Ok b' \<Rightarrow> (case create guildId cmd of
                        Some registeredCmd \<Rightarrow> Ok (b'\<lparr>cmds := cmds b' @ [registeredCmd]\<rparr>)
                      | None \<Rightarrow> Panic (PanicErr (OtherError ''discordgo: ApplicationCommandCreate failed'')))
           | other \<Rightarrow> other)
       bot_commands (Ok (b\<lparr>cmds := []\<rparr>))"

text \<open>
  Discord's answer to \<open>ApplicationCommandCreate(appID, guildID, cmd)\<close>: the
  empty guild ID registers a global command; any other is the snowflake ID of
  a guild, and the command is registered there when the bot is a member of
  that guild (\<open>guilds\<close>), and refused otherwise.
\<close>

definition is_snowflake :: "string \<Rightarrow> bool" where
  "is_snowflake g \<longleftrightarrow> g \<noteq> [] \<and> (\<forall>c \<in> set g. c \<in> set ''0123456789'')"

definition discord_ApplicationCommandCreate ::
  "string list \<Rightarrow> string \<Rightarrow> ApplicationCommand \<Rightarrow> ApplicationCommand option" where
  "discord_ApplicationCommandCreate guilds guildId cmd =
     (if guildId = '''' \<or> guildId \<in> set guilds then Some cmd else None)"

definition discord_delivers :: "ApplicationCommand list \<Rightarrow> interaction \<Rightarrow> bool" where
  "discord_delivers cs i \<longleftrightarrow>
     (\<exists>c \<in> set cs. Name c = CommandName i \<and>
        (\<forall>opt \<in> set (CommandOptions c). Required opt \<longrightarrow> OptionName opt \<in> fst ` set (Options i)))"

subsection \<open>Lemmas\<close>

lemma CheckCode_found: "codes (codeStr s) c = Some info \<Longrightarrow> Service_CheckCode s c = Ok info"
  by (simp add: Service_CheckCode_def GetInformation_def)

lemma CheckCode_missing: "codes (codeStr s) c = None \<Longrightarrow> Service_CheckCode s c = Err code_not_found"
  by (simp add: Service_CheckCode_def GetInformation_def)

lemma reply_error_app [simp]: "reply_error (AppError e) = Message e"
  by (simp add: reply_error_def)

lemma Service_CreateUser_fail:
  assumes "d \<in> fst ` bindings (repo s) \<or> x \<in> snd ` bindings (repo s)"
  shows "Service_CreateUser s w d x = (s, w, Err already_bound)"
proof -
  obtain db' r where c: "CreateUser (repo s) d x = (db', r)" by fastforce
  from CreateUser_abs [OF c] assms have "db' = repo s" "r = Err already_bound"
    by (auto simp: abs_create_def)
  with c show ?thesis by (simp add: Service_CreateUser_def)
qed

lemma Service_CreateUser_ok:
  assumes "d \<notin> fst ` bindings (repo s)" "x \<notin> snd ` bindings (repo s)"
  shows "\<exists>db'. Service_CreateUser s w d x =
           (s\<lparr>repo := db'\<rparr>, run_handlers (handlers s) \<lparr>Discord = d, XUID = x\<rparr> w, Ok \<lparr>Discord = d, XUID = x\<rparr>) \<and>
         db' = fst (CreateUser (repo s) d x) \<and> bindings db' = insert (d, x) (bindings (repo s))"
proof -
  obtain db' r where c: "CreateUser (repo s) d x = (db', r)" by fastforce
  from CreateUser_abs [OF c] assms have "bindings db' = insert (d, x) (bindings (repo s))" "r = Ok \<lparr>Discord = d, XUID = x\<rparr>"
    by (auto simp: abs_create_def)
  with c show ?thesis by (simp add: Service_CreateUser_def)
qed

lemma bind_handler_success:
  assumes inv: "service_inv s" and code: "codes (codeStr s) c = Some info"
    and opt: "options ''code'' = Some c" and mem: "MemberUserID i = Some d"
    and free: "d \<notin> fst ` bindings (repo s)"
  shows "bind_handler s w i options =
           (s\<lparr>repo := fst (CreateUser (repo s) d (code_information.XUID info)),
              codeStr := (codeStr s)\<lparr>codes := (codes (codeStr s))(c := None)\<rparr>\<rparr>,
            run_handlers (handlers s) \<lparr>Discord = d, XUID = code_information.XUID info\<rparr> w,
            Ok ''Binding has been created successfully'')"
proof -
  let ?x = "code_information.XUID info"
  have unb: "?x \<notin> snd ` bindings (repo s)" using inv code by (auto simp: service_inv_def codes_unbound_def)
  have cc: "Code info = c" using inv code by (auto simp: service_inv_def code_store_inv_def entry_ok_def)
  obtain db' where cu: "Service_CreateUser s w d ?x =
           (s\<lparr>repo := db'\<rparr>, run_handlers (handlers s) \<lparr>Discord = d, XUID = ?x\<rparr> w, Ok \<lparr>Discord = d, XUID = ?x\<rparr>)"
      and db': "db' = fst (CreateUser (repo s) d ?x)"
    using Service_CreateUser_ok [OF free unb] by blast
  have rv: "fst (Service_RevokeCode (s\<lparr>repo := db'\<rparr>) c) = s\<lparr>repo := db', codeStr := (codeStr s)\<lparr>codes := (codes (codeStr s))(c := None)\<rparr>\<rparr>"
    using code by (simp add: Service_RevokeCode_def Revoke_def GetInformation_def)
  show ?thesis
    using opt mem code cu rv cc db' by (simp add: bind_handler_def CheckCode_found)
qed

text \<open>
  C5: On a well-formed service, \<open>/bind code\<close> from a guild member whose
  Discord ID is unbound, with a code that is outstanding, binds the member to
  the code's XUID, revokes that code and nothing else, runs every handler once
  with the new user, and replies with the success message.
\<close>

theorem bind_creates_binding:
  assumes inv: "service_inv s" and code: "codes (codeStr s) c = Some info"
    and opt: "options ''code'' = Some c" and mem: "MemberUserID i = Some d"
    and free: "d \<notin> fst ` bindings (repo s)"
  shows "\<exists>s'. bind_handler s w i options =
            (s', run_handlers (handlers s) \<lparr>Discord = d, XUID = code_information.XUID info\<rparr> w,
             Ok ''Binding has been created successfully'') \<and>
          bindings (repo s') = insert (d, code_information.XUID info) (bindings (repo s)) \<and>
          codes (codeStr s') = (codes (codeStr s))(c := None) \<and> handlers s' = handlers s"
proof -
  have unb: "code_information.XUID info \<notin> snd ` bindings (repo s)"
    using inv code by (auto simp: service_inv_def codes_unbound_def)
  from Service_CreateUser_ok [OF free unb, of w]
  have "bindings (fst (CreateUser (repo s) d (code_information.XUID info))) =
        insert (d, code_information.XUID info) (bindings (repo s))" by blast
  then show ?thesis using bind_handler_success [of s c info options i d w, OF inv code opt mem free] by simp
qed

lemma bind_success_inv:
  assumes inv: "service_inv s" and code: "codes (codeStr s) c = Some info"
    and free: "d \<notin> fst ` bindings (repo s)"
  shows "service_inv (s\<lparr>repo := fst (CreateUser (repo s) d (code_information.XUID info)),
                        codeStr := (codeStr s)\<lparr>codes := (codes (codeStr s))(c := None)\<rparr>\<rparr>)"
proof -
  let ?x = "code_information.XUID info" and ?db = "fst (CreateUser (repo s) d (code_information.XUID info))"
  have unb: "?x \<notin> snd ` bindings (repo s)" using inv code by (auto simp: service_inv_def codes_unbound_def)
  have b: "bindings ?db = insert (d, ?x) (bindings (repo s))"
    using Service_CreateUser_ok [OF free unb] by blast
  have r: "repo_inv ?db" using inv by (simp add: service_inv_def CreateUser_preserves_inv)
  have cs: "code_store_inv ((codeStr s)\<lparr>codes := (codes (codeStr s))(c := None)\<rparr>)"
    using code_store_inv_delete [of "codeStr s" c] inv by (simp add: service_inv_def)
  have "code_information.XUID info' \<notin> snd ` bindings ?db"
    if c': "((codes (codeStr s))(c := None)) c' = Some info'" for c' info'
  proof -
    from c' have "c' \<noteq> c" "codes (codeStr s) c' = Some info'" by (auto split: if_splits)
    with inv code have "code_information.XUID info' \<noteq> ?x"
      by (auto simp: service_inv_def code_store_inv_def xuid_unique_def)
    moreover have "code_information.XUID info' \<notin> snd ` bindings (repo s)"
      using inv \<open>codes (codeStr s) c' = Some info'\<close> by (auto simp: service_inv_def codes_unbound_def)
    ultimately show ?thesis using b by auto
  qed
  with r cs show ?thesis by (simp add: service_inv_def codes_unbound_def)
qed

lemma bind_conflict_unchanged:
  assumes code: "codes (codeStr s) c = Some info" and opt: "options ''code'' = Some c"
    and mem: "MemberUserID i = Some d" and bound: "d \<in> fst ` bindings (repo s)"
  shows "bind_handler s w i options = (s, w, Ok ''Either discord or XUID are already bound'')"
  using code opt mem Service_CreateUser_fail [of d s "code_information.XUID info" w] bound
  by (simp add: bind_handler_def CheckCode_found already_bound_def NewApplicationError_def)

text \<open>
  C26: When the member's Discord ID is already bound, \<open>/bind\<close> replies with the
  repository's conflict message and changes nothing: the code stays outstanding
  so the user may retry, as the spec's bind flow requires.
\<close>

theorem bind_conflict_keeps_code:
  assumes code: "codes (codeStr s) c = Some info" and opt: "options ''code'' = Some c"
    and mem: "MemberUserID i = Some d" and bound: "d \<in> fst ` bindings (repo s)"
  shows "bind_handler s w i options = (s, w, Ok ''Either discord or XUID are already bound'')"
  using assms by (rule bind_conflict_unchanged)

lemma bind_handler_inv:
  assumes inv: "service_inv s"
  shows "service_inv (fst (bind_handler s w i options))"
proof (cases "options ''code''")
  case None
  with inv show ?thesis by (simp add: bind_handler_def)
next
  case (Some c)
  show ?thesis
  proof (cases "codes (codeStr s) c")
    case None
    with inv \<open>options ''code'' = Some c\<close> show ?thesis by (simp add: bind_handler_def CheckCode_missing)
  next
    case (Some info)
    note code = this
    show ?thesis
    proof (cases "MemberUserID i")
      case None
      with inv code \<open>options ''code'' = Some c\<close> show ?thesis by (simp add: bind_handler_def CheckCode_found)
    next
      case (Some d)
      show ?thesis
      proof (cases "d \<in> fst ` bindings (repo s)")
        case True
        with inv code \<open>options ''code'' = Some c\<close> \<open>MemberUserID i = Some d\<close> show ?thesis
          by (simp add: bind_conflict_unchanged)
      next
        case False
        with inv code \<open>options ''code'' = Some c\<close> \<open>MemberUserID i = Some d\<close> show ?thesis
          by (simp add: bind_handler_success bind_success_inv)
      qed
    qed
  qed
qed

lemma unbind_handler_inv:
  assumes inv: "service_inv s"
  shows "service_inv (fst (unbind_handler s w i options))"
proof (cases "MemberUserID i")
  case None
  with inv show ?thesis by (simp add: unbind_handler_def)
next
  case (Some d)
  obtain s1 res where del: "Service_DeleteUserByDiscord s d = (s1, res)" by fastforce
  have "service_inv s1" using DeleteUserByDiscord_preserves_inv_svc [OF inv, of d] del by simp
  moreover have "fst (unbind_handler s w i options) = s1"
    using Some del by (cases res) (simp_all add: unbind_handler_def)
  ultimately show ?thesis by simp
qed

lemma on_interaction_inv:
  assumes inv: "service_inv s" and ev: "on_interaction s w i = Some (s', w', r)"
  shows "service_inv s'"
proof -
  from ev have "s' = fst (bind_handler s w i (option_map (Options i))) \<or>
                s' = fst (unbind_handler s w i (option_map (Options i)))"
    by (auto simp: on_interaction_def split: if_splits)
  then show ?thesis using bind_handler_inv [OF inv] unbind_handler_inv [OF inv] by blast
qed

text \<open>
  C25: Every command the bot dispatches keeps the service well formed: both
  stores stay well formed and no XUID that holds an outstanding code is bound.
\<close>

theorem on_interaction_preserves_inv:
  assumes inv: "service_inv s" and ev: "on_interaction s w i = Some (s', w', r)"
  shows "service_inv s'"
  using assms by (rule on_interaction_inv)

text \<open>
  C24: A command whose interaction has no guild member (\<open>i.Member\<close> is \<open>nil\<close>,
  as for a command sent in a direct message) panics with a nil dereference:
  \<open>/unbind\<close> always, \<open>/bind\<close> as soon as its code is valid.
\<close>

theorem command_in_dm_panics:
  assumes "MemberUserID i = None"
  shows "unbind_handler s w i options = (s, w, Panic nil_dereference) \<and>
         (codes (codeStr s) c \<noteq> None \<longrightarrow> options ''code'' = Some c \<longrightarrow>
            bind_handler s w i options = (s, w, Panic nil_dereference))"
  using assms by (auto simp: unbind_handler_def bind_handler_def CheckCode_found)



subsection \<open>Registered commands are always answered\<close>

lemma RegisterCommands_registers:
  "RegisterCommands (\<lambda>g cmd. Some cmd) b guildId = Ok (b\<lparr>cmds := bot_commands\<rparr>)"
  by (simp add: RegisterCommands_def bot_commands_def)

lemma RegisterCommands_fails:
  "create guildId cmd = None \<Longrightarrow> cmd \<in> set bot_commands \<Longrightarrow>
   RegisterCommands create b guildId = Panic (PanicErr (OtherError ''discordgo: ApplicationCommandCreate failed''))"
  by (auto simp: RegisterCommands_def bot_commands_def split: option.split)

lemma Service_CheckCode_no_panic: "Service_CheckCode s c \<noteq> Panic p"
  by (simp add: Service_CheckCode_def GetInformation_def split: option.split outcome.split)

lemma Service_CreateUser_no_panic: "Service_CreateUser s w d x \<noteq> (s', w', Panic p)"
  by (simp add: Service_CreateUser_def CreateUser_def split: option.split prod.split outcome.split)

lemma Service_DeleteUserByDiscord_no_panic: "Service_DeleteUserByDiscord s d \<noteq> (s', Panic p)"
  by (simp add: Service_DeleteUserByDiscord_def DeleteUserByDiscord_def GetUserByDiscord_def
      split: option.split prod.split outcome.split)

text \<open>A handler that panics has changed neither the service nor the world.\<close>

lemma on_interaction_panic_unchanged:
  assumes "on_interaction s w i = Some (s', w', Panic p)"
  shows "s' = s \<and> w' = w"
proof -
  have "bind_handler s w i opts = (s', w', Panic p) \<Longrightarrow> s' = s \<and> w' = w" for opts
    using Service_CheckCode_no_panic [of s] Service_CreateUser_no_panic [of s w]
    by (auto simp: bind_handler_def split: option.splits outcome.splits prod.splits)
  moreover have "unbind_handler s w i opts = (s', w', Panic p) \<Longrightarrow> s' = s \<and> w' = w" for opts
    using Service_DeleteUserByDiscord_no_panic [of s]
    by (auto simp: unbind_handler_def split: option.splits outcome.splits prod.splits)
  ultimately show ?thesis using assms by (auto simp: on_interaction_def split: if_splits)
qed

lemma discord_delivers_bot_commands:
  "discord_delivers bot_commands i \<longleftrightarrow>
     CommandName i = ''unbind'' \<or> (CommandName i = ''bind'' \<and> ''code'' \<in> fst ` set (Options i))"
  by (auto simp: discord_delivers_def bot_commands_def)

lemma option_map_has_key: "k \<in> fst ` set opts \<Longrightarrow> \<exists>v. option_map opts k = Some v"
proof -
  assume "k \<in> fst ` set opts"
  then have "map_of (rev opts) k \<noteq> None" by (simp add: map_of_eq_None_iff)
  then show ?thesis by (auto simp: option_map_def)
qed

text \<open>
  C34: Every interaction Discord delivers for the registered commands, from a
  guild member, is answered with a reply: the handlers never take the
  nil-option branch (the \<open>code\<close> option is required), and neither the service
  nor the stores panic on any branch they take.
\<close>

theorem registered_commands_answered:
  assumes "discord_delivers bot_commands i" "MemberUserID i = Some d"
  shows "\<exists>s' w' r. on_interaction s w i = Some (s', w', Ok r)"
proof -
  consider (unbind) "CommandName i = ''unbind''" | (bind) "CommandName i = ''bind''" "''code'' \<in> fst ` set (Options i)"
    using assms(1) by (auto simp: discord_delivers_bot_commands)
  then show ?thesis
  proof cases
    case unbind
    then show ?thesis using assms(2) Service_DeleteUserByDiscord_no_panic [of s d]
      by (auto simp: on_interaction_def unbind_handler_def split: prod.split outcome.split)
  next
    case bind
    obtain c where c: "option_map (Options i) ''code'' = Some c" using option_map_has_key [OF bind(2)] by blast
    show ?thesis
    proof (cases "Service_CheckCode s c")
      case (Ok info)
      then show ?thesis
        using bind(1) assms(2) c Service_CreateUser_no_panic [of s w d "code_information.XUID info"]
        by (auto simp: on_interaction_def bind_handler_def split: prod.split outcome.split)
    qed (use bind(1) c Service_CheckCode_no_panic in \<open>auto simp: on_interaction_def bind_handler_def\<close>)
  qed
qed
subsection \<open>Witnesses\<close>

lemma service_inv_example:
  "service_inv (NewService NewDefaultRepository
     \<lparr>codes = [''01201P'' \<mapsto> \<lparr>Code = ''01201P'', XUID = ''XUID-1'', Issued = 5, Expires = 7\<rparr>]\<rparr> :: unit service)"
  by (auto simp: service_inv_def NewService_def repo_inv_def code_store_inv_def entry_ok_def
      xuid_unique_def randomChars_def codes_unbound_def bindings_def live_rows_def NewDefaultRepository_def
      split: if_splits)

lemma bind_creates_binding_witness:
  "\<exists>s'. bind_handler (NewService NewDefaultRepository
            \<lparr>codes = [''01201P'' \<mapsto> \<lparr>Code = ''01201P'', XUID = ''XUID-1'', Issued = 5, Expires = 7\<rparr>]\<rparr> :: unit service) ()
          \<lparr>MemberUserID = Some ''disc-1'', CommandName = ''bind'', Options = [(''code'', ''01201P'')]\<rparr>
          (option_map [(''code'', ''01201P'')]) =
        (s', (), Ok ''Binding has been created successfully'') \<and>
      bindings (repo s') = {(''disc-1'', ''XUID-1'')} \<and> codes (codeStr s') ''01201P'' = None"
proof -
  let ?s = "NewService NewDefaultRepository
            \<lparr>codes = [''01201P'' \<mapsto> \<lparr>Code = ''01201P'', XUID = ''XUID-1'', Issued = 5, Expires = 7\<rparr>]\<rparr> :: unit service"
  have code: "codes (codeStr ?s) ''01201P'' = Some \<lparr>Code = ''01201P'', XUID = ''XUID-1'', Issued = 5, Expires = 7\<rparr>"
    by (simp add: NewService_def)
  have opt: "option_map [(''code'', ''01201P'')] ''code'' = Some ''01201P''" by (simp add: option_map_def)
  have mem: "MemberUserID \<lparr>MemberUserID = Some ''disc-1'', CommandName = ''bind'', Options = [(''code'', ''01201P'')]\<rparr> = Some ''disc-1''"
    by simp
  have e: "bindings (repo ?s) = {}" by (simp add: NewService_def bindings_def live_rows_def NewDefaultRepository_def)
  then have free: "''disc-1'' \<notin> fst ` bindings (repo ?s)" by simp
  show ?thesis
    using bind_creates_binding [where options = "option_map [(''code'', ''01201P'')]" and w = "()",
        OF service_inv_example code opt mem free] e
    unfolding run_handlers_def by (auto simp: NewService_def)
qed

lemma bind_conflict_keeps_code_witness:
  "bind_handler
     (NewService \<lparr>rows = [\<lparr>Discord = ''disc-1'', XUID = ''XUID-9'', ID = 1, Deleted = False\<rparr>], next_id = 2\<rparr>
        \<lparr>codes = [''01201P'' \<mapsto> \<lparr>Code = ''01201P'', XUID = ''XUID-1'', Issued = 5, Expires = 7\<rparr>]\<rparr> :: unit service) ()
     \<lparr>MemberUserID = Some ''disc-1'', CommandName = ''bind'', Options = [(''code'', ''01201P'')]\<rparr>
     (option_map [(''code'', ''01201P'')]) =
   (NewService \<lparr>rows = [\<lparr>Discord = ''disc-1'', XUID = ''XUID-9'', ID = 1, Deleted = False\<rparr>], next_id = 2\<rparr>
        \<lparr>codes = [''01201P'' \<mapsto> \<lparr>Code = ''01201P'', XUID = ''XUID-1'', Issued = 5, Expires = 7\<rparr>]\<rparr>, (),
    Ok ''Either discord or XUID are already bound'')"
proof -
  let ?s = "NewService \<lparr>rows = [\<lparr>Discord = ''disc-1'', XUID = ''XUID-9'', ID = 1, Deleted = False\<rparr>], next_id = 2\<rparr>
        \<lparr>codes = [''01201P'' \<mapsto> \<lparr>Code = ''01201P'', XUID = ''XUID-1'', Issued = 5, Expires = 7\<rparr>]\<rparr> :: unit service"
  have code: "codes (codeStr ?s) ''01201P'' = Some \<lparr>Code = ''01201P'', XUID = ''XUID-1'', Issued = 5, Expires = 7\<rparr>"
    by (simp add: NewService_def)
  have opt: "option_map [(''code'', ''01201P'')] ''code'' = Some ''01201P''" by (simp add: option_map_def)
  have bound: "''disc-1'' \<in> fst ` bindings (repo ?s)"
    by (simp add: NewService_def bindings_def live_rows_def)
  show ?thesis
    using bind_conflict_keeps_code [where options = "option_map [(''code'', ''01201P'')]" and w = "()"
        and i = "\<lparr>MemberUserID = Some ''disc-1'', CommandName = ''bind'', Options = [(''code'', ''01201P'')]\<rparr>",
        OF code opt _ bound]
    by simp
qed

lemma on_interaction_preserves_inv_witness:
  "\<exists>s' r. on_interaction (NewService NewDefaultRepository
            \<lparr>codes = [''01201P'' \<mapsto> \<lparr>Code = ''01201P'', XUID = ''XUID-1'', Issued = 5, Expires = 7\<rparr>]\<rparr> :: unit service) ()
          \<lparr>MemberUserID = Some ''disc-1'', CommandName = ''bind'', Options = [(''code'', ''01201P'')]\<rparr> =
        Some (s', (), r) \<and> service_inv s'"
proof -
  obtain s' w' r where ev: "on_interaction (NewService NewDefaultRepository
            \<lparr>codes = [''01201P'' \<mapsto> \<lparr>Code = ''01201P'', XUID = ''XUID-1'', Issued = 5, Expires = 7\<rparr>]\<rparr> :: unit service) ()
          \<lparr>MemberUserID = Some ''disc-1'', CommandName = ''bind'', Options = [(''code'', ''01201P'')]\<rparr> =
        Some (s', w', r)"
    by (cases "bind_handler (NewService NewDefaultRepository
            \<lparr>codes = [''01201P'' \<mapsto> \<lparr>Code = ''01201P'', XUID = ''XUID-1'', Issued = 5, Expires = 7\<rparr>]\<rparr> :: unit service) ()
          \<lparr>MemberUserID = Some ''disc-1'', CommandName = ''bind'', Options = [(''code'', ''01201P'')]\<rparr>
          (option_map [(''code'', ''01201P'')])") (simp add: on_interaction_def)
  show ?thesis using on_interaction_preserves_inv [OF service_inv_example ev] ev by auto
qed

lemma command_in_dm_panics_witness:
  "unbind_handler (NewService NewDefaultRepository newDefaultCodeStore :: unit service) ()
     \<lparr>MemberUserID = None, CommandName = ''unbind'', Options = []\<rparr> Map.empty =
   (NewService NewDefaultRepository newDefaultCodeStore, (), Panic nil_dereference)"
proof -
  have h: "MemberUserID \<lparr>MemberUserID = None, CommandName = ''unbind'', Options = []\<rparr> = None" by simp
  show ?thesis by (rule conjunct1 [OF command_in_dm_panics [OF h]])
qed


lemma registered_commands_answered_witness:
  "discord_delivers bot_commands \<lparr>MemberUserID = Some ''disc-1'', CommandName = ''bind'', Options = [(''code'', ''ZZZZZZ'')]\<rparr> \<and>
   (\<exists>s' w' r. on_interaction (NewService NewDefaultRepository newDefaultCodeStore :: unit service) ()
       \<lparr>MemberUserID = Some ''disc-1'', CommandName = ''bind'', Options = [(''code'', ''ZZZZZZ'')]\<rparr> = Some (s', w', Ok r))"
proof -
  have d: "discord_delivers bot_commands \<lparr>MemberUserID = Some ''disc-1'', CommandName = ''bind'', Options = [(''code'', ''ZZZZZZ'')]\<rparr>"
    by (simp add: discord_delivers_bot_commands)
  have "\<exists>s' w' r. on_interaction (NewService NewDefaultRepository newDefaultCodeStore :: unit service) ()
       \<lparr>MemberUserID = Some ''disc-1'', CommandName = ''bind'', Options = [(''code'', ''ZZZZZZ'')]\<rparr> = Some (s', w', Ok r)"
    by (rule registered_commands_answered [OF d]) simp
  with d show ?thesis by blast
qed

end
