(* ===== verification/Server.thy ===== *)
theory Server
  imports Service Bot
begin

text \<open>
  The HTTP layer (\<open>src/server/server.go\<close>). A request is what the handlers
  read of a gin context: the \<open>Authorization\<close> header, the matched route with
  its path parameter, and the raw body (\<open>None\<close> when reading it fails). The
  engine runs the recovery middleware around the auth middleware around the
  route handler (the slog middleware only logs). Handlers signal errors by
  panicking through \<open>utils.ErrorPanic\<close>; the recovery middleware turns an
  \<open>ApplicationError\<close> into the status given by the first three digits of its
  code and a failure payload, and anything else into a bare 500. A panic
  raised inside the deferred recovery function itself, or a status that
  net/http refuses to write, ends the connection without an answer. The JSON
  encoding is kept abstract: a payload is the Go \<open>Payload\<close> value before
  encoding.
\<close>

datatype route =
    RouteTest
  | RouteCodesIssue
  | RouteCodesCheck
  | RouteCodesRevoke
  | RouteUsersDiscord string
  | RouteUsersXuid string
  | RouteNotFound

record request =
  Authorization :: string
  Route :: route
  RawData :: "string option"

record ErrorInformation =
  EI_Code :: int
  EI_Message :: string

datatype payload_data = DataCode "code_information option" | DataUser User | DataNull

record Payload =
  PayloadError :: "ErrorInformation option"
  PayloadData :: payload_data

datatype response_body = TextBody string | JsonBody Payload | NoBody

datatype response = Response int response_body | ConnectionAborted

definition SuccessPayload :: "payload_data \<Rightarrow> Payload" where
  "SuccessPayload data = \<lparr>PayloadError = None, PayloadData = data\<rparr>"

definition FailurePayload :: "application_error \<Rightarrow> Payload" where
  "FailurePayload err =
     \<lparr>PayloadError = Some \<lparr>EI_Code = ErrorCode err, EI_Message = error_string (AppError err)\<rparr>,
      PayloadData = DataNull\<rparr>"

record 'w server =
  accessToken :: string
  discordBotToken :: string
  srv_service :: "'w service"

text \<open>
  \<open>Opts\<close> (\<open>src/server/opts.go\<close>): a \<open>nil\<close> field is \<open>None\<close>. The logger
  only writes, so it is kept as a name; the repository and the code store are
  the default implementations modelled in theories \<open>Repository\<close> and \<open>Codes\<close>.
\<close>

record Opts =
  Logger :: "string option"
  Repo :: "user_db option"
  CodeStr :: "default_code_store option"

definition FillEmptyOpts :: "Opts \<Rightarrow> Opts" where
  "FillEmptyOpts opts =
     (let opts = (if Logger opts = None then opts\<lparr>Logger := Some ''slog.JSONHandler(os.Stdout)''\<rparr> else opts);
          opts = (if Repo opts = None then opts\<lparr>Repo := Some NewDefaultRepository\<rparr> else opts)
      in if CodeStr opts = None then opts\<lparr>CodeStr := Some newDefaultCodeStore\<rparr> else opts)"

definition DefaultOpts :: Opts where
  "DefaultOpts = FillEmptyOpts \<lparr>Logger = None, Repo = None, CodeStr = None\<rparr>"

text \<open>
  \<open>NewServer\<close>: fills the options and builds the service over them. The bot
  session it also opens is the Discord side: \<open>NewServer_Bot\<close> below adds it.
\<close>

definition NewServer :: "string \<Rightarrow> string \<Rightarrow> Opts \<Rightarrow> 'w server" where
  "NewServer token botToken opts =
     (let opts = FillEmptyOpts opts
      in \<lparr>accessToken = token, discordBotToken = botToken,
          srv_service = NewService (the (Repo opts)) (the (CodeStr opts))\<rparr>)"

text \<open>
  \<open>NewServer\<close> with its call of \<open>NewBot\<close> (lines 49--52), whose error it
  panics with; the bot it stores is returned beside the server (\<open>Bot()\<close>,
  lines 62--64, reads it back).
\<close>

definition NewServer_Bot :: "(string \<Rightarrow> bool) \<Rightarrow> string \<Rightarrow> string \<Rightarrow> Opts \<Rightarrow> ('w server \<times> Bot) outcome" where
  "NewServer_Bot session_opens token botToken opts =
     (case NewBot session_opens botToken of
        Ok b \<Rightarrow> Ok (NewServer token botToken opts, b)
      | Err e \<Rightarrow> Panic (PanicErr e)
      | Panic p \<Rightarrow> Panic p)"

text \<open>The environment of an \<open>Issue\<close> call (see theory \<open>Codes\<close>).\<close>

record issue_env =
  IterOrder :: "string list"
  RandReads :: rand_source
  Now1 :: time
  Now2 :: time

text \<open>
  The route handlers: the new service and the handler's result, which is a
  response written with \<open>c.JSON\<close>/\<open>c.String\<close> or a panic. \<open>None\<close> is an
  \<open>Issue\<close> that never returns.
\<close>

definition route_handler ::
  "issue_env \<Rightarrow> 'w service \<Rightarrow> request \<Rightarrow> ('w service \<times> response outcome) option" where
  "route_handler env s req =
     (case Route req of
        RouteTest \<Rightarrow> Some (s, Ok (Response 200 (TextBody ''hello world!'')))
      | RouteCodesIssue \<Rightarrow>
          (case RawData req of
             None \<Rightarrow> Some (s, Panic (PanicErr (OtherError ''reading the request body failed'')))
           | Some xuid \<Rightarrow>
               map_option (\<lambda>(s', r). (s', case r of
                   Ok info \<Rightarrow> Ok (Response 200 (JsonBody (SuccessPayload (DataCode info))))
                 | Err e \<Rightarrow> Panic (PanicErr e)
                 | Panic p \<Rightarrow> Panic p))
                 (Service_IssueCode (IterOrder env) (RandReads env) (Now1 env) (Now2 env) s xuid))
      | RouteCodesCheck \<Rightarrow>
          (case RawData req of
             None \<Rightarrow> Some (s, Panic (PanicErr (OtherError ''reading the request body failed'')))
           | Some code \<Rightarrow>
               Some (s, case Service_CheckCode s code of
                   Ok info \<Rightarrow> Ok (Response 200 (JsonBody (SuccessPayload (DataCode (Some info)))))
                 | Err e \<Rightarrow> Panic (PanicErr e)
                 | Panic p \<Rightarrow> Panic p))
      | RouteCodesRevoke \<Rightarrow>
          (case RawData req of
             None \<Rightarrow> Some (s, Panic (PanicErr (OtherError ''reading the request body failed'')))
           | Some code \<Rightarrow>
               (case Service_RevokeCode s code of (s', r) \<Rightarrow>
                  Some (s', case r of
                      Ok _ \<Rightarrow> Ok (Response 200 (JsonBody (SuccessPayload DataNull)))
                    | Err e \<Rightarrow> Panic (PanicErr e)
                    | Panic p \<Rightarrow> Panic p)))
      | RouteUsersDiscord discordId \<Rightarrow>
          (if discordId = ''''
           then Some (s, Panic (PanicErr (AppError (NewApplicationError 40000 ''Discord ID is not specified''))))
           else Some (s, case Service_GetUserByDiscord s discordId of
                   Ok user \<Rightarrow> Ok (Response 200 (JsonBody (SuccessPayload (DataUser user))))
                 | Err e \<Rightarrow> Panic (PanicErr e)
                 | Panic p \<Rightarrow> Panic p))
      | RouteUsersXuid xuid \<Rightarrow>
          (if xuid = ''''
           then Some (s, Panic (PanicErr (AppError (NewApplicationError 40000 ''XUID is not specified''))))
           else Some (s, case Service_GetUserByXUID s xuid of
                   Ok user \<Rightarrow> Ok (Response 200 (JsonBody (SuccessPayload (DataUser user))))
                 | Err e \<Rightarrow> Panic (PanicErr e)
                 | Panic p \<Rightarrow> Panic p))
      | RouteNotFound \<Rightarrow> Some (s, Ok (Response 404 (TextBody ''404 page not found''))))"

text \<open>net/http writes a status only in the range 100 to 999, and panics otherwise.\<close>

definition write_status :: "int \<Rightarrow> response_body \<Rightarrow> response" where
  "write_status status body = (if 100 \<le> status \<and> status \<le> 999 then Response status body else ConnectionAborted)"

definition recoveryMiddleware :: "response outcome \<Rightarrow> response" where
  "recoveryMiddleware r = (case r of
       Ok resp \<Rightarrow> resp
     | Err _ \<Rightarrow> Response 500 NoBody
     | Panic (PanicNonError _) \<Rightarrow> Response 500 NoBody
     | Panic (PanicErr (OtherError _)) \<Rightarrow> Response 500 NoBody
     | Panic (PanicErr (AppError appError)) \<Rightarrow>
         (case GetNumberFirstDigits (ErrorCode appError) 3 of
            Ok status \<Rightarrow> write_status status (JsonBody (FailurePayload appError))
          | _ \<Rightarrow> ConnectionAborted))"

definition authMiddleware ::
  "issue_env \<Rightarrow> 'w server \<Rightarrow> request \<Rightarrow> ('w server \<times> response outcome) option" where
  "authMiddleware env srv req =
     (if Authorization req \<noteq> accessToken srv
      then Some (srv, Ok (Response 401 NoBody))
      else map_option (\<lambda>(s', r). (srv\<lparr>srv_service := s'\<rparr>, r)) (route_handler env (srv_service srv) req))"

definition serve :: "issue_env \<Rightarrow> 'w server \<Rightarrow> request \<Rightarrow> ('w server \<times> response) option" where
  "serve env srv req = map_option (\<lambda>(srv', r). (srv', recoveryMiddleware r)) (authMiddleware env srv req)"

text \<open>
  \<open>GetHttpHandler(isDevelopment)\<close> (lines 76--137) builds the gin engine with
  the middleware chain and the six routes over this server, which is \<open>serve\<close>
  on \<open>s\<close>, and never returns an error; the gin mode only changes logging.
  \<open>ServeWeb(addr)\<close> (lines 67--73) hands the handler to \<open>http.ListenAndServe\<close>:
  \<open>listenAndServe addr\<close> is the error it returns when it cannot listen on
  \<open>addr\<close>, and \<open>None\<close> when it listens, in which case it serves requests with
  the handler until the process ends and the call does not return.
\<close>

definition GetHttpHandler ::
  "'w server \<Rightarrow> bool \<Rightarrow> (issue_env \<Rightarrow> request \<Rightarrow> ('w server \<times> response) option) \<times> go_error option" where
  "GetHttpHandler s isDevelopment = ((\<lambda>env req. serve env s req), None)"

definition ServeWeb :: "(string \<Rightarrow> go_error option) \<Rightarrow> 'w server \<Rightarrow> string \<Rightarrow> go_error option" where
  "ServeWeb listenAndServe s addr =
     (case GetHttpHandler s False of
        (handler, Some err) \<Rightarrow> Some err
      | (handler, None) \<Rightarrow> listenAndServe addr)"

subsection \<open>Status codes\<close>

text \<open>
  The errors of the program are \<open>ApplicationError\<close>s with code 40000 or 40400,
  or errors of other kinds (a failed random read, a failed body read).
\<close>

definition status_error :: "go_error \<Rightarrow> bool" where
  "status_error e = (case e of AppError a \<Rightarrow> ErrorCode a \<in> {40000, 40400} | OtherError _ \<Rightarrow> True)"

definition status_outcome :: "'a outcome \<Rightarrow> bool" where
  "status_outcome r = (case r of
       Err e \<Rightarrow> status_error e
     | Panic (PanicErr e) \<Rightarrow> status_error e
     | _ \<Rightarrow> True)"

text \<open>What a route handler may leave to the recovery middleware.\<close>

definition handler_result_ok :: "response outcome \<Rightarrow> bool" where
  "handler_result_ok r = (case r of
       Ok (Response st _) \<Rightarrow> st \<in> {200, 401, 404}
     | Ok ConnectionAborted \<Rightarrow> False
     | _ \<Rightarrow> status_outcome r)"

definition example_server :: "unit server" where
  "example_server = \<lparr>accessToken = ''secret'', discordBotToken = ''bot-token'',
                      srv_service = NewService NewDefaultRepository newDefaultCodeStore\<rparr>"

definition example_env :: issue_env where
  "example_env = \<lparr>IterOrder = [], RandReads = (\<lambda>_. Some [0, 1, 2, 33, 34, 255]), Now1 = 5, Now2 = 7\<rparr>"

declare SuccessPayload_def [model_simps] FailurePayload_def [model_simps] write_status_def [model_simps]

lemma NewServer_Bot_server:
  "NewServer_Bot session_opens token botToken opts = Ok (srv, b) \<Longrightarrow> srv = NewServer token botToken opts"
  by (simp add: NewServer_Bot_def split: outcome.splits)

lemma NewServer_Bot_opens:
  "session_opens (''Bot '' @ botToken) \<Longrightarrow>
   NewServer_Bot session_opens token botToken opts =
     Ok (NewServer token botToken opts, \<lparr>session = ''Bot '' @ botToken, cmds = []\<rparr>)"
  by (simp add: NewServer_Bot_def NewBot_def)

lemma FillEmptyOpts_fields:
  "Repo (FillEmptyOpts opts) = Some (case Repo opts of None \<Rightarrow> NewDefaultRepository | Some r \<Rightarrow> r)"
  "CodeStr (FillEmptyOpts opts) = Some (case CodeStr opts of None \<Rightarrow> newDefaultCodeStore | Some c \<Rightarrow> c)"
  "Logger opts = Some l \<Longrightarrow> Logger (FillEmptyOpts opts) = Some l"
  by (auto simp: FillEmptyOpts_def Let_def split: option.split)

lemma FillEmptyOpts_full:
  "Logger opts \<noteq> None \<Longrightarrow> Repo opts \<noteq> None \<Longrightarrow> CodeStr opts \<noteq> None \<Longrightarrow> FillEmptyOpts opts = opts"
  by (auto simp: FillEmptyOpts_def Let_def)

lemma FillEmptyOpts_Logger: "Logger (FillEmptyOpts opts) \<noteq> None"
  by (simp add: FillEmptyOpts_def Let_def)

lemma FillEmptyOpts_idem: "FillEmptyOpts (FillEmptyOpts opts) = FillEmptyOpts opts"
  by (rule FillEmptyOpts_full) (simp_all add: FillEmptyOpts_Logger FillEmptyOpts_fields)

lemma NewServer_service:
  "srv_service (NewServer a b opts) =
     NewService (case Repo opts of None \<Rightarrow> NewDefaultRepository | Some r \<Rightarrow> r)
                (case CodeStr opts of None \<Rightarrow> newDefaultCodeStore | Some c \<Rightarrow> c)"
  by (simp add: NewServer_def FillEmptyOpts_fields)

lemma example_server_NewServer: "example_server = NewServer ''secret'' ''bot-token'' DefaultOpts"
  by (simp add: NewServer_def DefaultOpts_def FillEmptyOpts_def example_server_def)

lemma status_outcome_simps [simp]:
  "status_outcome (Ok v)"
  "status_outcome (Err e) = status_error e"
  "status_outcome (Panic (PanicErr e)) = status_error e"
  "status_outcome (Panic (PanicNonError m))"
  by (simp_all add: status_outcome_def)

lemma status_error_simps [simp]:
  "status_error (OtherError m)"
  "status_error (AppError (NewApplicationError c m)) = (c \<in> {40000, 40400})"
  by (simp_all add: status_error_def NewApplicationError_def)

lemma GetInformation_status: "status_outcome (GetInformation c x)"
  by (simp add: GetInformation_def code_not_found_def split: option.split)

lemma Revoke_status: "Revoke c x = (c', r) \<Longrightarrow> status_outcome r"
  by (auto simp: Revoke_def code_not_found_def split: outcome.splits)

lemma GetUserByXUID_status: "status_outcome (GetUserByXUID db x)"
  by (simp add: GetUserByXUID_def user_not_found_def split: option.split)

lemma GetUserByDiscord_status: "status_outcome (GetUserByDiscord db d)"
  by (simp add: GetUserByDiscord_def user_not_found_def split: option.split)

lemma findFreeCode_panic:
  assumes "findFreeCode s rs k = Some (Panic p)"
  shows "p = PanicErr (OtherError ''crypto/rand: read failed'')"
proof -
  from assms obtain j where "Panic p = draw_exit rs j" by (rule findFreeCode_SomeE)
  then show ?thesis by (simp add: draw_exit_def generateCode_def split: option.splits)
qed

lemma Issue_status:
  assumes "Issue ks rs t1 t2 c x = Some (c', r)"
  shows "status_outcome r"
  using assms
proof (cases rule: Issue_SomeE)
  case (panic p)
  then have "p = PanicErr (OtherError ''crypto/rand: read failed'')" by (blast intro: findFreeCode_panic)
  with panic show ?thesis by simp
qed simp_all

lemma IssueCode_status:
  assumes "Service_IssueCode ks rs t1 t2 s x = Some (s', r)"
  shows "status_outcome r"
proof (cases "\<exists>u. GetUserByXUID (repo s) x = Ok u")
  case True
  with assms show ?thesis by (auto simp: Service_IssueCode_def)
next
  case False
  then have "Service_IssueCode ks rs t1 t2 s x =
               map_option (\<lambda>(c, r). (s\<lparr>codeStr := c\<rparr>, r)) (Issue ks rs t1 t2 (codeStr s) x)"
    by (simp add: Service_IssueCode_def split: outcome.split)
  with assms obtain c' where "Issue ks rs t1 t2 (codeStr s) x = Some (c', r)" by auto
  then show ?thesis by (rule Issue_status)
qed

lemma handler_result_ok_lift:
  "status_outcome (r :: 'a outcome) \<Longrightarrow>
   handler_result_ok (case r of Ok v \<Rightarrow> Ok (Response 200 (b v)) | Err e \<Rightarrow> Panic (PanicErr e) | Panic p \<Rightarrow> Panic p)"
  by (cases r) (auto simp: handler_result_ok_def status_outcome_def split: panic_value.splits)

lemma handler_result_ok_simps [simp]:
  "handler_result_ok (Ok (Response st b)) = (st \<in> {200, 401, 404})"
  "handler_result_ok (Panic (PanicErr e)) = status_error e"
  by (simp_all add: handler_result_ok_def)

lemma Service_CheckCode_eq: "Service_CheckCode s code = GetInformation (codeStr s) code"
  by (simp add: Service_CheckCode_def split: outcome.split)

lemma route_handler_ok:
  assumes "route_handler env s req = Some (s', r)"
  shows "handler_result_ok r"
proof (cases "Route req")
  case RouteCodesIssue
  show ?thesis
  proof (cases "RawData req")
    case (Some x)
    with assms RouteCodesIssue obtain r0 where
      "Service_IssueCode (IterOrder env) (RandReads env) (Now1 env) (Now2 env) s x = Some (s', r0)"
      "r = (case r0 of Ok info \<Rightarrow> Ok (Response 200 (JsonBody (SuccessPayload (DataCode info))))
              | Err e \<Rightarrow> Panic (PanicErr e) | Panic p \<Rightarrow> Panic p)"
      by (auto simp: route_handler_def)
    moreover from this(1) have "status_outcome r0" by (rule IssueCode_status)
    ultimately show ?thesis
      using handler_result_ok_lift [of r0 "\<lambda>info. JsonBody (SuccessPayload (DataCode info))"] by simp
  qed (use assms RouteCodesIssue in \<open>auto simp: route_handler_def\<close>)
qed (use assms in \<open>auto simp: route_handler_def Service_CheckCode_eq
  Service_RevokeCode_def Service_GetUserByXUID_def Service_GetUserByDiscord_def
  intro!: handler_result_ok_lift GetInformation_status Revoke_status GetUserByXUID_status GetUserByDiscord_status
  split: option.splits prod.splits if_splits\<close>)

lemma GetNumberFirstDigits_statuses [simp]:
  "GetNumberFirstDigits 40000 3 = Ok 400"
  "GetNumberFirstDigits 40400 3 = Ok 404"
  by (simp_all add: GetNumberFirstDigits_five_digits)

lemma recovery_status:
  assumes "handler_result_ok r"
  shows "\<exists>st b. recoveryMiddleware r = Response st b \<and> st \<in> {200, 400, 401, 404, 500}"
proof (cases r)
  case (Panic p)
  with assms show ?thesis
    by (cases p) (auto simp: recoveryMiddleware_def status_outcome_def status_error_def write_status_def
                       split: go_error.splits)
qed (use assms in \<open>auto simp: recoveryMiddleware_def handler_result_ok_def split: response.splits\<close>)

lemma serve_unauthorized_eq:
  "Authorization req \<noteq> accessToken srv \<Longrightarrow> serve env srv req = Some (srv, Response 401 NoBody)"
  by (simp add: serve_def authMiddleware_def recoveryMiddleware_def)

lemma serve_authorized:
  "Authorization req = accessToken srv \<Longrightarrow>
   serve env srv req = map_option (\<lambda>(s', r). (srv\<lparr>srv_service := s'\<rparr>, recoveryMiddleware r))
                         (route_handler env (srv_service srv) req)"
  by (simp add: serve_def authMiddleware_def option.map_comp comp_def case_prod_beta')

lemma serve_SomeE:
  assumes "serve env srv req = Some (srv', resp)"
  obtains (unauthorized) "Authorization req \<noteq> accessToken srv" "srv' = srv" "resp = Response 401 NoBody"
  | (handled) s' r where "Authorization req = accessToken srv" "route_handler env (srv_service srv) req = Some (s', r)"
      "srv' = srv\<lparr>srv_service := s'\<rparr>" "resp = recoveryMiddleware r"
  using assms by (cases "Authorization req = accessToken srv") (auto simp: serve_unauthorized_eq serve_authorized)

lemma route_handler_inv:
  assumes inv: "service_inv s" and ord: "iteration_order (codes (codeStr s)) (IterOrder env)"
    and ev: "route_handler env s req = Some (s', r)"
  shows "service_inv s'"
proof (cases "Route req")
  case RouteCodesIssue
  show ?thesis
  proof (cases "RawData req")
    case (Some x)
    with ev RouteCodesIssue obtain r0 where
      "Service_IssueCode (IterOrder env) (RandReads env) (Now1 env) (Now2 env) s x = Some (s', r0)"
      by (auto simp: route_handler_def)
    with inv ord show ?thesis by (rule IssueCode_preserves_inv)
  qed (use ev inv RouteCodesIssue in \<open>auto simp: route_handler_def\<close>)
next
  case RouteCodesRevoke
  show ?thesis
  proof (cases "RawData req")
    case (Some c)
    with ev RouteCodesRevoke have "s' = fst (Service_RevokeCode s c)"
      by (auto simp: route_handler_def split: prod.splits)
    with inv show ?thesis by (simp add: RevokeCode_preserves_inv)
  qed (use ev inv RouteCodesRevoke in \<open>auto simp: route_handler_def\<close>)
qed (use ev inv in \<open>auto simp: route_handler_def split: if_splits option.splits\<close>)

lemma serve_inv:
  assumes inv: "service_inv (srv_service srv)"
    and ord: "iteration_order (codes (codeStr (srv_service srv))) (IterOrder env)"
    and ev: "serve env srv req = Some (srv', resp)"
  shows "service_inv (srv_service srv')"
  using ev
proof (cases rule: serve_SomeE)
  case (handled s' r)
  with inv ord have "service_inv s'" by (blast intro: route_handler_inv)
  with handled show ?thesis by simp
qed (use inv in simp)

subsection \<open>Properties of the HTTP layer\<close>

text \<open>
  C18: A request whose \<open>Authorization\<close> header is not the access token is
  answered 401 with no body, whatever its route, and changes nothing.
\<close>

theorem serve_unauthorized:
  assumes "Authorization req \<noteq> accessToken srv"
  shows "serve env srv req = Some (srv, Response 401 NoBody)"
  using assms by (rule serve_unauthorized_eq)

text \<open>
  C4: Every request that the server answers is answered with a status among
  200, 400, 401, 404 and 500: the recovery middleware never meets an error code
  whose first three digits are not a status, so it never panics itself.
\<close>

theorem serve_status:
  assumes "serve env srv req = Some (srv', resp)"
  shows "\<exists>st b. resp = Response st b \<and> st \<in> {200, 400, 401, 404, 500}"
  using assms
proof (cases rule: serve_SomeE)
  case (handled s' r)
  then show ?thesis using recovery_status [OF route_handler_ok] by blast
qed simp

text \<open>
  C30: \<open>POST /codes/check\<close> with a code that is not in the store is answered 404
  with the failure payload of error 40400, and changes nothing.
\<close>

theorem serve_check_unknown:
  assumes "Authorization req = accessToken srv" "Route req = RouteCodesCheck" "RawData req = Some c"
    "codes (codeStr (srv_service srv)) c = None"
  shows "serve env srv req =
           Some (srv, Response 404 (JsonBody (FailurePayload (NewApplicationError 40400 ''Code doesn't exist''))))"
  using assms
  by (simp add: serve_authorized route_handler_def Service_CheckCode_eq GetInformation_def code_not_found_def
                recoveryMiddleware_def NewApplicationError_def write_status_def)

subsection \<open>Examples\<close>

lemma serve_unauthorized_witness:
  "Authorization \<lparr>Authorization = ''wrong'', Route = RouteCodesRevoke, RawData = Some ''01201P''\<rparr>
     \<noteq> accessToken example_server \<and>
   serve example_env example_server \<lparr>Authorization = ''wrong'', Route = RouteCodesRevoke, RawData = Some ''01201P''\<rparr>
     = Some (example_server, Response 401 NoBody)"
  using serve_unauthorized [of "\<lparr>Authorization = ''wrong'', Route = RouteCodesRevoke, RawData = Some ''01201P''\<rparr>"
                               example_server example_env]
  by (simp add: example_server_def)

lemma serve_check_unknown_witness:
  "serve example_env example_server \<lparr>Authorization = ''secret'', Route = RouteCodesCheck, RawData = Some ''ZZZZZZ''\<rparr>
     = Some (example_server, Response 404 (JsonBody (FailurePayload (NewApplicationError 40400 ''Code doesn't exist''))))"
  using serve_check_unknown [of "\<lparr>Authorization = ''secret'', Route = RouteCodesCheck, RawData = Some ''ZZZZZZ''\<rparr>"
                                example_server "''ZZZZZZ''" example_env]
  by (simp add: example_server_def NewService_def newDefaultCodeStore_def)

lemma serve_status_witness:
  "serve example_env example_server \<lparr>Authorization = ''secret'', Route = RouteUsersXuid ''XUID-1'', RawData = Some ''''\<rparr>
     = Some (example_server, Response 404 (JsonBody (FailurePayload (NewApplicationError 40400 ''User not found'')))) \<and>
   (\<exists>st b. Response 404 (JsonBody (FailurePayload (NewApplicationError 40400 ''User not found'')))
             = Response st b \<and> st \<in> {200, 400, 401, 404, 500})"
proof -
  have e: "serve example_env example_server \<lparr>Authorization = ''secret'', Route = RouteUsersXuid ''XUID-1'', RawData = Some ''''\<rparr>
     = Some (example_server, Response 404 (JsonBody (FailurePayload (NewApplicationError 40400 ''User not found''))))"
    by (simp add: serve_authorized example_server_def route_handler_def Service_GetUserByXUID_def NewService_def
                  NewDefaultRepository_def GetUserByXUID_def db_first_def live_rows_def user_not_found_def
                  recoveryMiddleware_def NewApplicationError_def write_status_def)
  show ?thesis using serve_status [OF e] e by simp
qed

end
