(* ===== verification/System.thy ===== *)
theory System
  imports Server Bot
begin

text \<open>
  The running program as one state machine (\<open>src/examples/server.go\<close> wires
  it: \<open>NewServer\<close>, then the bot's commands and the HTTP listener run side by
  side over the same service). The state is the server and the outside world
  that the new-user handlers act on. An event is a whole HTTP request, a whole
  Discord command, the registration of a handler, or a restart of the process,
  which keeps the SQLite file behind the repository and loses the in-memory
  code store and the handlers. Each event runs to completion before the next:
  the interleaving of two handlers inside one another is not part of this
  model.
\<close>

datatype 'w event =
    is_http: HttpRequest issue_env request
  | DiscordInteraction interaction
  | RegisterHandler "'w NewUserHandler"
  | Restart

datatype reply = HttpReply response | DiscordReply "string outcome" | NoReply | HttpRefused

type_synonym 'w system = "'w server \<times> 'w"

text \<open>
  A restart builds a new server with the same tokens; \<open>NewDefaultRepository\<close>
  reopens \<open>test.db\<close>, whose rows are those the previous process wrote.
\<close>

definition restart :: "'w server \<Rightarrow> 'w server" where
  "restart srv = NewServer (accessToken srv) (discordBotToken srv)
                   \<lparr>Logger = None, Repo = Some (repo (srv_service srv)), CodeStr = None\<rparr>"

text \<open>
  One event. A Discord command other than \<open>bind\<close> and \<open>unbind\<close> has no
  handler and changes nothing. \<open>None\<close> is an event after which the process
  goes no further: an \<open>Issue\<close> that never returns, or a Discord handler that
  panics (discordgo calls handlers on its own goroutines without
  \<open>recover\<close>, so the panic ends the process). A panicking handler has changed
  nothing (\<open>on_interaction_panic_unchanged\<close>), so a restart afterwards starts
  from the state before the command. A panic in an HTTP handler is recovered
  by \<open>recoveryMiddleware\<close> and answered.
\<close>

definition system_step :: "'w system \<Rightarrow> 'w event \<Rightarrow> ('w system \<times> reply) option" where
  "system_step st e = (case st of (srv, w) \<Rightarrow> (case e of
       HttpRequest env req \<Rightarrow> map_option (\<lambda>(srv', resp). ((srv', w), HttpReply resp)) (serve env srv req)
     | DiscordInteraction i \<Rightarrow>
         (case on_interaction (srv_service srv) w i of
            None \<Rightarrow> Some ((srv, w), NoReply)
          | Some (s', w', r) \<Rightarrow>
              (case r of
                 Panic p \<Rightarrow> None
               | _ \<Rightarrow> Some ((srv\<lparr>srv_service := s'\<rparr>, w'), DiscordReply r)))
     | RegisterHandler h \<Rightarrow> Some ((srv\<lparr>srv_service := AddHandler (srv_service srv) h\<rparr>, w), NoReply)
     | Restart \<Rightarrow> Some ((restart srv, w), NoReply)))"

fun run_events :: "'w system \<Rightarrow> 'w event list \<Rightarrow> ('w system \<times> reply list) option" where
  "run_events st [] = Some (st, [])"
| "run_events st (e # es) =
     (case system_step st e of
        None \<Rightarrow> None
      | Some (st', r) \<Rightarrow> map_option (\<lambda>(st'', rs). (st'', r # rs)) (run_events st' es))"

text \<open>
  The environment of an HTTP request is admissible when its iteration order is
  one the Go runtime could use for the current code map.
\<close>

definition event_ok :: "'w system \<Rightarrow> 'w event \<Rightarrow> bool" where
  "event_ok st e = (case e of
       HttpRequest env _ \<Rightarrow> iteration_order (codes (codeStr (srv_service (fst st)))) (IterOrder env)
     | _ \<Rightarrow> True)"

fun events_ok :: "'w system \<Rightarrow> 'w event list \<Rightarrow> bool" where
  "events_ok st [] = True"
| "events_ok st (e # es) =
     (event_ok st e \<and> (case system_step st e of None \<Rightarrow> True | Some (st', r) \<Rightarrow> events_ok st' es))"

text \<open>
  The states the program reaches when its requests and commands are handled
  one at a time, each to completion: the serial execution that the spec
  (section 5) requires the stores to guarantee by serialising their
  check-then-insert sequences. The code takes no lock, so the concurrent
  executions of theories \<open>Concurrency\<close> and \<open>ServiceRace\<close> reach further
  states; the properties proved over \<open>serial_reachable\<close> are those the
  program has once that serialisation is in place. The process starts with
  \<open>NewServer\<close>, whose bot session must open.
\<close>

inductive serial_reachable :: "(string \<Rightarrow> bool) \<Rightarrow> string \<Rightarrow> string \<Rightarrow> 'w \<Rightarrow> 'w system \<Rightarrow> bool"
  for session_opens token botToken w0 where
  init: "NewServer_Bot session_opens token botToken DefaultOpts = Ok (srv, b) \<Longrightarrow>
         serial_reachable session_opens token botToken w0 (srv, w0)"
| step: "serial_reachable session_opens token botToken w0 st \<Longrightarrow> event_ok st e \<Longrightarrow>
         system_step st e = Some (st', r) \<Longrightarrow> serial_reachable session_opens token botToken w0 st'"

inductive_cases serial_reachable_stepE: "serial_reachable session_opens token botToken w0 st'"

text \<open>
  The process of \<open>src/examples/server.go\<close> once started: \<open>ServeWeb\<close> runs
  in a goroutine (lines 19--24) beside the bot. While the listener is up,
  every event is a step of the system. When \<open>ServeWeb\<close> returned an error,
  the goroutine has returned and no listener exists: an HTTP request is
  refused by the operating system and changes nothing, and the bot goes on.
\<close>

definition web_step :: "bool \<Rightarrow> 'w system \<Rightarrow> 'w event \<Rightarrow> ('w system \<times> reply) option" where
  "web_step listening st e = (case e of
       HttpRequest env req \<Rightarrow> if listening then system_step st e else Some (st, HttpRefused)
     | _ \<Rightarrow> system_step st e)"

fun run_process :: "bool \<Rightarrow> 'w system \<Rightarrow> 'w event list \<Rightarrow> ('w system \<times> reply list) option" where
  "run_process listening st [] = Some (st, [])"
| "run_process listening st (e # es) =
     (case web_step listening st e of
        None \<Rightarrow> None
      | Some (st', r) \<Rightarrow> map_option (\<lambda>(st'', rs). (st'', r # rs)) (run_process listening st' es))"

subsection \<open>Lemmas\<close>

lemma service_inv_default: "service_inv (srv_service (NewServer token botToken DefaultOpts))"
  by (auto simp: NewServer_service DefaultOpts_def FillEmptyOpts_def service_inv_def NewService_def
      repo_inv_def code_store_inv_def xuid_unique_def codes_unbound_def bindings_def live_rows_def
      NewDefaultRepository_def newDefaultCodeStore_def)

lemma service_inv_restart:
  assumes "service_inv (srv_service srv)"
  shows "service_inv (srv_service (restart srv))"
  using assms
  by (auto simp: restart_def NewServer_service service_inv_def NewService_def code_store_inv_def
      xuid_unique_def codes_unbound_def newDefaultCodeStore_def)

lemma service_inv_AddHandler: "service_inv (AddHandler s h) = service_inv s"
  by (simp add: service_inv_def AddHandler_def codes_unbound_def)

lemma system_step_inv:
  assumes inv: "service_inv (srv_service (fst st))" and ok: "event_ok st e"
    and ev: "system_step st e = Some (st', r)"
  shows "service_inv (srv_service (fst st'))"
proof (cases e)
  case (HttpRequest env req)
  obtain srv w where st: "st = (srv, w)" by fastforce
  with ev HttpRequest obtain srv' resp where "serve env srv req = Some (srv', resp)" "fst st' = srv'"
    by (auto simp: system_step_def)
  with inv ok st HttpRequest show ?thesis by (auto simp: event_ok_def intro: serve_inv)
next
  case (DiscordInteraction i)
  obtain srv w where st: "st = (srv, w)" by fastforce
  show ?thesis
  proof (cases "on_interaction (srv_service srv) w i")
    case (Some x)
    then obtain s' w' r' where "on_interaction (srv_service srv) w i = Some (s', w', r')"
      by (cases x) auto
    moreover from this ev st DiscordInteraction have "srv_service (fst st') = s'"
      by (auto simp: system_step_def split: outcome.splits)
    ultimately show ?thesis using inv st by (auto intro: on_interaction_inv)
  qed (use ev st inv DiscordInteraction in \<open>auto simp: system_step_def\<close>)
qed (use ev inv in \<open>auto simp: system_step_def service_inv_AddHandler service_inv_restart split: prod.splits\<close>)

lemma serial_reachable_start:
  "session_opens (''Bot '' @ botToken) \<Longrightarrow>
   serial_reachable session_opens token botToken w0 (NewServer token botToken DefaultOpts, w0)"
  by (rule serial_reachable.init) (rule NewServer_Bot_opens)

lemma reachable_inv:
  "serial_reachable session_opens token botToken w0 st \<Longrightarrow> service_inv (srv_service (fst st))"
proof (induction rule: serial_reachable.induct)
  case (init srv b)
  then have "srv = NewServer token botToken DefaultOpts" by (rule NewServer_Bot_server)
  then show ?case by (simp add: service_inv_default)
next
  case (step st e st' r)
  then show ?case by (blast intro: system_step_inv)
qed

lemma run_events_reachable:
  "serial_reachable session_opens token botToken w0 st \<Longrightarrow> events_ok st es \<Longrightarrow> run_events st es = Some (st', rs) \<Longrightarrow>
   serial_reachable session_opens token botToken w0 st'"
proof (induction es arbitrary: st rs)
  case Nil
  then show ?case by simp
next
  case (Cons e es)
  from Cons.prems(3) obtain st1 r rs1 where
    step: "system_step st e = Some (st1, r)" and run: "run_events st1 es = Some (st', rs1)"
    by (auto split: option.splits)
  from Cons.prems(2) step have "event_ok st e" "events_ok st1 es" by simp_all
  with Cons.prems(1) step have "serial_reachable session_opens token botToken w0 st1" by (blast intro: serial_reachable.step)
  then show ?case using \<open>events_ok st1 es\<close> run by (rule Cons.IH)
qed


subsection \<open>Progress: an issue followed by a bind\<close>

lemma issue_event:
  assumes unb: "x \<notin> snd ` bindings (repo (srv_service srv))"
    and nocode: "\<forall>c i. codes (codeStr (srv_service srv)) c = Some i \<longrightarrow> code_information.XUID i \<noteq> x"
    and ord: "iteration_order (codes (codeStr (srv_service srv))) (IterOrder env)"
    and f: "findFreeCode (codeStr (srv_service srv)) (RandReads env) 0 = Some (Ok g)"
  shows "\<exists>resp. system_step (srv, w)
            (HttpRequest env \<lparr>Authorization = accessToken srv, Route = RouteCodesIssue, RawData = Some x\<rparr>) =
          Some ((srv\<lparr>srv_service := (srv_service srv)\<lparr>codeStr := (codeStr (srv_service srv))\<lparr>codes :=
                   (codes (codeStr (srv_service srv)))(g \<mapsto> \<lparr>Code = g, XUID = x, Issued = Now1 env,
                      Expires = Now2 env + code_validity\<rparr>)\<rparr>\<rparr>\<rparr>, w), HttpReply resp)"
proof -
  let ?s = "srv_service srv"
  have "\<forall>i. GetForXuid (IterOrder env) (codeStr ?s) x \<noteq> Ok i"
    using GetForXuid_no_Ok [OF ord] nocode by blast
  then have "(case GetForXuid (IterOrder env) (codeStr ?s) x of
                Ok existing \<Rightarrow> A existing | Err e \<Rightarrow> B | Panic p \<Rightarrow> B) = B" for A B
    by (cases "GetForXuid (IterOrder env) (codeStr ?s) x") simp_all
  note c = this
  obtain r where "Issue (IterOrder env) (RandReads env) (Now1 env) (Now2 env) (codeStr ?s) x =
      Some ((codeStr ?s)\<lparr>codes := (codes (codeStr ?s))(g \<mapsto> \<lparr>Code = g, XUID = x, Issued = Now1 env,
                      Expires = Now2 env + code_validity\<rparr>)\<rparr>, Ok r)"
    unfolding Issue_def c using f by (simp add: Let_def del: fun_upd_apply)
  with unb show ?thesis
    by (simp add: system_step_def serve_authorized route_handler_def IssueCode_unbound del: fun_upd_apply)
qed

lemma bind_event:
  assumes inv: "service_inv (srv_service srv)" and code: "codes (codeStr (srv_service srv)) c = Some info"
    and free: "d \<notin> fst ` bindings (repo (srv_service srv))"
  shows "\<exists>srv' w'. system_step (srv, w)
            (DiscordInteraction \<lparr>MemberUserID = Some d, CommandName = ''bind'', Options = [(''code'', c)]\<rparr>) =
          Some ((srv', w'), DiscordReply (Ok ''Binding has been created successfully'')) \<and>
          (d, code_information.XUID info) \<in> bindings (repo (srv_service srv'))"
proof -
  let ?s = "srv_service srv" and ?x = "code_information.XUID info"
  have unb: "?x \<notin> snd ` bindings (repo ?s)" using inv code by (auto simp: service_inv_def codes_unbound_def)
  have b: "(d, ?x) \<in> bindings (fst (CreateUser (repo ?s) d ?x))"
    using Service_CreateUser_ok [OF free unb, of w] by auto
  have "bind_handler ?s w \<lparr>MemberUserID = Some d, CommandName = ''bind'', Options = [(''code'', c)]\<rparr>
          (option_map [(''code'', c)]) =
        (?s\<lparr>repo := fst (CreateUser (repo ?s) d ?x), codeStr := (codeStr ?s)\<lparr>codes := (codes (codeStr ?s))(c := None)\<rparr>\<rparr>,
         run_handlers (handlers ?s) \<lparr>Discord = d, XUID = ?x\<rparr> w, Ok ''Binding has been created successfully'')"
    by (rule bind_handler_success [OF inv code]) (simp_all add: option_map_def free)
  with b show ?thesis by (simp add: system_step_def on_interaction_def)
qed

subsection \<open>The process with and without its listener\<close>

lemma web_step_listening: "web_step True st e = system_step st e"
  by (cases e) (simp_all add: web_step_def)

lemma run_process_listening: "run_process True st es = run_events st es"
  by (induction es arbitrary: st) (simp_all add: web_step_listening split: option.split)

end
