(* ===== verification/Concurrency.thy ===== *)
theory Concurrency
  imports Codes Repository
begin

text \<open>
  Concurrent callers of the two stores. gin serves every HTTP request on its
  own goroutine and discordgo runs every interaction handler on its own
  goroutine, and neither \<open>defaultCodeStore\<close> (\<open>src/server/codes.go\<close>) nor
  \<open>defaultRepository\<close> (\<open>src/server/repository.go\<close>) takes a lock or opens a
  transaction: \<open>Issue\<close> and \<open>CreateUser\<close> check for an existing entry and then
  insert, in two separate steps. A thread is one call with a program counter;
  one step runs the check or the insert atomically, and a schedule lists the
  thread that moves at each step. This is coarser than the Go memory model
  (which makes the unsynchronised map accesses a data race outright), so
  every interleaving shown here is one the program can take.
\<close>

datatype create_pc = CreateStart | CreateChecked | CreateDone "User outcome"

datatype issue_pc = IssueStart | IssueChecked | IssueDone "code_information option outcome"

datatype thread =
    CreateThread string string create_pc
  | IssueThread string "string list" rand_source time time issue_pc

record conc_state =
  cs_db :: user_db
  cs_codes :: default_code_store

text \<open>
  One step of a thread. \<open>CreateUser\<close>: the \<open>First\<close> query of line 80, then the
  \<open>Create\<close> of line 86. \<open>Issue\<close>: the \<open>GetForXuid\<close> check of lines 51--54,
  then \<open>findFreeCode\<close> and the store of lines 55--62. \<open>None\<close> is a
  \<open>findFreeCode\<close> that never returns.
\<close>

definition thread_step :: "conc_state \<Rightarrow> thread \<Rightarrow> (conc_state \<times> thread) option" where
  "thread_step st t = (case t of
       CreateThread d x CreateStart \<Rightarrow>
         Some (case db_first (cs_db st) (\<lambda>r. User.Discord r = d \<or> User.XUID r = x) of
                 Some _ \<Rightarrow> (st, CreateThread d x (CreateDone (Err already_bound)))
               | None \<Rightarrow> (st, CreateThread d x CreateChecked))
     | CreateThread d x CreateChecked \<Rightarrow>
         Some (case db_create (cs_db st) d x of
                 (db', user) \<Rightarrow> (st\<lparr>cs_db := db'\<rparr>, CreateThread d x (CreateDone (Ok (ToUser user)))))
     | IssueThread x ks rs t1 t2 IssueStart \<Rightarrow>
         Some (case GetForXuid ks (cs_codes st) x of
                 Ok existing \<Rightarrow>
                   (st, IssueThread x ks rs t1 t2 (IssueDone (Err (AppError (NewApplicationError 40000
                          (''Code '' @ Code existing @ '' is already issued''))))))
               | _ \<Rightarrow> (st, IssueThread x ks rs t1 t2 IssueChecked))
     | IssueThread x ks rs t1 t2 IssueChecked \<Rightarrow>
         (case findFreeCode (cs_codes st) rs 0 of
            None \<Rightarrow> None
          | Some (Ok generatedCode) \<Rightarrow>
              (let s' = (cs_codes st)\<lparr>codes := (codes (cs_codes st))(generatedCode \<mapsto>
                          \<lparr>Code = generatedCode, XUID = x, Issued = t1, Expires = t2 + code_validity\<rparr>)\<rparr>
               in Some (st\<lparr>cs_codes := s'\<rparr>, IssueThread x ks rs t1 t2 (IssueDone (Ok (codes s' x)))))
          | Some (Err e) \<Rightarrow> Some (st, IssueThread x ks rs t1 t2 (IssueDone (Err e)))
          | Some (Panic p) \<Rightarrow> Some (st, IssueThread x ks rs t1 t2 (IssueDone (Panic p))))
     | _ \<Rightarrow> Some (st, t))"

text \<open>
  A schedule: the index of the thread that takes each step, for any step
  function on a shared state; \<open>None\<close> when a step never returns or the index
  names no thread.
\<close>

fun run_steps :: "('s \<Rightarrow> 't \<Rightarrow> ('s \<times> 't) option) \<Rightarrow> 's \<Rightarrow> 't list \<Rightarrow> nat list \<Rightarrow> ('s \<times> 't list) option" where
  "run_steps step st ts [] = Some (st, ts)"
| "run_steps step st ts (i # is) =
     (if i < length ts then
        (case step st (ts ! i) of
           None \<Rightarrow> None
         | Some (st', t') \<Rightarrow> run_steps step st' (ts[i := t']) is)
      else None)"

definition run_schedule :: "conc_state \<Rightarrow> thread list \<Rightarrow> nat list \<Rightarrow> (conc_state \<times> thread list) option" where
  "run_schedule = run_steps thread_step"

subsection \<open>A thread run alone is the atomic operation\<close>

lemma thread_step_simps [simp]:
  "thread_step st (CreateThread d x CreateStart) =
     Some (case db_first (cs_db st) (\<lambda>r. User.Discord r = d \<or> User.XUID r = x) of
             Some _ \<Rightarrow> (st, CreateThread d x (CreateDone (Err already_bound)))
           | None \<Rightarrow> (st, CreateThread d x CreateChecked))"
  "thread_step st (CreateThread d x CreateChecked) =
     Some (case db_create (cs_db st) d x of
             (db', user) \<Rightarrow> (st\<lparr>cs_db := db'\<rparr>, CreateThread d x (CreateDone (Ok (ToUser user)))))"
  "thread_step st (CreateThread d x (CreateDone u)) = Some (st, CreateThread d x (CreateDone u))"
  "thread_step st (IssueThread x ks rs t1 t2 IssueStart) =
     Some (case GetForXuid ks (cs_codes st) x of
             Ok existing \<Rightarrow>
               (st, IssueThread x ks rs t1 t2 (IssueDone (Err (AppError (NewApplicationError 40000
                      (''Code '' @ Code existing @ '' is already issued''))))))
           | _ \<Rightarrow> (st, IssueThread x ks rs t1 t2 IssueChecked))"
  "thread_step st (IssueThread x ks rs t1 t2 IssueChecked) =
     (case findFreeCode (cs_codes st) rs 0 of
        None \<Rightarrow> None
      | Some (Ok generatedCode) \<Rightarrow>
          (let s' = (cs_codes st)\<lparr>codes := (codes (cs_codes st))(generatedCode \<mapsto>
                      \<lparr>Code = generatedCode, XUID = x, Issued = t1, Expires = t2 + code_validity\<rparr>)\<rparr>
           in Some (st\<lparr>cs_codes := s'\<rparr>, IssueThread x ks rs t1 t2 (IssueDone (Ok (codes s' x)))))
      | Some (Err e) \<Rightarrow> Some (st, IssueThread x ks rs t1 t2 (IssueDone (Err e)))
      | Some (Panic p) \<Rightarrow> Some (st, IssueThread x ks rs t1 t2 (IssueDone (Panic p))))"
  "thread_step st (IssueThread x ks rs t1 t2 (IssueDone r)) = Some (st, IssueThread x ks rs t1 t2 (IssueDone r))"
  by (simp_all add: thread_step_def)

lemma run_schedule_simps [simp]:
  "run_schedule st ts [] = Some (st, ts)"
  "run_schedule st ts (i # is) =
     (if i < length ts then
        (case thread_step st (ts ! i) of
           None \<Rightarrow> None
         | Some (st', t') \<Rightarrow> run_schedule st' (ts[i := t']) is)
      else None)"
  unfolding run_schedule_def by simp_all

lemma create_thread_alone:
  "run_schedule st [CreateThread d x CreateStart] [0, 0] =
     Some (st\<lparr>cs_db := fst (CreateUser (cs_db st) d x)\<rparr>,
           [CreateThread d x (CreateDone (snd (CreateUser (cs_db st) d x)))])"
  by (simp add: CreateUser_def split: option.split prod.split)

lemma issue_thread_alone:
  assumes "Issue ks rs t1 t2 (cs_codes st) x = Some (s', r)"
  shows "run_schedule st [IssueThread x ks rs t1 t2 IssueStart] [0, 0] =
           Some (st\<lparr>cs_codes := s'\<rparr>, [IssueThread x ks rs t1 t2 (IssueDone r)])"
  using assms
proof (cases rule: Issue_SomeE)
  case (conflict i)
  then show ?thesis by simp
next
  case (fresh g)
  then show ?thesis by (cases "GetForXuid ks (cs_codes st) x") (simp_all add: Let_def)
next
  case (panic p)
  then show ?thesis by (cases "GetForXuid ks (cs_codes st) x") simp_all
qed

subsection \<open>Check-then-insert races\<close>

lemma both_checks_pass:
  assumes "d1 \<notin> fst ` bindings (cs_db st)" "d2 \<notin> fst ` bindings (cs_db st)" "x \<notin> snd ` bindings (cs_db st)"
  shows "run_schedule st [CreateThread d1 x CreateStart, CreateThread d2 x CreateStart] [0, 1, 0, 1] =
           Some (st\<lparr>cs_db := fst (db_create (fst (db_create (cs_db st) d1 x)) d2 x)\<rparr>,
                 [CreateThread d1 x (CreateDone (Ok \<lparr>Discord = d1, XUID = x\<rparr>)),
                  CreateThread d2 x (CreateDone (Ok \<lparr>Discord = d2, XUID = x\<rparr>))])"
  using assms db_first_discord_or_xuid [of "cs_db st" d1 x] db_first_discord_or_xuid [of "cs_db st" d2 x]
  by (simp add: db_create_def ToUser_def Let_def User.defs)


lemma two_issues_both_pass:
  assumes nocode: "\<forall>i. GetForXuid ks (cs_codes st) x \<noteq> Ok i"
    and f1: "findFreeCode (cs_codes st) rs1 0 = Some (Ok g1)"
    and f2: "findFreeCode ((cs_codes st)\<lparr>codes := (codes (cs_codes st))(g1 \<mapsto>
               \<lparr>Code = g1, XUID = x, Issued = t1, Expires = t2 + code_validity\<rparr>)\<rparr>) rs2 0 = Some (Ok g2)"
  shows "\<exists>st' r1 r2. run_schedule st [IssueThread x ks rs1 t1 t2 IssueStart, IssueThread x ks rs2 t1 t2 IssueStart]
              [0, 1, 0, 1] =
            Some (st', [IssueThread x ks rs1 t1 t2 (IssueDone (Ok r1)), IssueThread x ks rs2 t1 t2 (IssueDone (Ok r2))]) \<and>
          codes (cs_codes st') g1 = Some \<lparr>Code = g1, XUID = x, Issued = t1, Expires = t2 + code_validity\<rparr> \<and>
          codes (cs_codes st') g2 = Some \<lparr>Code = g2, XUID = x, Issued = t1, Expires = t2 + code_validity\<rparr>"
proof -
  have c: "(case GetForXuid ks (cs_codes st) x of
              Ok existing \<Rightarrow> A existing | Err e \<Rightarrow> B | Panic p \<Rightarrow> B) = B" for A B
    using nocode by (cases "GetForXuid ks (cs_codes st) x") simp_all
  show ?thesis using f1 f2 by (simp add: c Let_def split: outcome.split)
qed


text \<open>
  C8: Two concurrent \<open>CreateUser\<close> calls for the same XUID from two unbound
  Discord IDs can both succeed: when both checks run before either insert,
  the table ends with two live rows for the XUID and the two-way uniqueness
  of bindings the specification requires is lost.
\<close>

theorem CreateUser_race:
  assumes "d1 \<noteq> d2" "d1 \<notin> fst ` bindings (cs_db st)" "d2 \<notin> fst ` bindings (cs_db st)"
    "x \<notin> snd ` bindings (cs_db st)"
  shows "\<exists>st'. run_schedule st [CreateThread d1 x CreateStart, CreateThread d2 x CreateStart] [0, 1, 0, 1] =
            Some (st', [CreateThread d1 x (CreateDone (Ok \<lparr>Discord = d1, XUID = x\<rparr>)),
                        CreateThread d2 x (CreateDone (Ok \<lparr>Discord = d2, XUID = x\<rparr>))]) \<and>
            (d1, x) \<in> bindings (cs_db st') \<and> (d2, x) \<in> bindings (cs_db st') \<and> \<not> repo_inv (cs_db st')"
proof -
  let ?db = "fst (db_create (fst (db_create (cs_db st) d1 x)) d2 x)"
  have b: "(d1, x) \<in> bindings ?db" "(d2, x) \<in> bindings ?db" by (simp_all add: bindings_create)
  have "\<not> repo_inv ?db" using b \<open>d1 \<noteq> d2\<close> by (blast dest: bindings_xuid_unique)
  with b both_checks_pass [OF assms(2-4)] show ?thesis by auto
qed

lemma CreateUser_race_witness:
  "\<exists>st'. run_schedule \<lparr>cs_db = NewDefaultRepository, cs_codes = newDefaultCodeStore\<rparr>
            [CreateThread ''disc-1'' ''XUID-1'' CreateStart, CreateThread ''disc-2'' ''XUID-1'' CreateStart] [0, 1, 0, 1] =
          Some (st', [CreateThread ''disc-1'' ''XUID-1'' (CreateDone (Ok \<lparr>Discord = ''disc-1'', XUID = ''XUID-1''\<rparr>)),
                      CreateThread ''disc-2'' ''XUID-1'' (CreateDone (Ok \<lparr>Discord = ''disc-2'', XUID = ''XUID-1''\<rparr>))]) \<and>
          (''disc-1'', ''XUID-1'') \<in> bindings (cs_db st') \<and> (''disc-2'', ''XUID-1'') \<in> bindings (cs_db st') \<and>
          \<not> repo_inv (cs_db st')"
  by (rule CreateUser_race) (simp_all add: bindings_def live_rows_def NewDefaultRepository_def)

text \<open>
  C9: Two concurrent \<open>Issue\<close> calls for the same XUID can both succeed: when
  both \<open>GetForXuid\<close> checks run before either store, the XUID ends with two
  outstanding codes, against the specification's "at most one active code per
  subject".
\<close>

theorem Issue_race:
  assumes "\<forall>i. GetForXuid ks (cs_codes st) x \<noteq> Ok i"
    and "findFreeCode (cs_codes st) rs1 0 = Some (Ok g1)"
    and "findFreeCode ((cs_codes st)\<lparr>codes := (codes (cs_codes st))(g1 \<mapsto>
           \<lparr>Code = g1, XUID = x, Issued = t1, Expires = t2 + code_validity\<rparr>)\<rparr>) rs2 0 = Some (Ok g2)"
  shows "\<exists>st' r1 r2. run_schedule st [IssueThread x ks rs1 t1 t2 IssueStart, IssueThread x ks rs2 t1 t2 IssueStart]
              [0, 1, 0, 1] =
            Some (st', [IssueThread x ks rs1 t1 t2 (IssueDone (Ok r1)), IssueThread x ks rs2 t1 t2 (IssueDone (Ok r2))]) \<and>
          g1 \<noteq> g2 \<and> \<not> xuid_unique (cs_codes st')"
proof -
  have "g1 \<noteq> g2" using findFreeCode_Ok [OF assms(3)] by auto
  moreover obtain st' r1 r2 where
    "run_schedule st [IssueThread x ks rs1 t1 t2 IssueStart, IssueThread x ks rs2 t1 t2 IssueStart] [0, 1, 0, 1] =
       Some (st', [IssueThread x ks rs1 t1 t2 (IssueDone (Ok r1)), IssueThread x ks rs2 t1 t2 (IssueDone (Ok r2))])"
    "codes (cs_codes st') g1 = Some \<lparr>Code = g1, XUID = x, Issued = t1, Expires = t2 + code_validity\<rparr>"
    "codes (cs_codes st') g2 = Some \<lparr>Code = g2, XUID = x, Issued = t1, Expires = t2 + code_validity\<rparr>"
    using two_issues_both_pass [OF assms] by blast
  moreover from calculation have "\<not> xuid_unique (cs_codes st')" unfolding xuid_unique_def by force
  ultimately show ?thesis by blast
qed

lemma Issue_race_witness:
  "\<exists>st' r1 r2. run_schedule \<lparr>cs_db = NewDefaultRepository, cs_codes = newDefaultCodeStore\<rparr>
            [IssueThread ''XUID-1'' [] (\<lambda>_. Some [0, 1, 2, 33, 34, 255]) 5 7 IssueStart,
             IssueThread ''XUID-1'' [] (\<lambda>_. Some [1, 1, 1, 1, 1, 1]) 5 7 IssueStart] [0, 1, 0, 1] =
          Some (st', [IssueThread ''XUID-1'' [] (\<lambda>_. Some [0, 1, 2, 33, 34, 255]) 5 7 (IssueDone (Ok r1)),
                      IssueThread ''XUID-1'' [] (\<lambda>_. Some [1, 1, 1, 1, 1, 1]) 5 7 (IssueDone (Ok r2))]) \<and>
          ''01201P'' \<noteq> ''111111'' \<and> \<not> xuid_unique (cs_codes st')"
  by (rule Issue_race) (simp_all add: GetForXuid_def findFreeCode_stops model_simps)

end
