(* ===== verification/ServiceRace.thy ===== *)
theory ServiceRace
  imports Bot Concurrency
begin

text \<open>
  The HTTP route \<open>/codes/issue\<close> and the Discord command \<open>/bind\<close> run on
  different goroutines over the same \<open>Service\<close>. \<open>Service.IssueCode\<close>
  (\<open>src/server/service.go\<close>, lines 19--25) first asks the repository whether
  the XUID is bound and then calls \<open>Issue\<close>; nothing keeps a bind from
  completing in between. A thread here is a call of \<open>IssueCode\<close>, split at
  that point, or a whole Discord command (its own interleavings are not needed
  for what is shown). The schedule runner is the one of theory
  \<open>Concurrency\<close>.
\<close>

datatype issuecode_pc = ICStart | ICChecked | ICDone "code_information option outcome"

datatype cmd_pc = CmdStart | CmdDone "string outcome option"

datatype svc_thread =
    IssueCodeThread string "string list" rand_source time time issuecode_pc
  | CommandThread interaction cmd_pc

text \<open>
  One step. \<open>IssueCode\<close>: the \<open>GetUserByXUID\<close> check of lines 20--23, then
  \<open>codeStr.Issue\<close> of line 24. A command runs \<open>on_interaction\<close>; \<open>CmdDone None\<close>
  is a command without a handler.
\<close>

definition svc_step :: "'w service \<times> 'w \<Rightarrow> svc_thread \<Rightarrow> (('w service \<times> 'w) \<times> svc_thread) option" where
  "svc_step st t = (case st of (s, w) \<Rightarrow> (case t of
       IssueCodeThread x ks rs t1 t2 ICStart \<Rightarrow>
         Some (case GetUserByXUID (repo s) x of
                 Ok existing \<Rightarrow>
                   (st, IssueCodeThread x ks rs t1 t2 (ICDone (Err (AppError (NewApplicationError 40000
                          (''Minecraft account is already bound to ID '' @ User.Discord existing))))))
               | _ \<Rightarrow> (st, IssueCodeThread x ks rs t1 t2 ICChecked))
     | IssueCodeThread x ks rs t1 t2 ICChecked \<Rightarrow>
         map_option (\<lambda>(c', r). ((s\<lparr>codeStr := c'\<rparr>, w), IssueCodeThread x ks rs t1 t2 (ICDone r)))
           (Issue ks rs t1 t2 (codeStr s) x)
     | CommandThread i CmdStart \<Rightarrow>
         Some (case on_interaction s w i of
                 None \<Rightarrow> (st, CommandThread i (CmdDone None))
               | Some (s', w', r) \<Rightarrow> ((s', w'), CommandThread i (CmdDone (Some r))))
     | _ \<Rightarrow> Some (st, t)))"

subsection \<open>Lemmas\<close>

lemma svc_step_simps [simp]:
  "svc_step (s, w) (IssueCodeThread x ks rs t1 t2 ICStart) =
     Some (case GetUserByXUID (repo s) x of
             Ok existing \<Rightarrow>
               ((s, w), IssueCodeThread x ks rs t1 t2 (ICDone (Err (AppError (NewApplicationError 40000
                      (''Minecraft account is already bound to ID '' @ User.Discord existing))))))
           | _ \<Rightarrow> ((s, w), IssueCodeThread x ks rs t1 t2 ICChecked))"
  "svc_step (s, w) (IssueCodeThread x ks rs t1 t2 ICChecked) =
     map_option (\<lambda>(c', r). ((s\<lparr>codeStr := c'\<rparr>, w), IssueCodeThread x ks rs t1 t2 (ICDone r)))
       (Issue ks rs t1 t2 (codeStr s) x)"
  "svc_step (s, w) (IssueCodeThread x ks rs t1 t2 (ICDone r)) = Some ((s, w), IssueCodeThread x ks rs t1 t2 (ICDone r))"
  "svc_step (s, w) (CommandThread i CmdStart) =
     Some (case on_interaction s w i of
             None \<Rightarrow> ((s, w), CommandThread i (CmdDone None))
           | Some (s', w', r) \<Rightarrow> ((s', w'), CommandThread i (CmdDone (Some r))))"
  "svc_step (s, w) (CommandThread i (CmdDone q)) = Some ((s, w), CommandThread i (CmdDone q))"
  by (simp_all add: svc_step_def)

text \<open>Run alone, the split \<open>IssueCode\<close> thread is \<open>Service.IssueCode\<close>.\<close>

lemma issuecode_thread_alone:
  "run_steps svc_step (s, w) [IssueCodeThread x ks rs t1 t2 ICStart] [0, 0] =
     map_option (\<lambda>(s', r). ((s', w), [IssueCodeThread x ks rs t1 t2 (ICDone r)])) (Service_IssueCode ks rs t1 t2 s x)"
proof (cases "\<exists>u. GetUserByXUID (repo s) x = Ok u")
  case True
  then show ?thesis by (auto simp: Service_IssueCode_def)
next
  case False
  then have c: "(case GetUserByXUID (repo s) x of Ok existing \<Rightarrow> A existing | Err e \<Rightarrow> B | Panic p \<Rightarrow> B) = B" for A B
    by (cases "GetUserByXUID (repo s) x") auto
  show ?thesis
    by (simp add: c Service_IssueCode_def option.map_comp comp_def case_prod_beta' split: option.split)
qed

text \<open>A service in which a bound XUID holds a code is not well formed.\<close>

lemma bound_code_not_inv:
  assumes "codes (codeStr s) g = Some info" "(d, x) \<in> bindings (repo s)" "code_information.XUID info = x"
  shows "\<not> service_inv s"
proof
  assume "service_inv s"
  then have "code_information.XUID info \<notin> snd ` bindings (repo s)"
    using assms(1) unfolding service_inv_def codes_unbound_def by blast
  with assms(2,3) show False by force
qed

lemma Issue_fresh:
  assumes "\<forall>i. GetForXuid ks s x \<noteq> Ok i" "findFreeCode s rs 0 = Some (Ok g)"
  shows "Issue ks rs t1 t2 s x =
           Some (s\<lparr>codes := (codes s)(g \<mapsto> \<lparr>Code = g, XUID = x, Issued = t1, Expires = t2 + code_validity\<rparr>)\<rparr>,
                 Ok (((codes s)(g \<mapsto> \<lparr>Code = g, XUID = x, Issued = t1, Expires = t2 + code_validity\<rparr>)) x))"
  using assms by (cases "GetForXuid ks s x") (simp_all add: Issue_def Let_def)

lemma bind_interaction_success:
  assumes inv: "service_inv s" and code: "codes (codeStr s) c = Some info"
    and i: "CommandName i = ''bind''" "option_map (Options i) ''code'' = Some c" "MemberUserID i = Some d"
    and free: "d \<notin> fst ` bindings (repo s)"
  shows "svc_step (s, w) (CommandThread i CmdStart) =
           Some ((s\<lparr>repo := fst (CreateUser (repo s) d (code_information.XUID info)),
                    codeStr := (codeStr s)\<lparr>codes := (codes (codeStr s))(c := None)\<rparr>\<rparr>,
                  run_handlers (handlers s) \<lparr>Discord = d, XUID = code_information.XUID info\<rparr> w),
                 CommandThread i (CmdDone (Some (Ok ''Binding has been created successfully''))))"
  using bind_handler_success [where options = "option_map (Options i)" and w = w, OF inv code i(2) i(3) free] i(1) by (simp add: on_interaction_def)

text \<open>
  C10: \<open>IssueCode\<close> races \<open>/bind\<close>. The HTTP goroutine checks that the XUID
  is unbound; the Discord goroutine then binds the XUID with its outstanding
  code and revokes that code; the HTTP goroutine resumes and issues a fresh
  code to the XUID that is now bound. Both calls succeed, and the service
  ends holding a code for a bound XUID, which no sequential order of the two
  calls produces (the spec's "a code is only issued to an unbound account").
\<close>

theorem IssueCode_bind_race:
  assumes inv: "service_inv s" and code: "codes (codeStr s) c = Some info"
    and x: "code_information.XUID info = x"
    and i: "CommandName i = ''bind''" "option_map (Options i) ''code'' = Some c" "MemberUserID i = Some d"
    and free: "d \<notin> fst ` bindings (repo s)"
    and ord: "iteration_order ((codes (codeStr s))(c := None)) ks"
    and g: "findFreeCode ((codeStr s)\<lparr>codes := (codes (codeStr s))(c := None)\<rparr>) rs 0 = Some (Ok g)"
  shows "\<exists>s' w' r. run_steps svc_step (s, w) [IssueCodeThread x ks rs t1 t2 ICStart, CommandThread i CmdStart] [0, 1, 0] =
            Some ((s', w'), [IssueCodeThread x ks rs t1 t2 (ICDone (Ok r)),
                             CommandThread i (CmdDone (Some (Ok ''Binding has been created successfully'')))]) \<and>
          (d, x) \<in> bindings (repo s') \<and>
          codes (codeStr s') g = Some \<lparr>Code = g, XUID = x, Issued = t1, Expires = t2 + code_validity\<rparr> \<and>
          \<not> service_inv s'"
proof -
  let ?cs = "(codeStr s)\<lparr>codes := (codes (codeStr s))(c := None)\<rparr>"
  let ?e = "\<lparr>Code = g, XUID = x, Issued = t1, Expires = t2 + code_validity\<rparr>"
  let ?db = "fst (CreateUser (repo s) d x)"
  let ?w = "run_handlers (handlers s) \<lparr>Discord = d, XUID = x\<rparr> w"
  let ?s' = "s\<lparr>repo := ?db, codeStr := ?cs\<lparr>codes := (codes ?cs)(g \<mapsto> ?e)\<rparr>\<rparr>"
  have unb: "x \<notin> snd ` bindings (repo s)" using inv code x by (auto simp: service_inv_def codes_unbound_def)
  have b: "bindings ?db = insert (d, x) (bindings (repo s))"
    using Service_CreateUser_ok [OF free unb, of w] by blast
  have csi: "code_store_inv ?cs" using inv code_store_inv_delete by (auto simp: service_inv_def)
  have nox: "\<forall>c' i'. codes ?cs c' = Some i' \<longrightarrow> code_information.XUID i' \<noteq> x"
    using inv code x by (auto simp: service_inv_def code_store_inv_def xuid_unique_def)
  then have "\<forall>i'. GetForXuid ks ?cs x \<noteq> Ok i'" using GetForXuid_no_Ok [of ?cs ks x] ord by simp
  then have iss: "Issue ks rs t1 t2 ?cs x = Some (?cs\<lparr>codes := (codes ?cs)(g \<mapsto> ?e)\<rparr>, Ok (((codes ?cs)(g \<mapsto> ?e)) x))"
    using g by (rule Issue_fresh)
  have s0: "svc_step (s, w) (IssueCodeThread x ks rs t1 t2 ICStart) = Some ((s, w), IssueCodeThread x ks rs t1 t2 ICChecked)"
    using GetUserByXUID_unbound [OF unb] by (simp add: user_not_found_def)
  have s1: "svc_step (s, w) (CommandThread i CmdStart) =
              Some ((s\<lparr>repo := ?db, codeStr := ?cs\<rparr>, ?w),
                    CommandThread i (CmdDone (Some (Ok ''Binding has been created successfully''))))"
    using bind_interaction_success [OF inv code i free, of w] x by simp
  have run: "run_steps svc_step (s, w) [IssueCodeThread x ks rs t1 t2 ICStart, CommandThread i CmdStart] [0, 1, 0] =
            Some ((?s', ?w), [IssueCodeThread x ks rs t1 t2 (ICDone (Ok (((codes ?cs)(g \<mapsto> ?e)) x))),
                             CommandThread i (CmdDone (Some (Ok ''Binding has been created successfully'')))])"
    using s0 s1 iss by simp
  have cg: "codes (codeStr ?s') g = Some ?e" by simp
  have dx: "(d, x) \<in> bindings (repo ?s')" using b by simp
  have "\<not> service_inv ?s'" using cg dx by (rule bound_code_not_inv) simp
  with run cg dx show ?thesis by blast
qed

subsection \<open>Witnesses\<close>

lemma IssueCode_bind_race_witness:
  "\<exists>s' w' r. run_steps svc_step
       (NewService NewDefaultRepository
          \<lparr>codes = [''01201P'' \<mapsto> \<lparr>Code = ''01201P'', XUID = ''XUID-1'', Issued = 5, Expires = 7\<rparr>]\<rparr> :: unit service, ())
       [IssueCodeThread ''XUID-1'' [] (\<lambda>_. Some [0, 1, 2, 33, 34, 255]) 8 8 ICStart,
        CommandThread \<lparr>MemberUserID = Some ''disc-1'', CommandName = ''bind'', Options = [(''code'', ''01201P'')]\<rparr> CmdStart]
       [0, 1, 0] =
     Some ((s', w'), [IssueCodeThread ''XUID-1'' [] (\<lambda>_. Some [0, 1, 2, 33, 34, 255]) 8 8 (ICDone (Ok r)),
                      CommandThread \<lparr>MemberUserID = Some ''disc-1'', CommandName = ''bind'', Options = [(''code'', ''01201P'')]\<rparr>
                        (CmdDone (Some (Ok ''Binding has been created successfully'')))]) \<and>
     (''disc-1'', ''XUID-1'') \<in> bindings (repo s') \<and>
     codes (codeStr s') ''01201P'' = Some \<lparr>Code = ''01201P'', XUID = ''XUID-1'', Issued = 8, Expires = 8 + code_validity\<rparr> \<and>
     \<not> service_inv s'"
proof -
  let ?s = "NewService NewDefaultRepository
          \<lparr>codes = [''01201P'' \<mapsto> \<lparr>Code = ''01201P'', XUID = ''XUID-1'', Issued = 5, Expires = 7\<rparr>]\<rparr> :: unit service"
  let ?i = "\<lparr>MemberUserID = Some ''disc-1'', CommandName = ''bind'', Options = [(''code'', ''01201P'')]\<rparr>"
  have code: "codes (codeStr ?s) ''01201P'' = Some \<lparr>Code = ''01201P'', XUID = ''XUID-1'', Issued = 5, Expires = 7\<rparr>"
    by (simp add: NewService_def)
  have x: "code_information.XUID \<lparr>Code = ''01201P'', XUID = ''XUID-1'', Issued = 5, Expires = 7\<rparr> = ''XUID-1''"
    by simp
  have i: "CommandName ?i = ''bind''" "option_map (Options ?i) ''code'' = Some ''01201P''"
    "MemberUserID ?i = Some ''disc-1''" by (simp_all add: option_map_def)
  have free: "''disc-1'' \<notin> fst ` bindings (repo ?s)"
    by (simp add: NewService_def bindings_def live_rows_def NewDefaultRepository_def)
  have e: "(codes (codeStr ?s))(''01201P'' := None) = Map.empty" by (simp add: NewService_def)
  have ord: "iteration_order ((codes (codeStr ?s))(''01201P'' := None)) []"
    by (simp only: e) (simp add: iteration_order_def)
  have g: "findFreeCode ((codeStr ?s)\<lparr>codes := (codes (codeStr ?s))(''01201P'' := None)\<rparr>)
             (\<lambda>_. Some [0, 1, 2, 33, 34, 255]) 0 = Some (Ok ''01201P'')"
    by (simp only: e) (simp add: findFreeCode_stops model_simps)
  show ?thesis
    using IssueCode_bind_race [where w = "()" and ?t1.0 = 8 and ?t2.0 = 8, OF service_inv_example code x i free ord g] .
qed

end
