(* ===== verification/Client.thy ===== *)
theory Client
  imports Server
begin

text \<open>
  The Go API client (\<open>src/client/api.go\<close>) and the way its requests reach the
  server. A client request is what resty sends: method, URL, headers and body.
  The transport delivers it to the server of theory \<open>Server\<close>: the URL after
  the client's \<open>host\<close> is the path gin routes, the \<open>Authorization\<close> header is
  what \<open>c.GetHeader\<close> reads (the empty string when it is absent). On the way
  back, \<open>json.Unmarshal\<close> reads the body into a \<open>Payload\<close> and
  \<open>mapstructure.Decode\<close> copies the fields of the payload whose names match
  the target's. Library behaviour (gin's router, resty's path parameters,
  encoding/json, mapstructure) is written from its documentation; URL
  escaping and the server's unescaping cancel and are left out.
\<close>

subsection \<open>Routing and transport\<close>

datatype http_method = GET | POST

record http_request =
  Method :: http_method
  URL :: string
  Headers :: "(string \<times> string) list"
  Body :: string

text \<open>A path parameter of gin matches one non-empty segment.\<close>

definition param_ok :: "string \<Rightarrow> bool" where
  "param_ok p \<longleftrightarrow> p \<noteq> [] \<and> CHR ''/'' \<notin> set p"

text \<open>
  gin's router over the routes registered in \<open>GetHttpHandler\<close>; any other
  method and path is answered by the not-found handler (after the middleware,
  as gin runs the global handlers for unmatched routes too).
\<close>

definition gin_route :: "http_method \<Rightarrow> string \<Rightarrow> route" where
  "gin_route m path =
     (if m = GET \<and> path = ''/test'' then RouteTest
      else if m = POST \<and> path = ''/codes/issue'' then RouteCodesIssue
      else if m = POST \<and> path = ''/codes/check'' then RouteCodesCheck
      else if m = POST \<and> path = ''/codes/revoke'' then RouteCodesRevoke
      else if m = GET \<and> take 15 path = ''/users/discord/'' \<and> param_ok (drop 15 path)
        then RouteUsersDiscord (drop 15 path)
      else if m = GET \<and> take 12 path = ''/users/xuid/'' \<and> param_ok (drop 12 path)
        then RouteUsersXuid (drop 12 path)
      else RouteNotFound)"

text \<open>\<open>c.GetHeader(name)\<close>: the first value, or the empty string.\<close>

definition GetHeader :: "(string \<times> string) list \<Rightarrow> string \<Rightarrow> string" where
  "GetHeader hs name = (case map_of hs name of Some v \<Rightarrow> v | None \<Rightarrow> '''')"

definition deliver ::
  "string \<Rightarrow> issue_env \<Rightarrow> 'w server \<Rightarrow> http_request \<Rightarrow> ('w server \<times> response) option" where
  "deliver base env srv r =
     serve env srv \<lparr>Authorization = GetHeader (Headers r) ''Authorization'',
                    Route = gin_route (Method r) (drop (length base) (URL r)),
                    RawData = Some (Body r)\<rparr>"

text \<open>
  \<open>strings.Replace(s, old, new, -1)\<close>, which resty applies to the URL for each
  path parameter with \<open>old = "{" + key + "}"\<close>.
\<close>

fun replace_all :: "string \<Rightarrow> string \<Rightarrow> string \<Rightarrow> string" where
  "replace_all old new [] = []"
| "replace_all old new (c # cs) =
     (if old \<noteq> [] \<and> take (length old) (c # cs) = old
      then new @ replace_all old new (drop (length old) (c # cs))
      else c # replace_all old new cs)"

definition SetPathParams :: "(string \<times> string) list \<Rightarrow> string \<Rightarrow> string" where
  "SetPathParams params url = fold (\<lambda>(k, v) u. replace_all (''{'' @ k @ ''}'') v u) params url"

text \<open>
  \<open>json.Unmarshal(body, &responsePayload)\<close>: a JSON body decodes to the payload
  the server encoded; an empty body and a text body are syntax errors (the
  exact wording of encoding/json's message for text is not modelled).
\<close>

definition json_Unmarshal :: "response_body \<Rightarrow> Payload outcome" where
  "json_Unmarshal body = (case body of
       JsonBody p \<Rightarrow> Ok p
     | NoBody \<Rightarrow> Err (OtherError ''unexpected end of JSON input'')
     | TextBody _ \<Rightarrow> Err (OtherError ''invalid character looking for beginning of value''))"

text \<open>
  \<open>mapstructure.Decode(responsePayload, &response)\<close>: the struct \<open>Payload\<close> has
  the fields \<open>Error\<close> and \<open>Data\<close>, and neither \<open>CodeInformation\<close> nor
  \<open>User\<close> has a field of those names, so nothing is copied and the target
  keeps its zero value (a zero \<open>time.Time\<close> is time 0 here).
\<close>

definition zero_CodeInformation :: code_information where
  "zero_CodeInformation = \<lparr>Code = '''', XUID = '''', Issued = 0, Expires = 0\<rparr>"

definition zero_User :: User where
  "zero_User = \<lparr>Discord = '''', XUID = ''''\<rparr>"

definition mapstructure_Decode_CodeInformation :: "Payload \<Rightarrow> code_information" where
  "mapstructure_Decode_CodeInformation p = zero_CodeInformation"

definition mapstructure_Decode_User :: "Payload \<Rightarrow> User" where
  "mapstructure_Decode_User p = zero_User"

subsection \<open>The client\<close>

record Api =
  host :: string
  accessToken :: string

text \<open>\<open>getRequest()\<close>: a fresh resty request, with no header set.\<close>

definition getRequest :: http_request where
  "getRequest = \<lparr>Method = GET, URL = '''', Headers = [], Body = ''''\<rparr>"

definition resty_Get :: "http_request \<Rightarrow> string \<Rightarrow> http_request" where
  "resty_Get r url = r\<lparr>Method := GET, URL := url\<rparr>"

definition resty_Post :: "http_request \<Rightarrow> string \<Rightarrow> string \<Rightarrow> http_request" where
  "resty_Post r body url = r\<lparr>Method := POST, URL := url, Body := body\<rparr>"

text \<open>
  The part every method of \<open>Api\<close> repeats: send, unmarshal, and turn an
  error payload into \<open>errors.New(message)\<close>. A connection the server closes
  without an answer is a transport error.
\<close>

definition Api_do :: "Api \<Rightarrow> issue_env \<Rightarrow> 'w server \<Rightarrow> http_request \<Rightarrow> ('w server \<times> Payload outcome) option" where
  "Api_do api env srv r =
     map_option (\<lambda>(srv', resp). (srv', case resp of
         ConnectionAborted \<Rightarrow> Err (OtherError ''EOF'')
       | Response _ body \<Rightarrow>
           (case json_Unmarshal body of
              Ok p \<Rightarrow> (case PayloadError p of
                         Some ei \<Rightarrow> Err (OtherError (EI_Message ei))
                       | None \<Rightarrow> Ok p)
            | Err e \<Rightarrow> Err e
            | Panic q \<Rightarrow> Panic q)))
       (deliver (host api) env srv r)"

definition decode_with :: "(Payload \<Rightarrow> 'a) \<Rightarrow> ('w server \<times> Payload outcome) option \<Rightarrow> ('w server \<times> 'a outcome) option" where
  "decode_with dec res = map_option (\<lambda>(srv', r). (srv', case r of
       Ok p \<Rightarrow> Ok (dec p) | Err e \<Rightarrow> Err e | Panic q \<Rightarrow> Panic q)) res"

definition Api_Test :: "Api \<Rightarrow> issue_env \<Rightarrow> 'w server \<Rightarrow> ('w server \<times> bool) option" where
  "Api_Test api env srv =
     map_option (\<lambda>(srv', resp). (srv', case resp of Response st _ \<Rightarrow> st = 200 | ConnectionAborted \<Rightarrow> False))
       (deliver (host api) env srv (resty_Get getRequest (host api @ ''/test'')))"

definition NewApi :: "string \<Rightarrow> string \<Rightarrow> issue_env \<Rightarrow> 'w server \<Rightarrow> ('w server \<times> Api outcome) option" where
  "NewApi h token env srv =
     (let inst = \<lparr>host = h, accessToken = token\<rparr>
      in map_option (\<lambda>(srv', ok). (srv', if \<not> ok then Err (OtherError (''can't access '' @ h)) else Ok inst))
           (Api_Test inst env srv))"

definition Api_IssueCode :: "Api \<Rightarrow> issue_env \<Rightarrow> 'w server \<Rightarrow> string \<Rightarrow> ('w server \<times> code_information outcome) option" where
  "Api_IssueCode api env srv xuid =
     decode_with mapstructure_Decode_CodeInformation
       (Api_do api env srv (resty_Post getRequest xuid (host api @ ''/codes/issue'')))"

definition Api_CheckCode :: "Api \<Rightarrow> issue_env \<Rightarrow> 'w server \<Rightarrow> string \<Rightarrow> ('w server \<times> code_information outcome) option" where
  "Api_CheckCode api env srv code =
     decode_with mapstructure_Decode_CodeInformation
       (Api_do api env srv (resty_Post getRequest code (host api @ ''/codes/check'')))"

definition Api_RevokeCode :: "Api \<Rightarrow> issue_env \<Rightarrow> 'w server \<Rightarrow> string \<Rightarrow> ('w server \<times> code_information outcome) option" where
  "Api_RevokeCode api env srv code =
     decode_with mapstructure_Decode_CodeInformation
       (Api_do api env srv (resty_Post getRequest code (host api @ ''/codes/revoke'')))"

definition Api_GetUserByDiscord :: "Api \<Rightarrow> issue_env \<Rightarrow> 'w server \<Rightarrow> string \<Rightarrow> ('w server \<times> User outcome) option" where
  "Api_GetUserByDiscord api env srv discordId =
     decode_with mapstructure_Decode_User
       (Api_do api env srv (resty_Get getRequest
          (SetPathParams [(''{discord}'', discordId)] (host api @ ''/users/discord/{discord}''))))"

definition Api_GetUserByXUID :: "Api \<Rightarrow> issue_env \<Rightarrow> 'w server \<Rightarrow> string \<Rightarrow> ('w server \<times> User outcome) option" where
  "Api_GetUserByXUID api env srv xuid =
     decode_with mapstructure_Decode_User
       (Api_do api env srv (resty_Get getRequest
          (SetPathParams [(''xuid'', xuid)] (host api @ ''/users/xuid/{xuid}''))))"

definition open_server :: "unit server" where
  "open_server = \<lparr>server.accessToken = '''', discordBotToken = ''bot-token'',
                   srv_service = NewService NewDefaultRepository newDefaultCodeStore\<rparr>"

definition example_api :: Api where
  "example_api = \<lparr>host = ''http://127.0.0.1:8080'', accessToken = ''secret''\<rparr>"

subsection \<open>Lemmas\<close>

declare getRequest_def [model_simps] resty_Get_def [model_simps] resty_Post_def [model_simps]
  GetHeader_def [model_simps] json_Unmarshal_def [model_simps]

lemma replace_all_Nil_old [simp]: "replace_all [] new s = s"
  by (induction s) simp_all

lemma replace_all_prefix:
  assumes "old \<noteq> []" "hd old \<notin> set h"
  shows "replace_all old new (h @ s) = h @ replace_all old new s"
  using assms(2)
proof (induction h)
  case (Cons c h)
  have "take (length old) (c # h @ s) \<noteq> old"
    using Cons.prems assms(1) by (cases old) auto
  with Cons show ?case by simp
qed simp

lemma deliver_no_header:
  assumes "server.accessToken srv \<noteq> ''''" "Headers r = []"
  shows "deliver base env srv r = Some (srv, Response 401 NoBody)"
  using assms by (simp add: deliver_def GetHeader_def serve_unauthorized_eq)

lemma Api_do_no_header:
  assumes "server.accessToken srv \<noteq> ''''" "Headers r = []"
  shows "Api_do api env srv r = Some (srv, Err (OtherError ''unexpected end of JSON input''))"
  using assms by (simp add: Api_do_def deliver_no_header json_Unmarshal_def)

lemma decode_with_Err [simp]:
  "decode_with dec (Some (srv, Err e)) = Some (srv, Err e)"
  by (simp add: decode_with_def)

lemma decode_with_Ok [simp]:
  "decode_with dec (Some (srv, Ok p)) = Some (srv, Ok (dec p))"
  by (simp add: decode_with_def)


text \<open>
  C11: The client never sends the access token: \<open>getRequest()\<close> sets no
  \<open>Authorization\<close> header, so against a server whose token is not empty
  \<open>NewApi\<close> fails its \<open>/test\<close> probe, and every method of \<open>Api\<close> gets a 401
  with an empty body, which it reports as a JSON syntax error. No call
  changes the server.
\<close>

theorem client_unauthorized:
  assumes "server.accessToken srv \<noteq> ''''"
  shows "NewApi h token env srv = Some (srv, Err (OtherError (''can't access '' @ h))) \<and>
         Api_IssueCode api env srv x = Some (srv, Err (OtherError ''unexpected end of JSON input'')) \<and>
         Api_CheckCode api env srv c = Some (srv, Err (OtherError ''unexpected end of JSON input'')) \<and>
         Api_RevokeCode api env srv c = Some (srv, Err (OtherError ''unexpected end of JSON input'')) \<and>
         Api_GetUserByDiscord api env srv d = Some (srv, Err (OtherError ''unexpected end of JSON input'')) \<and>
         Api_GetUserByXUID api env srv x = Some (srv, Err (OtherError ''unexpected end of JSON input''))"
  using assms
  by (simp add: NewApi_def Api_Test_def Api_IssueCode_def Api_CheckCode_def Api_RevokeCode_def
      Api_GetUserByDiscord_def Api_GetUserByXUID_def Api_do_no_header deliver_no_header model_simps)


lemma gin_route_host [simp]:
  "gin_route m (drop (length h) (h @ p)) = gin_route m p"
  by simp

lemma gin_route_fixed [simp]:
  "gin_route GET ''/test'' = RouteTest"
  "gin_route POST ''/codes/issue'' = RouteCodesIssue"
  "gin_route POST ''/codes/check'' = RouteCodesCheck"
  "gin_route POST ''/codes/revoke'' = RouteCodesRevoke"
  by (simp_all add: gin_route_def)

lemma Api_IssueCode_success:
  assumes "server.accessToken srv = ''''"
    and "Service_IssueCode (IterOrder env) (RandReads env) (Now1 env) (Now2 env) (srv_service srv) x = Some (s', Ok r)"
  shows "Api_IssueCode api env srv x = Some (srv\<lparr>srv_service := s'\<rparr>, Ok zero_CodeInformation)"
  using assms
  by (simp add: Api_IssueCode_def Api_do_def deliver_def serve_authorized route_handler_def
      recoveryMiddleware_def mapstructure_Decode_CodeInformation_def model_simps)

lemma Api_IssueCode_unauthorized:
  "server.accessToken srv \<noteq> '''' \<Longrightarrow>
   Api_IssueCode api env srv x = Some (srv, Err (OtherError ''unexpected end of JSON input''))"
  by (simp add: Api_IssueCode_def Api_do_no_header model_simps)

lemma NewApi_unauthorized:
  "server.accessToken srv \<noteq> '''' \<Longrightarrow> NewApi h token env srv = Some (srv, Err (OtherError (''can't access '' @ h)))"
  by (simp add: NewApi_def Api_Test_def deliver_no_header model_simps)

text \<open>
  C12: Even when the server's token is empty, so that the client's requests
  pass the auth middleware, a successful \<open>IssueCode\<close> through the client
  returns a zero \<open>CodeInformation\<close> (empty code, empty XUID): the client
  decodes the whole payload instead of its \<open>data\<close> field, whatever the
  server answered.
\<close>

theorem client_issue_zero:
  assumes "server.accessToken srv = ''''"
    and "Service_IssueCode (IterOrder env) (RandReads env) (Now1 env) (Now2 env) (srv_service srv) x = Some (s', Ok r)"
  shows "Api_IssueCode api env srv x = Some (srv\<lparr>srv_service := s'\<rparr>, Ok zero_CodeInformation)"
  using assms by (rule Api_IssueCode_success)


lemma SetPathParams_host:
  assumes "CHR ''{'' \<notin> set h"
  shows "SetPathParams [(k, v)] (h @ p) = h @ replace_all (''{'' @ k @ ''}'') v p"
  using assms replace_all_prefix [of "''{'' @ k @ ''}''" h v p] by (simp add: SetPathParams_def)

lemma discord_url:
  assumes "CHR ''{'' \<notin> set h"
  shows "SetPathParams [(''{discord}'', d)] (h @ ''/users/discord/{discord}'') = h @ ''/users/discord/{discord}''"
  using SetPathParams_host [OF assms] by simp

lemma xuid_url:
  assumes "CHR ''{'' \<notin> set h"
  shows "SetPathParams [(''xuid'', x)] (h @ ''/users/xuid/{xuid}'') = h @ ''/users/xuid/'' @ x"
  using SetPathParams_host [OF assms] by simp

text \<open>
  C32: \<open>GetUserByDiscord\<close> of the client sets its path parameter under the key
  \<open>"{discord}"\<close>, which resty looks for as \<open>"{{discord}}"\<close>: the URL keeps the
  literal segment \<open>{discord}\<close>, so the server is asked for the Discord ID
  \<open>{discord}\<close> and the answer is the same whatever ID the caller passed.
\<close>

theorem client_discord_literal_path:
  assumes "CHR ''{'' \<notin> set (host api)"
  shows "gin_route GET (drop (length (host api))
            (SetPathParams [(''{discord}'', d)] (host api @ ''/users/discord/{discord}'')))
           = RouteUsersDiscord ''{discord}'' \<and>
         Api_GetUserByDiscord api env srv d = Api_GetUserByDiscord api env srv d'"
  using assms by (simp add: discord_url Api_GetUserByDiscord_def gin_route_def param_ok_def)

lemma xuid_route:
  assumes "CHR ''{'' \<notin> set (host api)" "param_ok x"
  shows "gin_route GET (drop (length (host api))
            (SetPathParams [(''xuid'', x)] (host api @ ''/users/xuid/{xuid}''))) = RouteUsersXuid x"
proof -
  have "take 15 (''/users/xuid/'' @ x) \<noteq> ''/users/discord/''" by simp
  with assms show ?thesis by (simp add: xuid_url gin_route_def param_ok_def)
qed

lemma xuid_deliver:
  assumes host: "CHR ''{'' \<notin> set (host api)" and x: "param_ok x"
  shows "Api_GetUserByXUID api env srv x =
           decode_with mapstructure_Decode_User (map_option (\<lambda>(srv', resp). (srv', case resp of
               ConnectionAborted \<Rightarrow> Err (OtherError ''EOF'')
             | Response _ body \<Rightarrow>
                 (case json_Unmarshal body of
                    Ok p \<Rightarrow> (case PayloadError p of Some ei \<Rightarrow> Err (OtherError (EI_Message ei)) | None \<Rightarrow> Ok p)
                  | Err e \<Rightarrow> Err e
                  | Panic q \<Rightarrow> Panic q)))
             (serve env srv \<lparr>Authorization = '''', Route = RouteUsersXuid x, RawData = Some ''''\<rparr>))"
  unfolding Api_GetUserByXUID_def Api_do_def deliver_def
  by (simp add: xuid_route [OF host x] getRequest_def resty_Get_def GetHeader_def)
lemma route_users_xuid:
  "x \<noteq> '''' \<Longrightarrow> route_handler env s \<lparr>Authorization = a, Route = RouteUsersXuid x, RawData = r\<rparr> =
     Some (s, case Service_GetUserByXUID s x of
                Ok user \<Rightarrow> Ok (Response 200 (JsonBody (SuccessPayload (DataUser user))))
              | Err e \<Rightarrow> Panic (PanicErr e)
              | Panic p \<Rightarrow> Panic p)"
  by (simp add: route_handler_def)

lemma serve_users_xuid_open:
  assumes opn: "server.accessToken srv = ''''" and ne: "x \<noteq> ''''"
  shows "serve env srv \<lparr>Authorization = '''', Route = RouteUsersXuid x, RawData = Some ''''\<rparr> =
              Some (srv, recoveryMiddleware (case GetUserByXUID (repo (srv_service srv)) x of
                Ok user \<Rightarrow> Ok (Response 200 (JsonBody (SuccessPayload (DataUser user))))
              | Err e \<Rightarrow> Panic (PanicErr e)
              | Panic p \<Rightarrow> Panic p))"
  using opn ne by (simp add: serve_authorized route_users_xuid Service_GetUserByXUID_def)
lemma Api_GetUserByXUID_found:
  assumes host: "CHR ''{'' \<notin> set (host api)" and x: "param_ok x" and opn: "server.accessToken srv = ''''"
    and g: "GetUserByXUID (repo (srv_service srv)) x = Ok u"
  shows "Api_GetUserByXUID api env srv x = Some (srv, Ok zero_User)"
proof -
  have ne: "x \<noteq> ''''" using x by (simp add: param_ok_def)
  have "serve env srv \<lparr>Authorization = '''', Route = RouteUsersXuid x, RawData = Some ''''\<rparr> =
          Some (srv, Response 200 (JsonBody (SuccessPayload (DataUser u))))"
    using serve_users_xuid_open [OF opn ne] g by (simp add: recoveryMiddleware_def)
  then show ?thesis
    by (simp add: xuid_deliver [OF host x] json_Unmarshal_def SuccessPayload_def mapstructure_Decode_User_def)
qed
lemma Api_GetUserByXUID_missing:
  assumes host: "CHR ''{'' \<notin> set (host api)" and x: "param_ok x" and opn: "server.accessToken srv = ''''"
    and g: "GetUserByXUID (repo (srv_service srv)) x = Err user_not_found"
  shows "Api_GetUserByXUID api env srv x = Some (srv, Err (OtherError ''User not found''))"
proof -
  have ne: "x \<noteq> ''''" using x by (simp add: param_ok_def)
  have st: "GetNumberFirstDigits 40400 3 = Ok 404" by (simp add: GetNumberFirstDigits_five_digits)
  have "serve env srv \<lparr>Authorization = '''', Route = RouteUsersXuid x, RawData = Some ''''\<rparr> =
          Some (srv, Response 404 (JsonBody (FailurePayload (NewApplicationError 40400 ''User not found''))))"
    using serve_users_xuid_open [OF opn ne] g st by (simp add: recoveryMiddleware_def user_not_found_def NewApplicationError_def write_status_def)
  then show ?thesis
    by (simp add: xuid_deliver [OF host x] json_Unmarshal_def FailurePayload_def NewApplicationError_def)
qed

text \<open>
  C33: Against a server with the empty token, \<open>GetUserByXUID\<close> of the client
  asks the server about exactly the XUID it was given, for every XUID that is
  one path segment: the call fails with the server's 404 message
  "User not found" exactly when that XUID is unbound, and otherwise succeeds
  (with a zero \<open>User\<close>, as for \<open>IssueCode\<close>). The path key \<open>xuid\<close>, resty's substitution
  and gin's parameter extraction fit together, unlike \<open>GetUserByDiscord\<close>'s.
\<close>

theorem client_xuid_lookup:
  assumes host: "CHR ''{'' \<notin> set (host api)" and x: "param_ok x" and opn: "server.accessToken srv = ''''"
  shows "Api_GetUserByXUID api env srv x =
           Some (srv, if x \<in> snd ` bindings (repo (srv_service srv)) then Ok zero_User
                      else Err (OtherError ''User not found''))"
proof (cases "x \<in> snd ` bindings (repo (srv_service srv))")
  case True
  then have "db_first (repo (srv_service srv)) (\<lambda>r. User.XUID r = x) \<noteq> None"
    using db_first_xuid_None by blast
  then obtain u where "db_first (repo (srv_service srv)) (\<lambda>r. User.XUID r = x) = Some u" by blast
  then have "GetUserByXUID (repo (srv_service srv)) x = Ok (ToUser u)" by (simp add: GetUserByXUID_def)
  from Api_GetUserByXUID_found [OF host x opn this] True show ?thesis by (simp only: if_True)
next
  case False
  then have "GetUserByXUID (repo (srv_service srv)) x = Err user_not_found" by (rule GetUserByXUID_unbound)
  from Api_GetUserByXUID_missing [OF host x opn this] False show ?thesis by (simp only: if_False)
qed

text \<open>
  gin never hands a route handler an empty path parameter, so the
  handlers' checks for an empty Discord ID or XUID (\<open>server.go\<close> lines 119
  and 129) are unreachable over HTTP.
\<close>

theorem gin_route_no_empty_param:
  "gin_route m p \<noteq> RouteUsersDiscord '''' \<and> gin_route m p \<noteq> RouteUsersXuid ''''"
  by (simp add: gin_route_def param_ok_def)


subsection \<open>Examples\<close>

lemma open_server_issue:
  "Service_IssueCode (IterOrder example_env) (RandReads example_env) (Now1 example_env) (Now2 example_env)
     (srv_service open_server) ''XUID-1'' =
   Some ((srv_service open_server)\<lparr>codeStr := \<lparr>codes = [''01201P'' \<mapsto>
           \<lparr>Code = ''01201P'', XUID = ''XUID-1'', Issued = 5, Expires = 7 + code_validity\<rparr>]\<rparr>\<rparr>, Ok None)"
  by (simp add: open_server_def example_env_def Service_IssueCode_def NewService_def NewDefaultRepository_def
      GetUserByXUID_def db_first_def live_rows_def Issue_def GetForXuid_def findFreeCode_stops model_simps)

lemma client_unauthorized_witness:
  "server.accessToken example_server \<noteq> '''' \<and>
   NewApi ''http://127.0.0.1:8080'' ''secret'' example_env example_server =
     Some (example_server, Err (OtherError ''can't access http://127.0.0.1:8080'')) \<and>
   Api_IssueCode example_api example_env example_server ''XUID-1'' =
     Some (example_server, Err (OtherError ''unexpected end of JSON input''))"
  using client_unauthorized [of example_server "''http://127.0.0.1:8080''" "''secret''" example_env example_api
                                "''XUID-1''" "''01201P''" "''disc-1''"]
  by (simp add: example_server_def)

lemma client_issue_zero_witness:
  "server.accessToken open_server = '''' \<and>
   Api_IssueCode example_api example_env open_server ''XUID-1'' =
     Some (open_server\<lparr>srv_service := (srv_service open_server)\<lparr>codeStr := \<lparr>codes = [''01201P'' \<mapsto>
           \<lparr>Code = ''01201P'', XUID = ''XUID-1'', Issued = 5, Expires = 7 + code_validity\<rparr>]\<rparr>\<rparr>\<rparr>,
           Ok zero_CodeInformation)"
  using client_issue_zero [OF _ open_server_issue] by (simp add: open_server_def)

lemma client_discord_literal_path_witness:
  "CHR ''{'' \<notin> set (host example_api) \<and>
   Api_GetUserByDiscord example_api example_env example_server ''disc-1'' =
   Api_GetUserByDiscord example_api example_env example_server ''disc-2''"
  using client_discord_literal_path [of example_api "''disc-1''" example_env example_server "''disc-2''"]
  by (simp add: example_api_def)

lemma client_xuid_lookup_witness:
  "CHR ''{'' \<notin> set (host example_api) \<and> param_ok ''XUID-1'' \<and> server.accessToken open_server = '''' \<and>
   Api_GetUserByXUID example_api example_env open_server ''XUID-1'' =
     Some (open_server, Err (OtherError ''User not found''))"
proof -
  have h: "CHR ''{'' \<notin> set (host example_api)" by (simp add: example_api_def)
  have p: "param_ok ''XUID-1''" by (simp add: param_ok_def)
  have o: "server.accessToken open_server = ''''" by (simp add: open_server_def)
  have u: "''XUID-1'' \<notin> snd ` bindings (repo (srv_service open_server))"
    by (simp add: open_server_def NewService_def NewDefaultRepository_def bindings_def live_rows_def)
  show ?thesis using client_xuid_lookup [OF h p o, of example_env] u h p o by simp
qed

end
