(* ===== verification/Examples.thy ===== *)
theory Examples
  imports Client System
begin

text \<open>
  The two example programs of the repository, as far as they call the code
  modelled here. \<open>src/examples/server.go\<close> builds the server with the access
  token \<open>aaaa-bbb-cc\<close> and only a logger in its options, and registers the
  bot's commands for the guild ID \<open>"leave-empty-if-global"\<close>.
  \<open>src/examples/dragonfly.go\<close> is a Minecraft server plugin: its \<open>main\<close>
  connects a client to that server with \<open>NewApi\<close> and panics when that fails,
  and its \<open>/bind\<close> game command asks the API for a code for the player's XUID
  and prints it; \<open>readConfig\<close> creates or reads its \<open>config.toml\<close>, and
  the server then accepts players until it is closed. What the Dragonfly
  server does for a player, its command registry and the chat are outside
  the model. \<open>output.Printf(msg)\<close> prints \<open>msg\<close> when it
  contains no formatting verb, which holds of every message produced here.
\<close>

definition example_main_server :: "'w server" where
  "example_main_server =
     NewServer ''aaaa-bbb-cc'' ''token'' \<lparr>Logger = Some ''slog.JSONHandler(os.Stdout)'', Repo = None, CodeStr = None\<rparr>"

text \<open>
  \<open>main\<close> of \<open>examples/server.go\<close> up to serving (lines 11--18):
  \<open>NewServer\<close> with its bot, then \<open>RegisterCommands\<close> with the guild ID
  \<open>"leave-empty-if-global"\<close>. A result \<open>Ok\<close> is the server that
  \<open>ServeWeb\<close> then runs until the signal (theory \<open>System\<close>).
\<close>

definition example_main ::
  "(string \<Rightarrow> bool) \<Rightarrow> (string \<Rightarrow> ApplicationCommand \<Rightarrow> ApplicationCommand option) \<Rightarrow> ('w server \<times> Bot) outcome" where
  "example_main session_opens create =
     (case NewServer_Bot session_opens ''aaaa-bbb-cc'' ''token''
             \<lparr>Logger = Some ''slog.JSONHandler(os.Stdout)'', Repo = None, CodeStr = None\<rparr> of
        Ok (srv, b) \<Rightarrow>
          (case RegisterCommands create b ''leave-empty-if-global'' of
             Ok b' \<Rightarrow> Ok (srv, b')
           | Err e \<Rightarrow> Err e
           | Panic p \<Rightarrow> Panic p)
      | Err e \<Rightarrow> Err e
      | Panic p \<Rightarrow> Panic p)"

text \<open>
  The whole \<open>main\<close> (lines 11--27): once started, \<open>ServeWeb(":8080")\<close> runs
  in a goroutine that returns silently on an error, the process serves the
  events that arrive until the signal on \<open>sgn\<close>, and then logs its one line.
  The events are those of theory \<open>System\<close>; a result is the system it leaves,
  the replies and the lines \<open>main\<close> logs (its only logging call is the
  shutdown line; the request logs of \<open>sloggin\<close> are not modelled). \<open>None\<close> is
  a process that never reaches the signal: a Discord handler panicked, which
  ends it, or an \<open>Issue\<close> never returns.
\<close>

definition example_process ::
  "(string \<Rightarrow> bool) \<Rightarrow> (string \<Rightarrow> ApplicationCommand \<Rightarrow> ApplicationCommand option) \<Rightarrow> (string \<Rightarrow> go_error option)
   \<Rightarrow> 'w \<Rightarrow> 'w event list \<Rightarrow> ('w system \<times> reply list \<times> string list) outcome option" where
  "example_process session_opens create listenAndServe w0 es =
     (case example_main session_opens create of
        Ok (srv, b) \<Rightarrow>
          map_option (\<lambda>(st, rs). Ok (st, rs, [''Shutting the server down'']))
            (run_process (ServeWeb listenAndServe srv '':8080'' = None) (srv, w0) es)
      | Err e \<Rightarrow> Some (Err e)
      | Panic p \<Rightarrow> Some (Panic p))"

datatype cmd_source = PlayerSource string | OtherSource

definition BindCommand_Run :: "Api \<Rightarrow> issue_env \<Rightarrow> 'w server \<Rightarrow> cmd_source \<Rightarrow> ('w server \<times> string) option" where
  "BindCommand_Run api env srv source = (case source of
       OtherSource \<Rightarrow> Some (srv, ''You must run this command as a player'')
     | PlayerSource xuid \<Rightarrow>
         map_option (\<lambda>(srv', r). (srv', case r of
             Ok codeInfo \<Rightarrow> ''Your code is '' @ Code codeInfo
           | Err e \<Rightarrow> error_string e
           | Panic _ \<Rightarrow> ''''))
           (Api_IssueCode api env srv xuid))"

definition dragonfly_main :: "issue_env \<Rightarrow> 'w server \<Rightarrow> ('w server \<times> Api outcome) option" where
  "dragonfly_main env srv =
     map_option (\<lambda>(srv', r). (srv', case r of
         Ok api \<Rightarrow> Ok api
       | Err e \<Rightarrow> Panic (PanicErr e)
       | Panic p \<Rightarrow> Panic p))
       (NewApi ''http://127.0.0.1:8080'' ''aaaa-bbb-cc'' env srv)"

subsection \<open>Reading the configuration file\<close>

text \<open>
  \<open>readConfig\<close> (lines 64--85). The file system is a map from paths to
  contents, with the error \<open>os.WriteFile\<close> or \<open>os.ReadFile\<close> returns, if any;
  \<open>os.Stat\<close> reports \<open>IsNotExist\<close> exactly when the path is absent (any other
  \<open>Stat\<close> error falls through to \<open>ReadFile\<close>, which then fails as well). The
  Dragonfly \<open>UserConfig\<close> is a type parameter \<open>'c\<close> and \<open>Config\<close> a type
  parameter \<open>'k\<close>: \<open>server.DefaultConfig\<close>, \<open>toml.Marshal\<close>, \<open>toml.Unmarshal\<close>
  into the default and \<open>UserConfig.Config(log)\<close> are the fields of a
  \<open>dragonfly_env\<close>. A failing call returns the zero \<open>Config\<close> and an error,
  which is the \<open>Inl\<close> of the result.
\<close>

record file_system =
  fs_files :: "string \<Rightarrow> string option"
  fs_write_error :: "go_error option"
  fs_read_error :: "go_error option"

record ('c, 'k) dragonfly_env =
  DefaultConfig :: 'c
  toml_Marshal :: "'c \<Rightarrow> go_error + string"
  toml_Unmarshal :: "string \<Rightarrow> 'c \<Rightarrow> go_error + 'c"
  UserConfig_Config :: "'c \<Rightarrow> go_error + 'k"

definition os_IsNotExist_Stat :: "file_system \<Rightarrow> string \<Rightarrow> bool" where
  "os_IsNotExist_Stat fs name = (fs_files fs name = None)"

definition os_WriteFile :: "file_system \<Rightarrow> string \<Rightarrow> string \<Rightarrow> file_system \<times> go_error option" where
  "os_WriteFile fs name data = (case fs_write_error fs of
       None \<Rightarrow> (fs\<lparr>fs_files := (fs_files fs)(name \<mapsto> data)\<rparr>, None)
     | Some e \<Rightarrow> (fs, Some e))"

definition os_ReadFile :: "file_system \<Rightarrow> string \<Rightarrow> go_error + string" where
  "os_ReadFile fs name = (case fs_read_error fs of
       Some e \<Rightarrow> Inl e
     | None \<Rightarrow> (case fs_files fs name of
         Some data \<Rightarrow> Inr data
       | None \<Rightarrow> Inl (OtherError (''open '' @ name @ '': no such file or directory''))))"

text \<open>\<open>fmt.Errorf(prefix ++ "%v", err)\<close>.\<close>

definition Errorf_v :: "string \<Rightarrow> go_error \<Rightarrow> go_error" where
  "Errorf_v prefix err = OtherError (prefix @ error_string err)"

definition readConfig :: "('c, 'k) dragonfly_env \<Rightarrow> file_system \<Rightarrow> file_system \<times> (go_error + 'k)" where
  "readConfig denv fs =
     (let c = DefaultConfig denv in
      if os_IsNotExist_Stat fs ''config.toml'' then
        (case toml_Marshal denv c of
           Inl err \<Rightarrow> (fs, Inl (Errorf_v ''encode default config: '' err))
         | Inr data \<Rightarrow>
             (case os_WriteFile fs ''config.toml'' data of
                (fs', Some err) \<Rightarrow> (fs', Inl (Errorf_v ''create default config: '' err))
              | (fs', None) \<Rightarrow> (fs', UserConfig_Config denv c)))
      else
        (case os_ReadFile fs ''config.toml'' of
           Inl err \<Rightarrow> (fs, Inl (Errorf_v ''read config: '' err))
         | Inr data \<Rightarrow>
             (case toml_Unmarshal denv data c of
                Inl err \<Rightarrow> (fs, Inl (Errorf_v ''decode config: '' err))
              | Inr c' \<Rightarrow> (fs, UserConfig_Config denv c'))))"

text \<open>
  \<open>main\<close> up to the server loop (lines 35--52): \<open>NewApi\<close>, panicking on its
  error; then \<open>readConfig\<close>, on whose error \<open>logger.Fatalln\<close> exits. Command
  registration, the logger and the chat subscription only register I/O.
\<close>

datatype 'k dragonfly_start = Started Api 'k | StartPanic panic_value | StartFatal go_error

definition dragonfly_startup ::
  "issue_env \<Rightarrow> 'w server \<Rightarrow> ('c, 'k) dragonfly_env \<Rightarrow> file_system
   \<Rightarrow> ('w server \<times> file_system \<times> 'k dragonfly_start) option" where
  "dragonfly_startup env srv denv fs =
     map_option (\<lambda>(srv', r). case r of
         Ok api \<Rightarrow> (case readConfig denv fs of
             (fs', Inl err) \<Rightarrow> (srv', fs', StartFatal err)
           | (fs', Inr conf) \<Rightarrow> (srv', fs', Started api conf))
       | Err e \<Rightarrow> (srv', fs, StartPanic (PanicErr e))
       | Panic p \<Rightarrow> (srv', fs, StartPanic p))
       (dragonfly_main env srv)"

text \<open>
  The rest of \<open>main\<close> (lines 49--59): on an error of \<open>readConfig\<close>,
  \<open>logger.Fatalln\<close> exits the process; otherwise \<open>conf.New()\<close> builds the
  Dragonfly server, which listens and runs \<open>for srv.Accept(nil) {}\<close>.
  \<open>accept k\<close> is what the \<open>k\<close>-th call of \<open>Accept\<close> returns: \<open>True\<close> when a
  player joined, \<open>False\<close> once the server is closed. The loop returns the
  number of calls that accepted a player, and \<open>None\<close> is a server that is
  never closed.
\<close>

partial_function (option) accept_loop :: "(nat \<Rightarrow> bool) \<Rightarrow> nat \<Rightarrow> nat option" where
  "accept_loop accept k = (if accept k then accept_loop accept (Suc k) else Some k)"

declare accept_loop.simps [code]

datatype dragonfly_exit = ExitPanic panic_value | ExitFatal go_error | ServerClosed nat

definition dragonfly_run ::
  "issue_env \<Rightarrow> 'w server \<Rightarrow> ('c, 'k) dragonfly_env \<Rightarrow> file_system \<Rightarrow> (nat \<Rightarrow> bool)
   \<Rightarrow> ('w server \<times> file_system \<times> dragonfly_exit) option" where
  "dragonfly_run env srv denv fs accept =
     (case dragonfly_startup env srv denv fs of
        None \<Rightarrow> None
      | Some (srv', fs', Started api conf) \<Rightarrow> map_option (\<lambda>n. (srv', fs', ServerClosed n)) (accept_loop accept 0)
      | Some (srv', fs', StartPanic p) \<Rightarrow> Some (srv', fs', ExitPanic p)
      | Some (srv', fs', StartFatal e) \<Rightarrow> Some (srv', fs', ExitFatal e))"

subsection \<open>The two examples together\<close>

lemma example_main_server_token [simp]: "server.accessToken example_main_server = ''aaaa-bbb-cc''"
  by (simp add: example_main_server_def NewServer_def Let_def)

text \<open>
  The Dragonfly example cannot start against the server example: although
  both use the token \<open>aaaa-bbb-cc\<close>, the client never sends it, the server
  answers \<open>/test\<close> with 401, and \<open>main\<close> panics with "can't access".
\<close>

theorem dragonfly_main_panics:
  "dragonfly_main env example_main_server =
     Some (example_main_server, Panic (PanicErr (OtherError ''can't access http://127.0.0.1:8080'')))"
  by (simp add: dragonfly_main_def NewApi_unauthorized)

text \<open>
  The game command \<open>/bind\<close> never shows a usable code: against a server
  with a token it prints the JSON error of the 401 answer, and against a
  server with the empty token, when the code is issued, it prints
  "Your code is " followed by nothing.
\<close>

theorem BindCommand_never_shows_code:
  "(server.accessToken srv \<noteq> '''' \<longrightarrow>
      BindCommand_Run api env srv (PlayerSource x) = Some (srv, ''unexpected end of JSON input'')) \<and>
   (server.accessToken srv = '''' \<longrightarrow>
      Service_IssueCode (IterOrder env) (RandReads env) (Now1 env) (Now2 env) (srv_service srv) x = Some (s', Ok r) \<longrightarrow>
      BindCommand_Run api env srv (PlayerSource x) = Some (srv\<lparr>srv_service := s'\<rparr>, ''Your code is ''))"
  by (simp add: BindCommand_Run_def Api_IssueCode_unauthorized Api_IssueCode_success zero_CodeInformation_def)


subsection \<open>The configuration file\<close>

lemma readConfig_absent:
  assumes "fs_files fs ''config.toml'' = None"
  shows "readConfig denv fs =
           (case toml_Marshal denv (DefaultConfig denv) of
              Inl err \<Rightarrow> (fs, Inl (Errorf_v ''encode default config: '' err))
            | Inr data \<Rightarrow>
                (case fs_write_error fs of
                   None \<Rightarrow> (fs\<lparr>fs_files := (fs_files fs)(''config.toml'' \<mapsto> data)\<rparr>,
                            UserConfig_Config denv (DefaultConfig denv))
                 | Some err \<Rightarrow> (fs, Inl (Errorf_v ''create default config: '' err))))"
  using assms by (simp add: readConfig_def os_IsNotExist_Stat_def os_WriteFile_def split: sum.split option.split)

lemma readConfig_present:
  assumes "fs_files fs ''config.toml'' = Some data" "fs_read_error fs = None"
  shows "readConfig denv fs =
           (fs, case toml_Unmarshal denv data (DefaultConfig denv) of
                  Inl err \<Rightarrow> Inl (Errorf_v ''decode config: '' err)
                | Inr c' \<Rightarrow> UserConfig_Config denv c')"
  using assms by (simp add: readConfig_def os_IsNotExist_Stat_def os_ReadFile_def split: sum.split)

text \<open>
  \<open>readConfig\<close> changes the file system at most by writing the encoded
  default configuration to \<open>config.toml\<close>, and only when that file is absent.
\<close>

lemma readConfig_frame:
  "fst (readConfig denv fs) = fs \<or>
   (\<exists>data. fs_files fs ''config.toml'' = None \<and> toml_Marshal denv (DefaultConfig denv) = Inr data \<and>
      fst (readConfig denv fs) = fs\<lparr>fs_files := (fs_files fs)(''config.toml'' \<mapsto> data)\<rparr>)"
proof (cases "fs_files fs ''config.toml''")
  case None
  then show ?thesis
    by (simp add: readConfig_absent split: sum.split option.split)
next
  case (Some data)
  then show ?thesis
    by (simp add: readConfig_def os_IsNotExist_Stat_def os_ReadFile_def split: sum.split option.split)
qed

text \<open>
  C16: The first start of the plugin on a file system without
  \<open>config.toml\<close> writes the TOML encoding of the default configuration there
  and uses the default; every later start reads that file back and, when
  decoding the encoding of the default into the default gives the default
  again, uses the same configuration and leaves the file system as it is.
\<close>

theorem readConfig_roundtrip:
  assumes absent: "fs_files fs ''config.toml'' = None"
    and io: "fs_write_error fs = None" "fs_read_error fs = None"
    and enc: "toml_Marshal denv (DefaultConfig denv) = Inr data"
    and dec: "toml_Unmarshal denv data (DefaultConfig denv) = Inr (DefaultConfig denv)"
  shows "readConfig denv fs = (fs\<lparr>fs_files := (fs_files fs)(''config.toml'' \<mapsto> data)\<rparr>,
                                UserConfig_Config denv (DefaultConfig denv)) \<and>
         readConfig denv (fst (readConfig denv fs)) = readConfig denv fs"
proof -
  have first: "readConfig denv fs = (fs\<lparr>fs_files := (fs_files fs)(''config.toml'' \<mapsto> data)\<rparr>,
                                      UserConfig_Config denv (DefaultConfig denv))"
    using readConfig_absent [OF absent, of denv] enc io by simp
  have "readConfig denv (fs\<lparr>fs_files := (fs_files fs)(''config.toml'' \<mapsto> data)\<rparr>) =
          (fs\<lparr>fs_files := (fs_files fs)(''config.toml'' \<mapsto> data)\<rparr>, UserConfig_Config denv (DefaultConfig denv))"
    using readConfig_present [of "fs\<lparr>fs_files := (fs_files fs)(''config.toml'' \<mapsto> data)\<rparr>" data denv] io dec
    by simp
  with first show ?thesis by simp
qed

text \<open>
  Against the server example, the plugin panics in \<open>NewApi\<close> before it
  reads or creates its configuration file.
\<close>

lemma dragonfly_startup_example:
  "dragonfly_startup env example_main_server denv fs =
     Some (example_main_server, fs, StartPanic (PanicErr (OtherError ''can't access http://127.0.0.1:8080'')))"
  by (simp add: dragonfly_startup_def dragonfly_main_def NewApi_unauthorized)

lemma readConfig_roundtrip_witness:
  "readConfig \<lparr>DefaultConfig = '':19132'', toml_Marshal = \<lambda>c. Inr (''Address = '' @ c),
               toml_Unmarshal = \<lambda>d c. if take 10 d = ''Address = '' then Inr (drop 10 d)
                                       else Inl (OtherError ''toml: expected key''),
               UserConfig_Config = \<lambda>c. Inr (''listening on '' @ c)\<rparr>
     \<lparr>fs_files = Map.empty, fs_write_error = None, fs_read_error = None\<rparr> =
     (\<lparr>fs_files = [''config.toml'' \<mapsto> ''Address = :19132''], fs_write_error = None, fs_read_error = None\<rparr>,
      Inr ''listening on :19132'') \<and>
   readConfig \<lparr>DefaultConfig = '':19132'', toml_Marshal = \<lambda>c. Inr (''Address = '' @ c),
               toml_Unmarshal = \<lambda>d c. if take 10 d = ''Address = '' then Inr (drop 10 d)
                                       else Inl (OtherError ''toml: expected key''),
               UserConfig_Config = \<lambda>c. Inr (''listening on '' @ c)\<rparr>
     \<lparr>fs_files = [''config.toml'' \<mapsto> ''Address = :19132''], fs_write_error = None, fs_read_error = None\<rparr> =
     (\<lparr>fs_files = [''config.toml'' \<mapsto> ''Address = :19132''], fs_write_error = None, fs_read_error = None\<rparr>,
      Inr ''listening on :19132'')"
proof -
  let ?fs = "\<lparr>fs_files = Map.empty, fs_write_error = None, fs_read_error = None\<rparr>"
  let ?denv = "\<lparr>DefaultConfig = '':19132'', toml_Marshal = \<lambda>c. Inr (''Address = '' @ c),
               toml_Unmarshal = \<lambda>d c. if take 10 d = ''Address = '' then Inr (drop 10 d)
                                       else Inl (OtherError ''toml: expected key''),
               UserConfig_Config = \<lambda>c. Inr (''listening on '' @ c)\<rparr> :: (string, string) dragonfly_env"
  have absent: "fs_files ?fs ''config.toml'' = None" by simp
  have io: "fs_write_error ?fs = None" "fs_read_error ?fs = None" by simp_all
  have enc: "toml_Marshal ?denv (DefaultConfig ?denv) = Inr ''Address = :19132''" by simp
  have dec: "toml_Unmarshal ?denv ''Address = :19132'' (DefaultConfig ?denv) = Inr (DefaultConfig ?denv)" by simp
  have r: "readConfig ?denv ?fs = (?fs\<lparr>fs_files := (fs_files ?fs)(''config.toml'' \<mapsto> ''Address = :19132'')\<rparr>,
                                   UserConfig_Config ?denv (DefaultConfig ?denv)) \<and>
           readConfig ?denv (fst (readConfig ?denv ?fs)) = readConfig ?denv ?fs"
    by (rule readConfig_roundtrip [OF absent io enc dec])
  have e1: "?fs\<lparr>fs_files := (fs_files ?fs)(''config.toml'' \<mapsto> ''Address = :19132'')\<rparr> =
            \<lparr>fs_files = [''config.toml'' \<mapsto> ''Address = :19132''], fs_write_error = None, fs_read_error = None\<rparr>"
    by simp
  have e2: "UserConfig_Config ?denv (DefaultConfig ?denv) = Inr ''listening on :19132''" by simp
  note r1 = conjunct1 [OF r, unfolded e1 e2]
  note r2 = conjunct2 [OF r, unfolded r1 fst_conv]
  from r1 r2 show ?thesis by (rule conjI)
qed

subsection \<open>Starting the server example\<close>

lemma placeholder_not_snowflake: "\<not> is_snowflake ''leave-empty-if-global''"
  by (simp add: is_snowflake_def)

lemma placeholder_guild_refused:
  assumes "list_all is_snowflake guilds"
  shows "discord_ApplicationCommandCreate guilds ''leave-empty-if-global'' cmd = None"
proof -
  have "''leave-empty-if-global'' \<notin> set guilds"
    using assms placeholder_not_snowflake by (auto simp: list_all_iff)
  then show ?thesis by (simp add: discord_ApplicationCommandCreate_def)
qed

text \<open>
  C15: The server example never serves with its commands registered: it
  passes the placeholder \<open>"leave-empty-if-global"\<close> as guild ID, which is
  neither empty (global commands) nor the snowflake ID of a guild, so Discord
  refuses the first command and \<open>RegisterCommands\<close> panics; with a bot token
  the gateway refuses, \<open>NewServer\<close> panics first.
\<close>

theorem example_main_panics:
  assumes "list_all is_snowflake guilds"
  shows "example_main session_opens (discord_ApplicationCommandCreate guilds) =
           Panic (PanicErr (OtherError (if session_opens ''Bot token''
                                         then ''discordgo: ApplicationCommandCreate failed''
                                         else ''discordgo: could not open the session'')))"
proof (cases "session_opens ''Bot token''")
  case True
  have "hd bot_commands \<in> set bot_commands" by (simp add: bot_commands_def)
  then have "RegisterCommands (discord_ApplicationCommandCreate guilds) b ''leave-empty-if-global'' =
               Panic (PanicErr (OtherError ''discordgo: ApplicationCommandCreate failed''))" for b
    using RegisterCommands_fails placeholder_guild_refused [OF assms] by blast
  with True show ?thesis by (simp add: example_main_def NewServer_Bot_def NewBot_def)
next
  case False
  then show ?thesis by (simp add: example_main_def NewServer_Bot_def NewBot_def)
qed

lemma example_main_panics_witness:
  "list_all is_snowflake [''1234567890''] \<and>
   (example_main (\<lambda>_. True) (discord_ApplicationCommandCreate [''1234567890'']) :: (unit server \<times> Bot) outcome) =
     Panic (PanicErr (OtherError ''discordgo: ApplicationCommandCreate failed''))"
proof -
  have g: "list_all is_snowflake [''1234567890'']" by (simp add: is_snowflake_def)
  from example_main_panics [OF g, where session_opens = "\<lambda>_. True"] g show ?thesis by simp
qed

subsection \<open>The server example without its listener\<close>

lemma ServeWeb_listen: "ServeWeb listenAndServe s addr = listenAndServe addr"
  by (simp add: ServeWeb_def GetHttpHandler_def)

lemma example_process_started:
  assumes "example_main session_opens create = Ok (srv :: 'w server, b)"
  shows "example_process session_opens create listenAndServe (w0 :: 'w) es =
           map_option (\<lambda>(st, rs). Ok (st, rs, [''Shutting the server down'']))
             (run_process (listenAndServe '':8080'' = None) (srv, w0) es)"
  using assms by (simp add: example_process_def ServeWeb_listen)

subsection \<open>The accept loop of the Dragonfly example\<close>

lemma accept_loop_stop: "\<not> accept k \<Longrightarrow> accept_loop accept k = Some k"
  by (subst accept_loop.simps) simp

lemma accept_loop_next: "accept k \<Longrightarrow> accept_loop accept k = accept_loop accept (Suc k)"
  by (subst accept_loop.simps) simp

lemma accept_loop_first:
  "k \<le> j \<Longrightarrow> \<not> accept j \<Longrightarrow> (\<forall>i. k \<le> i \<longrightarrow> i < j \<longrightarrow> accept i) \<Longrightarrow> accept_loop accept k = Some j"
proof (induction "j - k" arbitrary: k)
  case 0
  then show ?case by (simp add: accept_loop_stop)
next
  case (Suc d)
  then have "k < j" "accept k" by auto
  moreover have "accept_loop accept (Suc k) = Some j"
    using Suc.hyps(2) Suc.prems \<open>k < j\<close> by (intro Suc.hyps(1)) auto
  ultimately show ?case by (simp add: accept_loop_next)
qed

lemma accept_loop_Some:
  assumes "accept_loop accept k = Some r"
  shows "k \<le> r \<and> \<not> accept r \<and> (\<forall>i. k \<le> i \<longrightarrow> i < r \<longrightarrow> accept i)"
proof (rule accept_loop.raw_induct
    [where P = "\<lambda>accept k r. k \<le> r \<and> \<not> accept r \<and> (\<forall>i. k \<le> i \<longrightarrow> i < r \<longrightarrow> accept i)", OF _ assms])
  fix f :: "(nat \<Rightarrow> bool) \<Rightarrow> nat \<Rightarrow> nat option" and accept k r
  assume IH: "\<And>accept k r. f accept k = Some r \<Longrightarrow>
                k \<le> r \<and> \<not> accept r \<and> (\<forall>i. k \<le> i \<longrightarrow> i < r \<longrightarrow> accept i)"
    and eq: "(if accept k then f accept (Suc k) else Some k) = Some r"
  show "k \<le> r \<and> \<not> accept r \<and> (\<forall>i. k \<le> i \<longrightarrow> i < r \<longrightarrow> accept i)"
  proof (cases "accept k")
    case True
    with eq have h: "Suc k \<le> r \<and> \<not> accept r \<and> (\<forall>i. Suc k \<le> i \<longrightarrow> i < r \<longrightarrow> accept i)"
      by (intro IH) simp
    have "accept i" if "k \<le> i" "i < r" for i
      using that True h by (cases "i = k") auto
    with h show ?thesis by auto
  next
    case False
    with eq show ?thesis by simp
  qed
qed

text \<open>
  The Dragonfly example, once started, returns exactly when its server is
  closed, after as many accepted players as \<open>Accept\<close> returned \<open>True\<close> before.
\<close>

lemma accept_loop_terminates_iff:
  "(\<exists>r. accept_loop accept k = Some r) \<longleftrightarrow> (\<exists>j\<ge>k. \<not> accept j)"
proof
  assume "\<exists>r. accept_loop accept k = Some r"
  then show "\<exists>j\<ge>k. \<not> accept j" using accept_loop_Some by blast
next
  assume "\<exists>j\<ge>k. \<not> accept j"
  then obtain j where "k \<le> j" "\<not> accept j" "\<forall>i. k \<le> i \<longrightarrow> i < j \<longrightarrow> \<not> \<not> accept i"
    by (rule first_from)
  then show "\<exists>r. accept_loop accept k = Some r" using accept_loop_first by auto
qed

end
