(* ===== verification/Spec2Isabelle.thy ===== *)
theory Spec2Isabelle
  imports System Concurrency ServiceRace Examples
begin

text \<open>
  \<^bold>\<open>A verification development of go-df-discord.\<close>
  The program binds Minecraft (Xbox Live) accounts, identified by a XUID, to
  Discord accounts. A game server asks the HTTP API for a six-character
  one-time code for a XUID (\<open>POST /codes/issue\<close>); the player types
  \<open>/bind code\<close> in Discord; the bot checks the code, stores the binding in a
  SQLite table and revokes the code; \<open>/unbind\<close> removes it; the API answers
  lookups by Discord ID or XUID. Both front ends call one \<open>Service\<close>, which
  owns the code store (in memory) and the repository (GORM over SQLite).

  \<^bold>\<open>Theories and what they model\<close> (all under \<open>src/\<close>):
  \<^item> \<open>Prelude\<close>: shared types (bytes as \<open>8 word\<close>, time in nanoseconds), and
    the model of a Go \<open>range\<close> over a map with early return
    (\<open>find_first_key\<close> over an explicit iteration order \<open>iteration_order\<close>),
    the first stop of a retry loop (\<open>first_from\<close>), and counting the residues
    of the 256 byte values (\<open>count_mod\<close>, \<open>card_byte_unat\<close>).
  \<^item> \<open>Errors\<close>: \<open>server/errors.go\<close> and \<open>utils/errors.go\<close>. A Go call that
    may fail or panic returns an \<open>outcome\<close>: \<open>Ok\<close>, \<open>Err\<close> (a returned
    \<open>error\<close>, an \<open>ApplicationError\<close> or another kind), or \<open>Panic\<close>.
    \<open>GetNumberFirstDigits\<close> is modelled with \<open>strconv.Itoa\<close>/\<open>Atoi\<close>, which are
    written from the Go documentation.
  \<^item> \<open>Codes\<close>: \<open>server/codes.go\<close>, the record \<open>default_code_store\<close> (a map from
    code to \<open>code_information\<close>) with \<open>GetInformation\<close>, \<open>GetForXuid\<close>,
    \<open>Issue\<close>, \<open>Revoke\<close>, \<open>findFreeCode\<close> and \<open>generateCode\<close>, and \<open>run_codes\<close>
    dispatching the \<open>CodeStore\<close> interface. The store has no
    lock; each call is atomic here, and theory \<open>Concurrency\<close> splits the calls
    that check and then insert.
  \<^item> \<open>Repository\<close>: \<open>server/repository.go\<close>, the table as the list of
    \<open>UserData\<close> rows in primary-key order with the soft-delete flag of
    \<open>gorm.Model\<close>, and the five methods; \<open>run_repo\<close> dispatches the
    \<open>Repository\<close> interface. The GORM calls (\<open>First\<close>, \<open>Create\<close>, soft
    \<open>Delete\<close>) are modelled from GORM's documented behaviour.
  \<^item> \<open>Service\<close>: \<open>server/service.go\<close>, every method (\<open>Service_\<dots>\<close>); the
    new-user callbacks are functions on an abstract world \<open>'w\<close>.
  \<^item> \<open>Bot\<close>: \<open>server/bot.go\<close>, \<open>NewBot\<close>, the commands and the registration loop
    of \<open>RegisterCommands\<close>, the \<open>bind\<close> and \<open>unbind\<close> handlers, the option map
    and the dispatch; \<open>i.Member\<close> is an option, so its nil dereference is a
    panic of the model, and the Discord API is a parameter (whether a session
    opens, what \<open>ApplicationCommandCreate\<close> returns) with its delivery
    contract \<open>discord_delivers\<close>.
  \<^item> \<open>Server\<close>: \<open>server/server.go\<close> and \<open>server/opts.go\<close>, the six routes
    (\<open>route_handler\<close>), \<open>authMiddleware\<close>, \<open>recoveryMiddleware\<close> and their
    composition \<open>serve\<close>, the payloads, \<open>FillEmptyOpts\<close> and \<open>NewServer\<close>
    (\<open>NewServer_Bot\<close> with the bot it opens), \<open>GetHttpHandler\<close> and
    \<open>ServeWeb\<close>, with \<open>http.ListenAndServe\<close> a parameter (the error it
    returns when it cannot listen).
  \<^item> \<open>System\<close>: \<open>examples/server.go\<close>, the process as a state machine:
    \<open>system_step\<close> runs one whole HTTP request, Discord command, handler
    registration or restart (which keeps \<open>test.db\<close> and loses the codes and
    handlers), and a Discord handler that panics ends the process (discordgo
    calls handlers without \<open>recover\<close>); \<open>serial_reachable\<close> is the
    inductive set of states reached from \<open>NewServer_Bot\<close> with the default
    options and an opened session when the events run one at a time, the
    serial execution the specification (section 5) requires of the stores,
    which hold no lock. \<open>run_process\<close> runs the events with or without the
    listener of \<open>ServeWeb\<close> (\<open>web_step\<close>: without it no HTTP request
    reaches \<open>serve\<close>).
  \<^item> \<open>Concurrency\<close>: goroutines running \<open>Issue\<close> and \<open>CreateUser\<close> split at
    their check and their insert (\<open>thread_step\<close>), interleaved by an explicit
    schedule (\<open>run_schedule\<close>, an instance of the generic runner
    \<open>run_steps\<close>); a thread run alone is the atomic operation.
  \<^item> \<open>ServiceRace\<close>: \<open>Service.IssueCode\<close> split at its bound-XUID check,
    beside whole Discord interactions (\<open>svc_step\<close>), under the same runner;
    run alone the split call is \<open>Service_IssueCode\<close>.
  \<^item> \<open>Client\<close>: \<open>client/api.go\<close>, every method of \<open>Api\<close>, composed with the
    server through \<open>deliver\<close>: gin's router (\<open>gin_route\<close>), the headers the
    server reads, resty's path parameters (\<open>SetPathParams\<close>), and the decoding
    of the answer (\<open>json_Unmarshal\<close>, \<open>mapstructure_Decode_\<dots>\<close>), written from
    the libraries' documentation.
  \<^item> \<open>Examples\<close>: \<open>examples/server.go\<close>'s server (\<open>example_main_server\<close>),
    its \<open>main\<close> up to serving (\<open>example_main\<close>: \<open>NewServer_Bot\<close>, then
    \<open>RegisterCommands\<close> against Discord's contract
    \<open>discord_ApplicationCommandCreate\<close>), its whole \<open>main\<close>
    (\<open>example_process\<close>: start, \<open>ServeWeb\<close> in a goroutine, the events until
    the signal, the shutdown log line), and
    \<open>examples/dragonfly.go\<close>'s \<open>main\<close> and \<open>/bind\<close> game command, which use
    the client, and \<open>readConfig\<close> over an abstract file system
    (\<open>os_IsNotExist_Stat\<close>, \<open>os_WriteFile\<close>, \<open>os_ReadFile\<close>) with go-toml and
    the Dragonfly configuration as parameters (\<open>dragonfly_env\<close>);
    \<open>dragonfly_startup\<close> composes \<open>main\<close> up to the server loop and
    \<open>dragonfly_run\<close> adds \<open>logger.Fatalln\<close> and the accept loop
    (\<open>accept_loop\<close>).
  \<^item> This theory: the properties spanning the components and the scenario of
    the specification.

  \<^bold>\<open>What is shown.\<close> Invariants: each component has a well-formedness
  predicate (\<open>code_store_inv\<close>, \<open>repo_inv\<close>, \<open>service_inv\<close>) preserved by every
  operation, and by rule induction every state of the program reached under
  serial execution satisfies \<open>service_inv\<close>, so live bindings are
  one-to-one and no bound XUID holds a code (the concurrent schedules below
  show that the unlocked code needs that serial execution). Refinement: the repository methods implement a contract on the
  set of (Discord, XUID) bindings. Functional and error behaviour of every
  branch of the code store, the repository, the service, the bot commands and
  the routes, including the defects listed below. Termination: the retry loop
  of \<open>findFreeCode\<close> returns exactly when some draw fails or is free. Bounds:
  every HTTP answer has status 200, 400, 401, 404 or 500, and the status
  extraction \<open>GetNumberFirstDigits\<close> is correct on five-digit codes and
  panics below three digits; each byte value picks one character of the
  33-character alphabet, the first 25 from 8 byte values and the other 8 from
  7 (the modulo bias of \<open>generateCode\<close>). Round trip: \<open>Atoi (Itoa n) = n\<close>; the
  client's \<open>GetUserByXUID\<close> reaches the server's route with the XUID it was
  given and answers whether that XUID is bound; and the Dragonfly plugin reads back the configuration file its first start wrote.
  Equivalence: \<open>GetNumberFirstDigits\<close> agrees on every 64-bit \<open>int\<close> with the
  arithmetic reference \<open>first_digits_ref\<close>. Type: every stored code in a
  serially reached state is six characters of the alphabet. Liveness: from every
  serially reached state an issue followed by a bind binds an unbound pair, once the
  random source yields a free code. Races: the schedules of theory
  \<open>Concurrency\<close> that break the uniqueness of codes and of bindings, and the
  schedule of theory \<open>ServiceRace\<close> in which a code is issued to a XUID bound
  between \<open>IssueCode\<close>'s check and its \<open>Issue\<close>.

  \<^bold>\<open>Environment and fuel.\<close> Nondeterminism of the Go runtime is a parameter:
  the order in which a \<open>range\<close> visits the code map (any \<open>iteration_order\<close>;
  \<open>GetForXuid\<close> is proved independent of it on well-formed stores), the
  successive results of \<open>crypto/rand.Read\<close> (\<open>rand_source\<close>, \<open>None\<close> a failed
  read) and the two clock readings of \<open>Issue\<close>. \<open>findFreeCode\<close> loops for as
  long as the random source yields codes in use, so it is a
  \<open>partial_function (option)\<close> without fuel: \<open>None\<close> is divergence, and its
  termination is characterised exactly rather than bounded. The accept loop
  of the Dragonfly example is modelled the same way: it returns exactly when
  some call of \<open>Accept\<close> reports the server closed.

  \<^bold>\<open>Defects the development exhibits.\<close> \<open>Issue\<close> returns \<open>s.codes[xuid]\<close>, so
  issuing a code answers \<open>data: null\<close>; a command sent outside a guild
  panics on \<open>i.Member\<close>; the alphabet has 33 characters, not 34, and is drawn
  with modulo bias; an expired code still blocks a new \<open>Issue\<close> for its XUID;
  two concurrent
  \<open>Issue\<close> or \<open>CreateUser\<close> calls for one XUID can both succeed, and a \<open>/bind\<close>
  completing inside \<open>IssueCode\<close> leaves a bound XUID holding a code; the client never
  sends the access token, decodes the payload wrapper instead of its data, and
  asks for the literal Discord ID \<open>{discord}\<close>, so the Dragonfly example
  cannot start against the server example; and the server example registers
  its commands for the placeholder guild ID \<open>"leave-empty-if-global"\<close>, so it
  panics at start, and drops the error of \<open>ServeWeb\<close> (\<open>ServeWeb_listen\<close>).

  \<^bold>\<open>Not modelled.\<close> The Dragonfly server itself (what \<open>Accept\<close> does for a
  player, its command registry filled by \<open>cmd.Register\<close>, the chat and the
  logger) and the contents of its configuration, which go-toml encodes
  (game-server I/O and libraries the sources only call); the discordgo
  gateway beyond the parameters of theory \<open>Bot\<close>; the socket behind
  \<open>http.ListenAndServe\<close> (whether it listens is a parameter, and \<open>serve\<close> is
  the handler it runs); the signal the server example waits for, which is the
  end of its event list; the JSON encoding (a payload is the
  Go value before encoding, and the client reads it back unchanged); network
  failures other than a closed connection; logging; database I/O errors.
  Interleavings inside handlers are modelled only for the two
  check-then-insert sequences of theory \<open>Concurrency\<close> and the check of
  \<open>IssueCode\<close> in theory \<open>ServiceRace\<close>; the state machine
  of theory \<open>System\<close> runs each event to completion.
\<close>

definition scenario_log_handler :: "string list NewUserHandler" where
  "scenario_log_handler = (\<lambda>user log. log @ [User.Discord user])"

definition scenario_env :: "string list \<Rightarrow> issue_env" where
  "scenario_env order = \<lparr>IterOrder = order, RandReads = (\<lambda>_. Some [0, 1, 2, 33, 34, 255]), Now1 = 5, Now2 = 7\<rparr>"

definition scenario_request :: "route \<Rightarrow> string \<Rightarrow> request" where
  "scenario_request r body = \<lparr>Authorization = ''secret'', Route = r, RawData = Some body\<rparr>"

definition scenario_start :: "string list system" where
  "scenario_start = (NewServer ''secret'' ''bot-token'' DefaultOpts, [])"

definition scenario_bind :: "string list event list" where
  "scenario_bind =
     [RegisterHandler scenario_log_handler,
      HttpRequest (scenario_env []) (scenario_request RouteCodesIssue ''XUID-1''),
      HttpRequest (scenario_env [''01201P'']) (scenario_request RouteCodesCheck ''01201P''),
      DiscordInteraction \<lparr>MemberUserID = Some ''disc-1'', CommandName = ''bind'', Options = [(''code'', ''01201P'')]\<rparr>]"

definition scenario_unbind :: "string list event list" where
  "scenario_unbind =
     [HttpRequest (scenario_env []) (scenario_request RouteCodesCheck ''01201P''),
      HttpRequest (scenario_env []) (scenario_request RouteCodesIssue ''XUID-1''),
      DiscordInteraction \<lparr>MemberUserID = Some ''disc-1'', CommandName = ''unbind'', Options = []\<rparr>,
      HttpRequest (scenario_env []) (scenario_request (RouteUsersXuid ''XUID-1'') '''')]"

lemmas scenario_simps =
  scenario_log_handler_def scenario_env_def scenario_request_def scenario_start_def
  scenario_bind_def scenario_unbind_def
  system_step_def serve_def authMiddleware_def route_handler_def recoveryMiddleware_def
  write_status_def Service_IssueCode_def Service_CheckCode_eq Service_RevokeCode_def Service_GetUserByXUID_def
  Service_CreateUser_def Service_DeleteUserByDiscord_def Issue_def GetForXuid_def findFreeCode_stops
  GetInformation_def Revoke_def on_interaction_def bind_handler_def unbind_handler_def option_map_def
  CreateUser_def db_first_def live_rows_def db_create_def db_delete_def run_handlers_def AddHandler_def
  NewServer_def DefaultOpts_def FillEmptyOpts_def NewService_def NewDefaultRepository_def DeleteUserByDiscord_def
  GetUserByXUID_def GetUserByDiscord_def user_not_found_def code_not_found_def already_bound_def
  NewApplicationError_def SuccessPayload_def FailurePayload_def reply_error_def Let_def ToUser_simps
  event_ok_def iteration_order_def

lemma scenario_bind_run:
  "\<exists>srv. run_events scenario_start scenario_bind =
     Some ((srv, [''disc-1'']),
       [NoReply,
        HttpReply (Response 200 (JsonBody (SuccessPayload (DataCode None)))),
        HttpReply (Response 200 (JsonBody (SuccessPayload (DataCode (Some
          \<lparr>Code = ''01201P'', XUID = ''XUID-1'', Issued = 5, Expires = 7 + code_validity\<rparr>))))),
        DiscordReply (Ok ''Binding has been created successfully'')]) \<and>
     bindings (repo (srv_service srv)) = {(''disc-1'', ''XUID-1'')} \<and>
     codes (codeStr (srv_service srv)) = Map.empty \<and>
     events_ok (srv, [''disc-1'']) scenario_unbind"
  by (simp add: scenario_simps model_simps bindings_def fun_eq_iff) auto

lemma scenario_bind_ok: "events_ok scenario_start scenario_bind"
  by (simp add: scenario_simps model_simps)

lemma scenario_bind_reachable:
  "\<exists>srv. serial_reachable (\<lambda>_. True) ''secret'' ''bot-token'' [] (srv, [''disc-1'']) \<and>
         bindings (repo (srv_service srv)) = {(''disc-1'', ''XUID-1'')}"
proof -
  obtain srv rs where run: "run_events scenario_start scenario_bind = Some ((srv, [''disc-1'']), rs)"
    and b: "bindings (repo (srv_service srv)) = {(''disc-1'', ''XUID-1'')}"
    using scenario_bind_run by blast
  have "serial_reachable (\<lambda>_. True) ''secret'' ''bot-token'' [] scenario_start"
    unfolding scenario_start_def by (rule serial_reachable_start) simp
  then have "serial_reachable (\<lambda>_. True) ''secret'' ''bot-token'' [] (srv, [''disc-1''])"
    using scenario_bind_ok run by (rule run_events_reachable)
  with b show ?thesis by blast
qed

text \<open>
  The scenario of the specification, end to end. A game server asks for a
  code for \<open>XUID-1\<close>: the code \<open>01201P\<close> is stored, but the answer's data is
  \<open>null\<close> (the result of \<open>Issue\<close> is looked up under the XUID). Checking the
  code returns its information; \<open>/bind 01201P\<close> by \<open>disc-1\<close> creates the binding,
  runs the registered handler once and revokes the code, so checking it again
  answers 404 and a new code for \<open>XUID-1\<close> is refused with 400 naming
  \<open>disc-1\<close>; \<open>/unbind\<close> removes the binding, after which looking up \<open>XUID-1\<close>
  answers 404.
\<close>

theorem end_to_end_scenario:
  "\<exists>srv. run_events scenario_start (scenario_bind @ scenario_unbind) =
     Some ((srv, [''disc-1'']),
       [NoReply,
        HttpReply (Response 200 (JsonBody (SuccessPayload (DataCode None)))),
        HttpReply (Response 200 (JsonBody (SuccessPayload (DataCode (Some
          \<lparr>Code = ''01201P'', XUID = ''XUID-1'', Issued = 5, Expires = 7 + code_validity\<rparr>))))),
        DiscordReply (Ok ''Binding has been created successfully''),
        HttpReply (Response 404 (JsonBody (FailurePayload (NewApplicationError 40400 ''Code doesn't exist'')))),
        HttpReply (Response 400 (JsonBody (FailurePayload
          (NewApplicationError 40000 ''Minecraft account is already bound to ID disc-1'')))),
        DiscordReply (Ok ''Binding has been removed successfully''),
        HttpReply (Response 404 (JsonBody (FailurePayload (NewApplicationError 40400 ''User not found''))))]) \<and>
     bindings (repo (srv_service srv)) = {} \<and> codes (codeStr (srv_service srv)) = Map.empty"
  by (simp add: scenario_simps model_simps bindings_def fun_eq_iff)

text \<open>
  C1: Under the serial execution the specification requires of the stores
  (section 5: every check-then-insert atomic), that is when each HTTP request
  and Discord command is handled to completion before the next, every state
  the program reaches from \<open>NewServer\<close> through the routes, the commands,
  handler registration and restarts has a well-formed service: the live
  bindings are one-to-one, every stored code is a well-formed six-character
  code under its own key, no XUID holds two codes, and no bound XUID holds a
  code. The code itself takes no lock, and the concurrent schedules of
  theories \<open>Concurrency\<close> and \<open>ServiceRace\<close> break this invariant; this is
  what the required serialisation buys.
\<close>

theorem reachable_service_inv:
  assumes "serial_reachable session_opens token botToken w0 st"
  shows "service_inv (srv_service (fst st))"
  using assms by (rule reachable_inv)

lemma reachable_service_inv_witness:
  "\<exists>srv. serial_reachable (\<lambda>_. True) ''secret'' ''bot-token'' [] (srv, [''disc-1'']) \<and> service_inv (srv_service srv)"
  using scenario_bind_reachable reachable_service_inv [of "\<lambda>_. True" "''secret''" "''bot-token''" "[]"] by fastforce

text \<open>
  C7: From every reachable state, a player whose XUID is unbound and holds no
  code, and a guild member whose Discord ID is unbound, can always complete the
  bind flow: the game server's \<open>POST /codes/issue\<close> followed by \<open>/bind\<close> with
  the stored code leads to a reachable state in which the two accounts are
  bound, as soon as the random source yields a free code.
\<close>

theorem bind_always_possible:
  assumes reach: "serial_reachable session_opens token botToken w0 (srv, w)"
    and unb: "x \<notin> snd ` bindings (repo (srv_service srv))" and free: "d \<notin> fst ` bindings (repo (srv_service srv))"
    and nocode: "\<forall>c i. codes (codeStr (srv_service srv)) c = Some i \<longrightarrow> code_information.XUID i \<noteq> x"
    and ord: "iteration_order (codes (codeStr (srv_service srv))) (IterOrder env)"
    and f: "findFreeCode (codeStr (srv_service srv)) (RandReads env) 0 = Some (Ok g)"
  shows "\<exists>srv' w' rs. run_events (srv, w)
            [HttpRequest env \<lparr>Authorization = server.accessToken srv, Route = RouteCodesIssue, RawData = Some x\<rparr>,
             DiscordInteraction \<lparr>MemberUserID = Some d, CommandName = ''bind'', Options = [(''code'', g)]\<rparr>] =
            Some ((srv', w'), rs) \<and>
          serial_reachable session_opens token botToken w0 (srv', w') \<and> (d, x) \<in> bindings (repo (srv_service srv'))"
proof -
  let ?e1 = "HttpRequest env \<lparr>Authorization = server.accessToken srv, Route = RouteCodesIssue, RawData = Some x\<rparr>"
  let ?e2 = "DiscordInteraction \<lparr>MemberUserID = Some d, CommandName = ''bind'', Options = [(''code'', g)]\<rparr>"
  let ?info = "\<lparr>Code = g, XUID = x, Issued = Now1 env, Expires = Now2 env + code_validity\<rparr>"
  let ?srv1 = "srv\<lparr>srv_service := (srv_service srv)\<lparr>codeStr := (codeStr (srv_service srv))\<lparr>codes :=
                   (codes (codeStr (srv_service srv)))(g \<mapsto> ?info)\<rparr>\<rparr>\<rparr>"
  obtain resp where s1: "system_step (srv, w) ?e1 = Some ((?srv1, w), HttpReply resp)"
    using issue_event [OF unb nocode ord f] by blast
  have ok1: "event_ok (srv, w) ?e1" using ord by (simp add: event_ok_def)
  have r1: "serial_reachable session_opens token botToken w0 (?srv1, w)" using reach ok1 s1 by (rule serial_reachable.step)
  have inv1: "service_inv (srv_service ?srv1)" using reachable_inv [OF r1] by simp
  obtain srv' w' where s2: "system_step (?srv1, w) ?e2 = Some ((srv', w'), DiscordReply (Ok ''Binding has been created successfully''))"
    and b: "(d, x) \<in> bindings (repo (srv_service srv'))"
    using bind_event [OF inv1, of g ?info d w] free by auto
  have "serial_reachable session_opens token botToken w0 (srv', w')" using r1 _ s2 by (rule serial_reachable.step) (simp add: event_ok_def)
  with s1 s2 b show ?thesis by auto
qed


lemma bind_always_possible_witness:
  "\<exists>srv' w' rs. run_events (NewServer ''secret'' ''bot-token'' DefaultOpts, [] :: string list)
      [HttpRequest (scenario_env []) \<lparr>Authorization = ''secret'', Route = RouteCodesIssue, RawData = Some ''XUID-1''\<rparr>,
       DiscordInteraction \<lparr>MemberUserID = Some ''disc-1'', CommandName = ''bind'', Options = [(''code'', ''01201P'')]\<rparr>] =
      Some ((srv', w'), rs) \<and>
    serial_reachable (\<lambda>_. True) ''secret'' ''bot-token'' [] (srv', w') \<and> (''disc-1'', ''XUID-1'') \<in> bindings (repo (srv_service srv'))"
proof -
  let ?srv = "NewServer ''secret'' ''bot-token'' DefaultOpts :: string list server"
  have s: "srv_service ?srv = NewService NewDefaultRepository newDefaultCodeStore"
    by (simp add: NewServer_service DefaultOpts_def FillEmptyOpts_def)
  have t: "server.accessToken ?srv = ''secret''" by (simp add: NewServer_def Let_def)
  have f: "findFreeCode (codeStr (srv_service ?srv)) (RandReads (scenario_env [])) 0 = Some (Ok ''01201P'')"
    by (simp add: s NewService_def scenario_env_def findFreeCode_stops model_simps)
  have r: "serial_reachable (\<lambda>_. True) ''secret'' ''bot-token'' [] (?srv, [])" by (rule serial_reachable_start) simp
  have u: "''XUID-1'' \<notin> snd ` bindings (repo (srv_service ?srv))" "''disc-1'' \<notin> fst ` bindings (repo (srv_service ?srv))"
    by (simp_all add: s NewService_def NewDefaultRepository_def bindings_def live_rows_def)
  have n: "\<forall>c i. codes (codeStr (srv_service ?srv)) c = Some i \<longrightarrow> code_information.XUID i \<noteq> ''XUID-1''"
    by (simp add: s NewService_def newDefaultCodeStore_def)
  have o: "iteration_order (codes (codeStr (srv_service ?srv))) (IterOrder (scenario_env []))"
    by (simp add: s NewService_def newDefaultCodeStore_def iteration_order_def scenario_env_def)
  from bind_always_possible [OF r u n o f] show ?thesis by (simp only: t)
qed




end
